(* ===== verification/Prelude.thy ===== *)
theory Prelude
  imports Complex_Main "HOL-Library.Monad_Syntax"
begin

text \<open>
  Shared vocabulary of the development: the few JavaScript built-ins the extension's
  TypeScript relies on, written as executable HOL functions over \<open>string\<close>
  (\<open>char list\<close>) and lists, with the lemmas the component theories share.
  \<^item> \<open>split_on c s\<close> is \<open>s.split(c)\<close> for a one-character separator: \<open>n\<close>
    separators give \<open>n + 1\<close> pieces, and \<open>''''.split(c)\<close> is \<open>['']\<close>;
  \<^item> \<open>join_with sep xs\<close> is \<open>xs.join(sep)\<close>;
  \<^item> \<open>starts_with p s\<close> is \<open>s.startsWith(p)\<close>;
  \<^item> \<open>js_slice0 xs n\<close> is \<open>xs.slice(0, n)\<close> with JavaScript's reading of a
    negative end;
  \<^item> \<open>string_of_int\<close> is the decimal rendering of an integer in a template literal;
  \<^item> \<open>js_or\<close> is \<open>a || b\<close> on strings (the empty string is falsy);
  \<^item> \<open>js_index0 xs\<close> is \<open>xs[0]\<close> on an array, \<open>None\<close> standing for
    \<open>undefined\<close>.
\<close>

named_theorems js_simps "evaluation rules of the JavaScript built-ins"

type_synonym js_string = string

subsection \<open>Splitting and joining\<close>

fun split_on :: "char \<Rightarrow> string \<Rightarrow> string list" where
  "split_on c [] = [[]]"
| "split_on c (x # xs) =
     (if x = c then [] # split_on c xs
      else (case split_on c xs of
              [] \<Rightarrow> [[x]]
            | w # ws \<Rightarrow> (x # w) # ws))"

fun join_with :: "string \<Rightarrow> string list \<Rightarrow> string" where
  "join_with sep [] = []"
| "join_with sep [x] = x"
| "join_with sep (x # y # zs) = x @ sep @ join_with sep (y # zs)"

definition starts_with :: "string \<Rightarrow> string \<Rightarrow> bool" where
  "starts_with p s \<longleftrightarrow> take (length p) s = p"

definition js_or :: "string \<Rightarrow> string \<Rightarrow> string" where
  "js_or a b = (if a \<noteq> [] then a else b)"

definition js_index0 :: "'a list \<Rightarrow> 'a option" where
  "js_index0 xs = (case xs of [] \<Rightarrow> None | x # _ \<Rightarrow> Some x)"

definition js_slice0 :: "'a list \<Rightarrow> int \<Rightarrow> 'a list" where
  "js_slice0 xs n =
     take (if 0 \<le> n then nat n else nat (max (int (length xs) + n) 0)) xs"

text \<open>\<open>xs.findIndex(p)\<close>, \<open>None\<close> standing for \<open>-1\<close>.\<close>

fun js_findIndex :: "('a \<Rightarrow> bool) \<Rightarrow> 'a list \<Rightarrow> nat option" where
  "js_findIndex p [] = None"
| "js_findIndex p (x # xs) = (if p x then Some 0 else map_option Suc (js_findIndex p xs))"

subsection \<open>Decimal rendering\<close>

definition digit_char :: "nat \<Rightarrow> char" where
  "digit_char d = char_of (48 + d)"

fun string_of_nat :: "nat \<Rightarrow> string" where
  "string_of_nat n =
     (if n < 10 then [digit_char n] else string_of_nat (n div 10) @ [digit_char (n mod 10)])"

definition string_of_int :: "int \<Rightarrow> string" where
  "string_of_int i =
     (if 0 \<le> i then string_of_nat (nat i) else CHR ''-'' # string_of_nat (nat (- i)))"

declare string_of_nat.simps [simp del]

subsection \<open>Lemmas on the built-ins\<close>

lemma split_on_not_Nil [simp]: "split_on c s \<noteq> []"
  by (induction s) (auto split: list.splits)

lemma split_on_no_sep [simp]: "c \<notin> set s \<Longrightarrow> split_on c s = [s]"
  by (induction s) auto

lemma split_on_Cons_other:
  "x \<noteq> c \<Longrightarrow> split_on c (x # xs) = (x # hd (split_on c xs)) # tl (split_on c xs)"
  by (cases "split_on c xs") auto

text \<open>
  The lemma that lets a fold over the pieces of a concatenation be split, in the manner
  of \<open>exec_append\<close> for a compiled instruction list: a separator in the middle
  splits the pieces exactly there.
\<close>

lemma split_on_append_sep [js_simps]:
  "split_on c (xs @ c # ys) = split_on c xs @ split_on c ys"
proof (induction xs)
  case Nil
  then show ?case by simp
next
  case (Cons x xs)
  show ?case
  proof (cases "x = c")
    case True
    with Cons.IH show ?thesis by simp
  next
    case False
    obtain w ws where w: "split_on c xs = w # ws"
      by (cases "split_on c xs") auto
    with Cons.IH False show ?thesis by simp
  qed
qed

lemma split_on_snoc_sep:
  "split_on c (xs @ [c]) = split_on c xs @ [[]]"
  using split_on_append_sep [of c xs "[]"] by simp

lemma join_with_Cons:
  "xs \<noteq> [] \<Longrightarrow> join_with sep (x # xs) = x @ sep @ join_with sep xs"
  by (cases xs) auto

lemma join_with_append:
  "xs \<noteq> [] \<Longrightarrow> ys \<noteq> [] \<Longrightarrow>
   join_with sep (xs @ ys) = join_with sep xs @ sep @ join_with sep ys"
proof (induction xs)
  case Nil
  then show ?case by simp
next
  case (Cons x xs)
  then show ?case by (cases "xs = []") (simp_all add: join_with_Cons)
qed

lemma join_split_on [js_simps]: "join_with [c] (split_on c s) = s"
proof (induction s)
  case Nil
  then show ?case by simp
next
  case (Cons x xs)
  show ?case
  proof (cases "x = c")
    case True
    with Cons.IH show ?thesis by (simp add: join_with_Cons)
  next
    case False
    obtain w ws where w: "split_on c xs = w # ws"
      by (cases "split_on c xs") auto
    show ?thesis
    proof (cases ws)
      case Nil
      with Cons.IH w False show ?thesis by simp
    next
      case (Cons w' ws')
      with Cons.IH w False show ?thesis by simp
    qed
  qed
qed

lemma split_on_join [js_simps]:
  "xs \<noteq> [] \<Longrightarrow> (\<forall>x \<in> set xs. c \<notin> set x) \<Longrightarrow> split_on c (join_with [c] xs) = xs"
proof (induction xs)
  case Nil
  then show ?case by simp
next
  case (Cons x xs)
  then show ?case
    by (cases "xs = []") (simp_all add: join_with_Cons split_on_append_sep)
qed

lemma split_on_join_concat:
  "xs \<noteq> [] \<Longrightarrow> split_on c (join_with [c] xs) = concat (map (split_on c) xs)"
proof (induction xs)
  case Nil
  then show ?case by simp
next
  case (Cons x xs)
  then show ?case
    by (cases "xs = []") (simp_all add: join_with_Cons split_on_append_sep)
qed

lemma set_join_with: "set (join_with sep xs) \<subseteq> set sep \<union> \<Union> (set ` set xs)"
  by (induction xs rule: join_with.induct) auto

lemma starts_with_Cons_iff:
  "starts_with (p # ps) (c # cs) \<longleftrightarrow> p = c \<and> starts_with ps cs"
  by (auto simp: starts_with_def)

lemma not_starts_with_hd:
  "p \<noteq> [] \<Longrightarrow> hd p \<notin> set s \<Longrightarrow> s \<noteq> [] \<Longrightarrow> \<not> starts_with p s"
  by (cases p; cases s) (auto simp: starts_with_Cons_iff)

lemma starts_with_append [simp]: "starts_with p (p @ s)"
  by (simp add: starts_with_def)

lemma starts_with_length:
  assumes "starts_with p s"
  shows "length p \<le> length s"
proof -
  from assms have "length (take (length p) s) = length p"
    by (simp add: starts_with_def)
  then show ?thesis by simp
qed

lemma starts_with_drop_shorter:
  "p \<noteq> [] \<Longrightarrow> starts_with p s \<Longrightarrow> length s - length p < length s"
  by (drule starts_with_length) (cases p; simp)

lemma starts_with_Nil_iff [simp]: "starts_with p [] \<longleftrightarrow> p = []"
  by (auto simp: starts_with_def)

lemma js_slice0_nonneg [simp]: "0 \<le> n \<Longrightarrow> js_slice0 xs n = take (nat n) xs"
  by (simp add: js_slice0_def)

lemma js_index0_simps [simp]: "js_index0 [] = None" "js_index0 (x # xs) = Some x"
  by (simp_all add: js_index0_def)

lemma js_or_simps [simp]: "js_or [] b = b" "js_or (x # xs) b = x # xs" "js_or a [] = a"
  by (simp_all add: js_or_def)

lemma digit_char_simps [js_simps]:
  "digit_char 0 = CHR ''0''" "digit_char (Suc 0) = CHR ''1''" "digit_char 2 = CHR ''2''"
  "digit_char 3 = CHR ''3''" "digit_char 4 = CHR ''4''" "digit_char 5 = CHR ''5''"
  "digit_char 6 = CHR ''6''" "digit_char 7 = CHR ''7''" "digit_char 8 = CHR ''8''"
  "digit_char 9 = CHR ''9''"
  by (simp_all add: digit_char_def char_of_def bit_simps)

lemma string_of_nat_not_Nil [simp]: "string_of_nat n \<noteq> []"
  by (subst string_of_nat.simps) simp

lemma string_of_nat_small: "n < 10 \<Longrightarrow> string_of_nat n = [digit_char n]"
  by (subst string_of_nat.simps) simp

lemma string_of_nat_digits: "set (string_of_nat n) \<subseteq> digit_char ` {0..<10}"
proof (induction n rule: string_of_nat.induct)
  case (1 n)
  then show ?case by (subst string_of_nat.simps) auto
qed

end
