(* ===== verification/Types.thy ===== *)
theory Types
  imports Prelude
begin

text \<open>
  The data model of \<open>src/chrome-extension/src/types/index.ts\<close>: each TypeScript string
  union is a datatype with the union's members as constructors, each interface a record
  with the interface's fields. Model identifiers stay strings: the TypeScript union
  \<open>AIModel\<close> is closed at compile time, but the value the engine reads comes from
  \<open>chrome.storage\<close>, and \<open>getProviderForModel\<close> has a branch for identifiers
  outside it. An optional field (\<open>modelOverride?\<close>, \<open>tokens?\<close>) is an
  \<open>option\<close>. The \<open>providers\<close> record of \<open>Settings\<close> is an association list,
  because \<open>executeRephrase\<close> walks it with \<open>Object.entries\<close>, whose order is the
  order in which the keys were inserted.
\<close>

datatype provider = OpenAI | Gemini | Groq | DeepSeek

type_synonym model_id = string

record provider_config =
  pc_id :: provider
  pc_name :: string
  enabled :: bool
  apiKey :: string
  models :: "model_id list"
  baseUrl :: string

datatype tone = Professional | Casual | Neutral | Strict

record prompt_template =
  system :: string
  instruction :: string
  tone :: tone
  maxWords :: int
  rules :: "string list"

record prompt_card =
  card_id :: string
  title :: string
  description :: string
  template :: prompt_template
  variables :: "string list"
  modelOverride :: "model_id option"
  order :: int
  createdAt :: int
  updatedAt :: int

text \<open>
  \<open>HistoryEntry.model\<close> and \<open>AIResponse.model\<close> are the model the adapter was
  called with. On the fallback path that is \<open>config.models[0]\<close>, which is
  \<open>undefined\<close> when the configured list is empty: hence \<open>model_id option\<close>.
\<close>

record history_entry =
  h_id :: string
  cardId :: string
  h_input :: string
  h_output :: string
  h_model :: "model_id option"
  h_provider :: provider
  timestamp :: int
  h_tokens :: "(int \<times> int) option"

record page_context =
  selection :: string
  pageTitle :: string
  pageUrl :: string
  pageContent :: string

datatype ui_mode = Popup | Sidepanel

datatype theme = Dark | Light | SystemTheme

record settings =
  defaultModel :: model_id
  defaultProvider :: provider
  providers :: "(provider \<times> provider_config) list"
  uiMode :: ui_mode
  historySize :: int
  theme :: theme

datatype role = System | User | Assistant

record chat_message =
  role :: role
  content :: string

record ai_response =
  r_content :: string
  r_model :: "model_id option"
  r_provider :: provider
  r_tokens :: "(int \<times> int) option"

text \<open>
  Errors an \<open>onError\<close> callback can receive, kept apart by kind: an
  \<open>Error\<close> built by the code with its message, a \<open>TypeError\<close> from a property read
  on \<open>null\<close> or \<open>undefined\<close>, a \<open>SyntaxError\<close> from \<open>JSON.parse\<close>, and a
  transport failure of \<open>fetch\<close> or \<open>reader.read()\<close> with the runtime's message.
\<close>

datatype js_error = ErrorMsg string | TypeErr | SyntaxErr | NetworkErr string

text \<open>
  \<open>StreamCallbacks\<close>: the three callbacks are modelled by the sequence of calls made
  to them, in order.
\<close>

datatype event = OnToken string | OnComplete ai_response | OnError js_error

text \<open>\<open>settings.providers[p]\<close>: \<open>None\<close> is \<open>undefined\<close>.\<close>

definition provider_lookup :: "settings \<Rightarrow> provider \<Rightarrow> provider_config option" where
  "provider_lookup s p = map_of (providers s) p"

definition usable :: "provider_config \<Rightarrow> bool" where
  "usable c \<longleftrightarrow> enabled c \<and> apiKey c \<noteq> []"

lemma usable_iff [simp]: "usable c \<longleftrightarrow> enabled c \<and> apiKey c \<noteq> []"
  by (simp add: usable_def)

end
