(* ===== verification/Registry.thy ===== *)
theory Registry
  imports Types
begin

text \<open>
  The provider registry of \<open>lib/providers/adapters.ts\<close>: \<open>getProviderForModel\<close>
  classifies a model identifier by four fixed lists and sends every other identifier to
  OpenAI. \<open>provider_models p\<close> is the list tested for \<open>p\<close>, in the order the
  function tests them. The lemmas show that the four lists partition the known
  identifiers, so every known identifier has exactly one provider, and that every other
  identifier is sent to OpenAI. The landing page's provider table lists the same lists.
\<close>

definition provider_models :: "provider \<Rightarrow> model_id list" where
  "provider_models p = (case p of
      OpenAI \<Rightarrow> [''gpt-4o-mini'', ''gpt-4.1'', ''gpt-3.5-turbo'']
    | Gemini \<Rightarrow> [''gemini-1.5-flash'', ''gemini-1.5-pro'']
    | Groq \<Rightarrow> [''llama-3.1-70b'', ''mixtral-8x7b'']
    | DeepSeek \<Rightarrow> [''deepseek-chat'', ''deepseek-coder''])"

definition getProviderForModel :: "model_id \<Rightarrow> provider" where
  "getProviderForModel m =
     (if m \<in> set (provider_models OpenAI) then OpenAI
      else if m \<in> set (provider_models Gemini) then Gemini
      else if m \<in> set (provider_models Groq) then Groq
      else if m \<in> set (provider_models DeepSeek) then DeepSeek
      else OpenAI)"

definition known_models :: "model_id set" where
  "known_models = (\<Union>p. set (provider_models p))"

text \<open>The provider table of the web site's landing page (\<open>src/src/pages/Index.tsx\<close>).\<close>

definition landing_providers :: "(string \<times> model_id list) list" where
  "landing_providers = [
     (''OpenAI'', [''gpt-4o-mini'', ''gpt-4.1'', ''gpt-3.5-turbo'']),
     (''Gemini'', [''gemini-1.5-flash'', ''gemini-1.5-pro'']),
     (''Groq'', [''llama-3.1-70b'', ''mixtral-8x7b'']),
     (''DeepSeek'', [''deepseek-chat'', ''deepseek-coder''])]"

lemma UNIV_provider: "(UNIV :: provider set) = {OpenAI, Gemini, Groq, DeepSeek}"
  using provider.exhaust by auto

lemma known_models_eq:
  "known_models = set (provider_models OpenAI) \<union> set (provider_models Gemini) \<union>
     set (provider_models Groq) \<union> set (provider_models DeepSeek)"
  by (auto simp: known_models_def UNIV_provider)

lemma provider_models_disjoint:
  "p \<noteq> q \<Longrightarrow> set (provider_models p) \<inter> set (provider_models q) = {}"
  by (cases p; cases q) (simp_all add: provider_models_def)

text \<open>A listed identifier is classified as the provider whose list holds it.\<close>

lemma getProviderForModel_listed:
  assumes m: "m \<in> set (provider_models p)"
  shows "getProviderForModel m = p"
proof (cases p)
  case OpenAI
  with m show ?thesis by (simp add: getProviderForModel_def)
next
  case Gemini
  with m provider_models_disjoint [of Gemini OpenAI] show ?thesis
    by (auto simp: getProviderForModel_def)
next
  case Groq
  with m provider_models_disjoint [of Groq OpenAI] provider_models_disjoint [of Groq Gemini]
  show ?thesis by (auto simp: getProviderForModel_def)
next
  case DeepSeek
  with m provider_models_disjoint [of DeepSeek OpenAI]
    provider_models_disjoint [of DeepSeek Gemini] provider_models_disjoint [of DeepSeek Groq]
  show ?thesis by (auto simp: getProviderForModel_def)
qed

text \<open>C23. Every known model identifier has exactly one provider: the list it belongs
  to is the one \<open>getProviderForModel\<close> returns.\<close>

theorem getProviderForModel_partition:
  "m \<in> set (provider_models p) \<longleftrightarrow> m \<in> known_models \<and> getProviderForModel m = p"
proof
  assume m: "m \<in> set (provider_models p)"
  then show "m \<in> known_models \<and> getProviderForModel m = p"
    by (auto simp: known_models_def getProviderForModel_listed)
next
  assume "m \<in> known_models \<and> getProviderForModel m = p"
  then show "m \<in> set (provider_models p)"
    by (auto simp: known_models_eq getProviderForModel_def split: if_splits)
qed

text \<open>An identifier outside the four lists is not rejected: it is sent to OpenAI.\<close>

theorem getProviderForModel_unknown:
  "m \<notin> known_models \<Longrightarrow> getProviderForModel m = OpenAI"
  by (simp add: known_models_eq getProviderForModel_def)

theorem getProviderForModel_unknown_witness:
  "''gpt-5'' \<notin> known_models \<and> getProviderForModel ''gpt-5'' = OpenAI"
proof -
  have h: "''gpt-5'' \<notin> known_models"
    by (simp add: known_models_eq provider_models_def)
  show ?thesis using h getProviderForModel_unknown [OF h] by simp
qed

text \<open>The landing page advertises exactly the registry's models, provider by provider,
  in the order \<open>getProviderForModel\<close> tests them.\<close>

lemma landing_providers_registry:
  "map snd landing_providers = map provider_models [OpenAI, Gemini, Groq, DeepSeek]"
  by (simp add: landing_providers_def provider_models_def)

end
