(* ===== verification/PromptCompiler.thy ===== *)
theory PromptCompiler
  imports Types
begin

text \<open>
  The prompt template compiler, the private methods \<open>buildSystemPrompt\<close> and
  \<open>interpolateVariables\<close> and the public \<open>buildMessages\<close> of class
  \<open>PromptEngine\<close> in \<open>lib/prompt-engine.ts\<close>.

  \<open>interpolateVariables\<close> calls \<open>String.prototype.replace\<close> with a global regular
  expression that matches one literal placeholder, four times in a row. The model
  writes that built-in out: \<open>js_replace_all pat rep s\<close> scans \<open>s\<close> from the left,
  replaces each non-overlapping occurrence of \<open>pat\<close> and expands the replacement
  string as ECMAScript's GetSubstitution does (\<open>$$\<close>, \<open>$&\<close>, \<open>$`\<close> and
  \<open>$'\<close> are special; with no capture groups every other \<open>$\<close> is literal).
\<close>

subsection \<open>String.prototype.replace with a literal global pattern\<close>

fun expand_replacement :: "string \<Rightarrow> string \<Rightarrow> string \<Rightarrow> string \<Rightarrow> string" where
  "expand_replacement [] m b a = []"
| "expand_replacement [c] m b a = [c]"
| "expand_replacement (c # d # r) m b a =
     (if c = CHR ''$'' \<and> d = CHR ''$'' then CHR ''$'' # expand_replacement r m b a
      else if c = CHR ''$'' \<and> d = CHR ''&'' then m @ expand_replacement r m b a
      else if c = CHR ''$'' \<and> d = CHR 0x60 then b @ expand_replacement r m b a
      else if c = CHR ''$'' \<and> d = CHR 0x27 then a @ expand_replacement r m b a
      else c # expand_replacement (d # r) m b a)"

text \<open>
  \<open>replace_scan pat rep prev rest\<close>: \<open>prev\<close> is the part of the subject already
  scanned and \<open>rest\<close> the part still to scan; a match is replaced by the expansion of
  \<open>rep\<close>, with the matched text, the subject before it and the subject after it.
\<close>

function replace_scan :: "string \<Rightarrow> string \<Rightarrow> string \<Rightarrow> string \<Rightarrow> string" where
  "replace_scan pat rep prev rest =
     (if pat \<noteq> [] \<and> starts_with pat rest then
        expand_replacement rep pat prev (drop (length pat) rest) @
        replace_scan pat rep (prev @ pat) (drop (length pat) rest)
      else (case rest of
              [] \<Rightarrow> []
            | c # cs \<Rightarrow> c # replace_scan pat rep (prev @ [c]) cs))"
  by pat_completeness auto
termination
  by (relation "measure (\<lambda>(pat, rep, prev, rest). length rest)")
    (auto intro: starts_with_drop_shorter)

declare replace_scan.simps [simp del]

definition js_replace_all :: "string \<Rightarrow> string \<Rightarrow> string \<Rightarrow> string" where
  "js_replace_all pat rep s = replace_scan pat rep [] s"

fun occurs :: "string \<Rightarrow> string \<Rightarrow> bool" where
  "occurs pat [] \<longleftrightarrow> pat = []"
| "occurs pat (c # cs) \<longleftrightarrow> starts_with pat (c # cs) \<or> occurs pat cs"

subsection \<open>The compiler\<close>

definition tone_instruction :: "tone \<Rightarrow> string" where
  "tone_instruction t = (case t of
      Professional \<Rightarrow> ''Use a professional and formal tone.''
    | Casual \<Rightarrow> ''Use a casual and friendly tone.''
    | Neutral \<Rightarrow> ''Use a neutral and objective tone.''
    | Strict \<Rightarrow> ''Be strict and precise. Follow instructions exactly.'')"

definition word_limit_prefix :: string where
  "word_limit_prefix = ''Keep your response under ''"

definition word_limit_line :: "int \<Rightarrow> string" where
  "word_limit_line n = word_limit_prefix @ string_of_int n @ '' words.''"

definition rules_header :: string where
  "rules_header = ''\<newline>Rules to follow:''"

definition bullet :: "string \<Rightarrow> string" where
  "bullet r = ''- '' @ r"

text \<open>The array \<open>parts\<close> of \<open>buildSystemPrompt\<close>, in the order it is filled.\<close>

definition system_parts :: "prompt_template \<Rightarrow> string list" where
  "system_parts t =
     (if system t \<noteq> [] then [system t] else []) @
     [tone_instruction (tone t)] @
     (if maxWords t > 0 then [word_limit_line (maxWords t)] else []) @
     (if rules t \<noteq> [] then rules_header # map bullet (rules t) else [])"

definition buildSystemPrompt :: "prompt_template \<Rightarrow> string" where
  "buildSystemPrompt t = join_with ''\<newline>'' (system_parts t)"

definition interpolateVariables :: "string \<Rightarrow> page_context \<Rightarrow> string" where
  "interpolateVariables text ctx =
     js_replace_all ''{{pageContent}}'' (js_or (pageContent ctx) [])
      (js_replace_all ''{{pageUrl}}'' (js_or (pageUrl ctx) [])
        (js_replace_all ''{{pageTitle}}'' (js_or (pageTitle ctx) [])
          (js_replace_all ''{{selection}}'' (js_or (selection ctx) []) text)))"

definition buildMessages :: "prompt_card \<Rightarrow> string \<Rightarrow> page_context \<Rightarrow> chat_message list" where
  "buildMessages c input ctx =
     (let systemPrompt = buildSystemPrompt (template c);
          instr = interpolateVariables (instruction (template c)) ctx;
          userContent =
            (if input \<noteq> [] then instr @ ''\<newline>\<newline>'' @ input
             else instr @ ''\<newline>\<newline>'' @ js_or (js_or (selection ctx) (pageContent ctx)) [])
      in [\<lparr>role = System, content = systemPrompt\<rparr>, \<lparr>role = User, content = userContent\<rparr>])"

subsection \<open>Lemmas on the replacement scan\<close>

lemma replace_scan_Nil [simp]: "pat \<noteq> [] \<Longrightarrow> replace_scan pat rep prev [] = []"
  by (subst replace_scan.simps) simp

lemma replace_scan_match:
  "pat \<noteq> [] \<Longrightarrow> replace_scan pat rep prev (pat @ rest) =
     expand_replacement rep pat prev rest @ replace_scan pat rep (prev @ pat) rest"
  by (subst replace_scan.simps) simp

lemma replace_scan_step:
  "\<not> starts_with pat (c # cs) \<Longrightarrow>
   replace_scan pat rep prev (c # cs) = c # replace_scan pat rep (prev @ [c]) cs"
  by (subst replace_scan.simps) simp

text \<open>A stretch that does not contain the first character of the pattern is copied.\<close>

lemma replace_scan_skip:
  assumes "pat \<noteq> []" and "hd pat \<notin> set x"
  shows "replace_scan pat rep prev (x @ rest) = x @ replace_scan pat rep (prev @ x) rest"
  using assms(2)
proof (induction x arbitrary: prev)
  case Nil
  then show ?case by simp
next
  case (Cons c x)
  from assms(1) Cons.prems have "\<not> starts_with pat (c # x @ rest)"
    by (cases pat) (auto simp: starts_with_Cons_iff)
  then have "replace_scan pat rep prev ((c # x) @ rest) =
      c # replace_scan pat rep (prev @ [c]) (x @ rest)"
    by (simp add: replace_scan_step)
  with Cons show ?case by simp
qed

lemma replace_scan_no_hd:
  "pat \<noteq> [] \<Longrightarrow> hd pat \<notin> set s \<Longrightarrow> replace_scan pat rep prev s = s"
  using replace_scan_skip [of pat s rep prev "[]"] by simp

lemma replace_scan_no_occurs:
  "pat \<noteq> [] \<Longrightarrow> \<not> occurs pat s \<Longrightarrow> replace_scan pat rep prev s = s"
proof (induction s arbitrary: prev)
  case Nil
  then show ?case by simp
next
  case (Cons c cs)
  then show ?case by (simp add: replace_scan_step)
qed

lemma expand_replacement_no_dollar:
  "CHR ''$'' \<notin> set r \<Longrightarrow> expand_replacement r m b a = r"
  by (induction r m b a rule: expand_replacement.induct) auto

lemma replace_scan_join:
  assumes "pat \<noteq> []" and "CHR ''$'' \<notin> set rep" and "\<forall>x \<in> set xs. hd pat \<notin> set x"
  shows "replace_scan pat rep prev (join_with pat xs) = join_with rep xs"
  using assms(3)
proof (induction xs arbitrary: prev)
  case Nil
  from assms(1) show ?case by simp
next
  case (Cons x xs)
  show ?case
  proof (cases "xs = []")
    case True
    with Cons.prems assms(1) show ?thesis
      using replace_scan_no_hd [of pat x rep prev] by simp
  next
    case False
    from Cons.prems have x: "hd pat \<notin> set x" by simp
    have "replace_scan pat rep prev (join_with pat (x # xs)) =
        x @ replace_scan pat rep (prev @ x) (pat @ join_with pat xs)"
      using False replace_scan_skip [OF assms(1) x] by (simp add: join_with_Cons)
    also have "\<dots> = x @ rep @ join_with rep xs"
      using Cons assms(1,2) by (simp add: replace_scan_match expand_replacement_no_dollar)
    finally show ?thesis using False by (simp add: join_with_Cons)
  qed
qed

lemmas replace_lemmas = js_replace_all_def replace_scan_no_hd replace_scan_no_occurs
  replace_scan_join

subsection \<open>The system prompt and the interpolation\<close>

lemma digit_char_not_newline:
  assumes "d < 10"
  shows "digit_char d \<noteq> CHR ''\<newline>''"
proof
  assume "digit_char d = CHR ''\<newline>''"
  then have "(of_char (digit_char d) :: nat) = of_char CHR ''\<newline>''" by simp
  moreover have "(of_char (digit_char d) :: nat) = 48 + d"
    using assms by (simp add: digit_char_def)
  ultimately show False by simp
qed

lemma newline_not_in_string_of_nat: "CHR ''\<newline>'' \<notin> set (string_of_nat k)"
proof
  assume "CHR ''\<newline>'' \<in> set (string_of_nat k)"
  with string_of_nat_digits [of k] obtain d where "d < 10" "digit_char d = CHR ''\<newline>''"
    by auto
  with digit_char_not_newline show False by blast
qed

lemma string_of_int_no_newline: "CHR ''\<newline>'' \<notin> set (string_of_int n)"
  by (simp add: string_of_int_def newline_not_in_string_of_nat)

lemma system_parts_not_Nil: "system_parts t \<noteq> []"
  by (simp add: system_parts_def)

lemma lines_buildSystemPrompt:
  "split_on CHR ''\<newline>'' (buildSystemPrompt t) = concat (map (split_on CHR ''\<newline>'') (system_parts t))"
  by (simp add: buildSystemPrompt_def split_on_join_concat system_parts_not_Nil)

lemma lines_tone: "split_on CHR ''\<newline>'' (tone_instruction x) = [tone_instruction x]"
  by (cases x) (simp_all add: tone_instruction_def)

lemma lines_word_limit: "split_on CHR ''\<newline>'' (word_limit_line n) = [word_limit_line n]"
  using string_of_int_no_newline by (simp add: word_limit_line_def word_limit_prefix_def)

lemma lines_rules_header: "split_on CHR ''\<newline>'' rules_header = [[], ''Rules to follow:'']"
  by (simp add: rules_header_def)

lemma lines_bullet: "CHR ''\<newline>'' \<notin> set r \<Longrightarrow> split_on CHR ''\<newline>'' (bullet r) = [bullet r]"
  by (simp add: bullet_def)

lemma lines_bullets:
  "\<forall>r \<in> set rs. CHR ''\<newline>'' \<notin> set r \<Longrightarrow>
   concat (map (split_on CHR ''\<newline>'' \<circ> bullet) rs) = map bullet rs"
  by (induction rs) (simp_all add: lines_bullet)

text \<open>For a non-empty rule list whose rules are single lines, the compiled system
  prompt ends with an empty line, the header line \<open>Rules to follow:\<close> and one bullet
  line \<open>- rule\<close> per rule, in the order of the list.\<close>

theorem buildSystemPrompt_rules_section:
  assumes "rules t \<noteq> []" and "\<forall>r \<in> set (rules t). CHR ''\<newline>'' \<notin> set r"
  shows "\<exists>pre. split_on CHR ''\<newline>'' (buildSystemPrompt t) =
            pre @ [[], ''Rules to follow:''] @ map bullet (rules t)"
proof -
  let ?L = "split_on CHR ''\<newline>''"
  let ?A = "(if system t \<noteq> [] then [system t] else []) @ [tone_instruction (tone t)] @
     (if maxWords t > 0 then [word_limit_line (maxWords t)] else [])"
  have "system_parts t = ?A @ rules_header # map bullet (rules t)"
    using assms(1) by (simp add: system_parts_def)
  then have "?L (buildSystemPrompt t) =
      concat (map ?L ?A) @ [[], ''Rules to follow:''] @ map bullet (rules t)"
    using assms(2) by (simp add: lines_buildSystemPrompt lines_rules_header lines_bullets)
  then show ?thesis by blast
qed

lemma not_starts_tone: "\<not> starts_with word_limit_prefix (tone_instruction x)"
  by (cases x) (simp_all add: tone_instruction_def word_limit_prefix_def starts_with_def)

lemma starts_word_limit: "starts_with word_limit_prefix (word_limit_line n)"
  by (simp add: word_limit_line_def word_limit_prefix_def starts_with_def)

lemma not_starts_bullet: "\<not> starts_with word_limit_prefix (bullet r)"
  by (simp add: bullet_def word_limit_prefix_def starts_with_def)

lemma not_starts_header:
  "filter (starts_with word_limit_prefix) (split_on CHR ''\<newline>'' rules_header) = []"
  by (simp add: lines_rules_header word_limit_prefix_def starts_with_def)

text \<open>The lines of the compiled system prompt that start with
  \<open>Keep your response under\<close> are exactly one line naming \<open>maxWords\<close> when it is
  positive, and none when it is zero or negative (for a template whose own system text
  and rules do not contribute such a line).\<close>

theorem buildSystemPrompt_word_limit:
  assumes "\<forall>r \<in> set (rules t). CHR ''\<newline>'' \<notin> set r"
    and "\<forall>l \<in> set (split_on CHR ''\<newline>'' (system t)). \<not> starts_with word_limit_prefix l"
  shows "filter (starts_with word_limit_prefix) (split_on CHR ''\<newline>'' (buildSystemPrompt t)) =
           (if 0 < maxWords t then [word_limit_line (maxWords t)] else [])"
proof -
  have sys: "filter (starts_with word_limit_prefix) (split_on CHR ''\<newline>'' (system t)) = []"
    using assms(2) by (simp add: filter_empty_conv)
  have bul: "filter (starts_with word_limit_prefix) (map bullet (rules t)) = []"
    by (simp add: filter_empty_conv not_starts_bullet)
  show ?thesis
    using sys bul assms(1)
    by (simp add: lines_buildSystemPrompt system_parts_def lines_tone lines_word_limit
        not_starts_header lines_bullets not_starts_tone starts_word_limit)
qed

text \<open>\<open>interpolateVariables\<close> leaves a text that contains none of the four
  placeholders unchanged.\<close>

theorem interpolate_no_placeholder:
  assumes "\<not> occurs ''{{selection}}'' text" and "\<not> occurs ''{{pageTitle}}'' text"
    and "\<not> occurs ''{{pageUrl}}'' text" and "\<not> occurs ''{{pageContent}}'' text"
  shows "interpolateVariables text ctx = text"
  using assms by (simp add: interpolateVariables_def replace_lemmas)

text \<open>\<open>interpolateVariables\<close> replaces every occurrence of
  \<open>{{selection}}\<close>, repeats included, by the selection, when neither the text around
  the placeholders nor the selection contains a brace and the selection no \<open>$\<close>.\<close>

theorem interpolate_selection_every_occurrence:
  assumes "\<forall>x \<in> set xs. CHR ''{'' \<notin> set x"
    and "CHR ''$'' \<notin> set (selection ctx)" and "CHR ''{'' \<notin> set (selection ctx)"
  shows "interpolateVariables (join_with ''{{selection}}'' xs) ctx = join_with (selection ctx) xs"
proof -
  have j: "js_replace_all ''{{selection}}'' (selection ctx) (join_with ''{{selection}}'' xs) =
      join_with (selection ctx) xs"
    using assms(1,2) replace_scan_join [of "''{{selection}}''" "selection ctx" xs "[]"]
    by (simp add: js_replace_all_def)
  have "CHR ''{'' \<notin> set (join_with (selection ctx) xs)"
    using assms(1,3) set_join_with [of "selection ctx" xs] by blast
  with j show ?thesis
    by (simp add: interpolateVariables_def js_replace_all_def replace_scan_no_hd)
qed

text \<open>A replacement string whose first part holds no \<open>$\<close> keeps that part as it
  is.\<close>

lemma expand_replacement_plain_prefix:
  "CHR ''$'' \<notin> set u \<Longrightarrow> expand_replacement (u @ r) m b a = u @ expand_replacement r m b a"
proof (induction u)
  case (Cons c u)
  then show ?case by (cases "u @ r") auto
qed simp

lemma occurs_append_no_hd:
  "pat \<noteq> [] \<Longrightarrow> hd pat \<notin> set x \<Longrightarrow> occurs pat (x @ y) = occurs pat y"
  by (induction x) (auto simp: neq_Nil_conv starts_with_Cons_iff)

lemma not_occurs_no_hd: "pat \<noteq> [] \<Longrightarrow> hd pat \<notin> set y \<Longrightarrow> \<not> occurs pat y"
  using occurs_append_no_hd [of pat y "[]"] by simp

text \<open>The three later placeholders do not occur in a text whose only brace is one
  \<open>{{selection}}\<close>.\<close>

lemma other_placeholders_absent:
  assumes "CHR ''{'' \<notin> set x" and "CHR ''{'' \<notin> set y"
  shows "\<not> occurs ''{{pageTitle}}'' (x @ ''{{selection}}'' @ y)"
    "\<not> occurs ''{{pageUrl}}'' (x @ ''{{selection}}'' @ y)"
    "\<not> occurs ''{{pageContent}}'' (x @ ''{{selection}}'' @ y)"
  using assms by (simp_all add: occurs_append_no_hd starts_with_Cons_iff not_occurs_no_hd)

text \<open>C30. Finding: the selection is passed to \<open>String.prototype.replace\<close> as a
  replacement pattern. For every template text around a \<open>{{selection}}\<close> placeholder
  and every selection containing \<open>$&\<close>, the \<open>$&\<close> is expanded to the matched
  placeholder, so the instruction receives \<open>{{selection}}\<close> where the selection had
  \<open>$&\<close>, and the rest of the selection around it.\<close>

theorem interpolate_selection_dollar:
  assumes "CHR ''{'' \<notin> set pre" and "CHR ''{'' \<notin> set post"
    and "selection ctx = u @ ''$&'' @ v"
    and "CHR ''$'' \<notin> set u" and "CHR ''$'' \<notin> set v"
    and "CHR ''{'' \<notin> set u" and "CHR ''{'' \<notin> set v"
  shows "interpolateVariables (pre @ ''{{selection}}'' @ post) ctx = pre @ u @ ''{{selection}}'' @ v @ post"
proof -
  let ?pat = "''{{selection}}''" and ?rep = "u @ ''$&'' @ v"
  have rep: "js_or (selection ctx) [] = ?rep" using assms(3) by (simp add: js_or_def)
  have exp: "expand_replacement ?rep ?pat pre post = u @ ?pat @ v"
    using assms(4,5) by (simp add: expand_replacement_plain_prefix expand_replacement_no_dollar)
  have post: "replace_scan ?pat ?rep (pre @ ?pat) post = post"
    using assms(2) by (intro replace_scan_no_hd) simp_all
  have "js_replace_all ?pat ?rep (pre @ ?pat @ post) = pre @ replace_scan ?pat ?rep pre (?pat @ post)"
    unfolding js_replace_all_def using replace_scan_skip [of ?pat pre ?rep "[]" "?pat @ post"] assms(1)
    by simp
  also have "replace_scan ?pat ?rep pre (?pat @ post) =
      expand_replacement ?rep ?pat pre post @ replace_scan ?pat ?rep (pre @ ?pat) post"
    by (rule replace_scan_match) simp
  finally have sel: "js_replace_all ?pat ?rep (pre @ ?pat @ post) = (pre @ u) @ ?pat @ (v @ post)"
    unfolding exp post by simp
  have "CHR ''{'' \<notin> set (pre @ u)" "CHR ''{'' \<notin> set (v @ post)" using assms(1,2,6,7) by simp_all
  note absent = other_placeholders_absent [OF this]
  show ?thesis
    using rep sel absent by (simp add: interpolateVariables_def js_replace_all_def replace_scan_no_occurs)
qed

text \<open>Finding: the four replacements run one after the other over the growing
  text, so a selection that itself contains \<open>{{pageUrl}}\<close> has that part replaced by
  the page URL.\<close>

theorem interpolate_resubstitutes:
  "interpolateVariables ''{{selection}}''
     \<lparr>selection = ''{{pageUrl}}'', pageTitle = [], pageUrl = ''https://x'', pageContent = []\<rparr>
   = ''https://x''"
  by code_simp

subsection \<open>Witnesses\<close>

theorem interpolate_selection_dollar_witness:
  "interpolateVariables (''Fix: '' @ ''{{selection}}'' @ ''.'')
     \<lparr>selection = ''cost $& tax'', pageTitle = [], pageUrl = [], pageContent = []\<rparr> =
   ''Fix: cost {{selection}} tax.''"
  using interpolate_selection_dollar [of "''Fix: ''" "''.''" "\<lparr>selection = ''cost $& tax'', pageTitle = [],
      pageUrl = [], pageContent = []\<rparr>" "''cost ''" "'' tax''"]
  by simp

definition commit_template :: prompt_template where
  "commit_template = \<lparr>system = ''You are a senior developer writing commit messages.'',
     instruction = ''Write a concise git commit message for these changes:'', tone = Strict,
     maxWords = 50, rules = [''Be concise'', ''Output only the commit message'']\<rparr>"

theorem buildSystemPrompt_rules_section_witness:
  "rules commit_template \<noteq> [] \<and>
   (\<exists>pre. split_on CHR ''\<newline>'' (buildSystemPrompt commit_template) =
      pre @ [[], ''Rules to follow:''] @ map bullet (rules commit_template))"
proof -
  have h1: "rules commit_template \<noteq> []" by (simp add: commit_template_def)
  have h2: "\<forall>r \<in> set (rules commit_template). CHR ''\<newline>'' \<notin> set r"
    by (simp add: commit_template_def)
  show ?thesis using h1 h2 buildSystemPrompt_rules_section [OF h1 h2] by blast
qed

theorem buildSystemPrompt_word_limit_witness:
  "filter (starts_with word_limit_prefix) (split_on CHR ''\<newline>'' (buildSystemPrompt commit_template))
     = [word_limit_line 50]"
proof -
  have h1: "\<forall>r \<in> set (rules commit_template). CHR ''\<newline>'' \<notin> set r"
    by (simp add: commit_template_def)
  have h2: "\<forall>l \<in> set (split_on CHR ''\<newline>'' (system commit_template)).
      \<not> starts_with word_limit_prefix l"
    by (simp add: commit_template_def word_limit_prefix_def starts_with_def)
  have "maxWords commit_template = 50" by (simp add: commit_template_def)
  then show ?thesis using h1 h2 buildSystemPrompt_word_limit [OF h1 h2] by simp
qed

theorem interpolate_no_placeholder_witness:
  "\<not> occurs ''{{selection}}'' ''Fix {{name}}'' \<and> \<not> occurs ''{{pageTitle}}'' ''Fix {{name}}'' \<and>
   \<not> occurs ''{{pageUrl}}'' ''Fix {{name}}'' \<and> \<not> occurs ''{{pageContent}}'' ''Fix {{name}}'' \<and>
   interpolateVariables ''Fix {{name}}''
     \<lparr>selection = ''s'', pageTitle = ''t'', pageUrl = ''u'', pageContent = ''c''\<rparr> = ''Fix {{name}}''"
proof -
  have h1: "\<not> occurs ''{{selection}}'' ''Fix {{name}}''" by (simp add: starts_with_def)
  have h2: "\<not> occurs ''{{pageTitle}}'' ''Fix {{name}}''" by (simp add: starts_with_def)
  have h3: "\<not> occurs ''{{pageUrl}}'' ''Fix {{name}}''" by (simp add: starts_with_def)
  have h4: "\<not> occurs ''{{pageContent}}'' ''Fix {{name}}''" by (simp add: starts_with_def)
  show ?thesis using h1 h2 h3 h4 interpolate_no_placeholder [OF h1 h2 h3 h4] by blast
qed

theorem interpolate_selection_every_occurrence_witness:
  "CHR ''$'' \<notin> set ''abc'' \<and> CHR ''{'' \<notin> set ''abc'' \<and>
   interpolateVariables (join_with ''{{selection}}'' [''Fix '', '' and '', ''.''])
     \<lparr>selection = ''abc'', pageTitle = [], pageUrl = [], pageContent = []\<rparr> = ''Fix abc and abc.''"
proof -
  let ?ctx = "\<lparr>selection = ''abc'', pageTitle = [], pageUrl = [], pageContent = []\<rparr>"
  have h1: "\<forall>x \<in> set [''Fix '', '' and '', ''.'']. CHR ''{'' \<notin> set x" by simp
  have h2: "CHR ''$'' \<notin> set (selection ?ctx)" by simp
  have h3: "CHR ''{'' \<notin> set (selection ?ctx)" by simp
  show ?thesis using interpolate_selection_every_occurrence [OF h1 h2 h3] by simp
qed

end
