(* ===== verification/JsValue.thy ===== *)
theory JsValue
  imports Prelude
begin

text \<open>
  The JavaScript values the provider adapters read out of parsed JSON, and the property
  accesses they use. \<open>JSON.parse\<close> itself is a runtime built-in and stays a parameter
  of the adapters (\<open>string \<Rightarrow> json option\<close>, \<open>None\<close> for a \<open>SyntaxError\<close>);
  what is modelled is what the code does with its result:
  \<^item> \<open>js_get v k\<close> is \<open>v.k\<close>: a \<open>TypeError\<close> (\<open>None\<close>) on \<open>undefined\<close> and
    \<open>null\<close>, the last binding of \<open>k\<close> on an object (as \<open>JSON.parse\<close> keeps the last
    duplicate key), \<open>undefined\<close> on other values: none of the names the adapters read
    (\<open>choices\<close>, \<open>delta\<close>, \<open>content\<close>, \<open>error\<close>, \<open>message\<close>, ...) is a property
    of arrays, strings, numbers or booleans;
  \<^item> \<open>js_get_opt v k\<close> is \<open>v?.k\<close>, which yields \<open>undefined\<close> instead of throwing;
  \<^item> \<open>js_at0 v\<close> and \<open>js_at0_opt v\<close> are \<open>v[0]\<close> and \<open>v?.[0]\<close>;
  \<^item> \<open>js_truthy\<close> is JavaScript's truthiness and \<open>js_to_string\<close> the string
    conversion that \<open>+=\<close> on a string and \<open>new Error(m)\<close> apply.
  Numbers are integers here: the fractional part of a JSON number is not modelled.
\<close>

datatype json = JNull | JBool bool | JNum int | JStr string | JArr "json list"
  | JObj "(string \<times> json) list"

datatype jsval = Undef | Val json

definition js_prop :: "(string \<times> json) list \<Rightarrow> string \<Rightarrow> jsval" where
  "js_prop kvs k = (case map_of (rev kvs) k of Some v \<Rightarrow> Val v | None \<Rightarrow> Undef)"

fun js_get :: "jsval \<Rightarrow> string \<Rightarrow> jsval option" where
  "js_get Undef k = None"
| "js_get (Val JNull) k = None"
| "js_get (Val (JObj kvs)) k = Some (js_prop kvs k)"
| "js_get (Val _) k = Some Undef"

fun js_get_opt :: "jsval \<Rightarrow> string \<Rightarrow> jsval option" where
  "js_get_opt Undef k = Some Undef"
| "js_get_opt (Val JNull) k = Some Undef"
| "js_get_opt v k = js_get v k"

fun js_at0 :: "jsval \<Rightarrow> jsval option" where
  "js_at0 Undef = None"
| "js_at0 (Val JNull) = None"
| "js_at0 (Val (JArr [])) = Some Undef"
| "js_at0 (Val (JArr (x # _))) = Some (Val x)"
| "js_at0 (Val (JStr [])) = Some Undef"
| "js_at0 (Val (JStr (c # _))) = Some (Val (JStr [c]))"
| "js_at0 (Val (JObj kvs)) = Some (js_prop kvs ''0'')"
| "js_at0 (Val _) = Some Undef"

fun js_at0_opt :: "jsval \<Rightarrow> jsval option" where
  "js_at0_opt Undef = Some Undef"
| "js_at0_opt (Val JNull) = Some Undef"
| "js_at0_opt v = js_at0 v"

fun js_truthy :: "jsval \<Rightarrow> bool" where
  "js_truthy Undef = False"
| "js_truthy (Val JNull) = False"
| "js_truthy (Val (JBool b)) = b"
| "js_truthy (Val (JNum n)) = (n \<noteq> 0)"
| "js_truthy (Val (JStr s)) = (s \<noteq> [])"
| "js_truthy (Val (JArr _)) = True"
| "js_truthy (Val (JObj _)) = True"

text \<open>\<open>String(v)\<close>; inside an array \<open>null\<close> elements print as the empty string.\<close>

fun json_text :: "json \<Rightarrow> string" where
  "json_text JNull = ''null''"
| "json_text (JBool b) = (if b then ''true'' else ''false'')"
| "json_text (JNum n) = string_of_int n"
| "json_text (JStr s) = s"
| "json_text (JArr xs) = join_with '','' (map (\<lambda>x. if x = JNull then [] else json_text x) xs)"
| "json_text (JObj _) = ''[object Object]''"

fun js_to_string :: "jsval \<Rightarrow> string" where
  "js_to_string Undef = ''undefined''"
| "js_to_string (Val j) = json_text j"

text \<open>\<open>x || ''''\<close> on a value read from JSON.\<close>

definition js_or_empty :: "jsval \<Rightarrow> jsval" where
  "js_or_empty v = (if js_truthy v then v else Val (JStr []))"

lemma js_truthy_or_empty [simp]: "js_truthy (js_or_empty v) = js_truthy v"
  by (simp add: js_or_empty_def)

end
