(* ===== verification/StreamDecoder.thy ===== *)
theory StreamDecoder
  imports Types JsValue
begin

text \<open>
  The body of the read loop that all four \<open>streamChat\<close> methods of
  \<open>lib/providers/adapters.ts\<close> share: each chunk returned by \<open>reader.read()\<close> is
  decoded on its own, split at \<open>'\n'\<close>, filtered to the lines that start with
  \<open>data: \<close>, and each such line is handed to a per-vendor line handler that yields
  the token to emit, if any. A token is appended to \<open>fullContent\<close> and passed to
  \<open>onToken\<close>; at the end of the stream \<open>onComplete\<close> receives \<open>fullContent\<close>.

  The chunks are the strings \<open>decoder.decode(value)\<close> returns. The decoder is called
  without \<open>{stream: true}\<close>, so a multi-byte character split between two reads is not
  reassembled; the model starts from the decoded strings and does not cover that.

  \<open>reader.read()\<close> either delivers a chunk, reports the end of the stream or
  rejects: a stream is a finite list of \<open>read_result\<close>s, its end being \<open>done\<close>.
\<close>

datatype read_result = ReadChunk string | ReadFail string

type_synonym json_parser = "string \<Rightarrow> json option"

definition data_prefix :: string where
  "data_prefix = ''data: ''"

text \<open>\<open>parsed.choices[0]?.delta?.content || ''''\<close>; \<open>None\<close> is a \<open>TypeError\<close>.\<close>

definition openai_delta :: "json \<Rightarrow> jsval option" where
  "openai_delta parsed = do {
     cs \<leftarrow> js_get (Val parsed) ''choices'';
     c0 \<leftarrow> js_at0 cs;
     d \<leftarrow> js_get_opt c0 ''delta'';
     t \<leftarrow> js_get_opt d ''content'';
     Some (js_or_empty t) }"

text \<open>\<open>data.candidates?.[0]?.content?.parts?.[0]?.text || ''''\<close>.\<close>

definition gemini_delta :: "json \<Rightarrow> jsval option" where
  "gemini_delta data = do {
     cs \<leftarrow> js_get (Val data) ''candidates'';
     c0 \<leftarrow> js_at0_opt cs;
     ct \<leftarrow> js_get_opt c0 ''content'';
     ps \<leftarrow> js_get_opt ct ''parts'';
     p0 \<leftarrow> js_at0_opt ps;
     t \<leftarrow> js_get_opt p0 ''text'';
     Some (js_or_empty t) }"

text \<open>
  The body of the inner \<open>for\<close> loop: the token a line contributes. A parse error or a
  \<open>TypeError\<close> inside the \<open>try\<close> is caught and the line skipped; \<open>[DONE]\<close> is
  skipped by \<open>continue\<close> in the OpenAI-compatible adapters only.
\<close>

definition openai_line :: "json_parser \<Rightarrow> string \<Rightarrow> string option" where
  "openai_line parse line =
     (let data = drop 6 line in
      if data = ''[DONE]'' then None
      else (case parse data of
              None \<Rightarrow> None
            | Some parsed \<Rightarrow> (case openai_delta parsed of
                None \<Rightarrow> None
              | Some token \<Rightarrow> if js_truthy token then Some (js_to_string token) else None)))"

definition gemini_line :: "json_parser \<Rightarrow> string \<Rightarrow> string option" where
  "gemini_line parse line =
     (case parse (drop 6 line) of
        None \<Rightarrow> None
      | Some data \<Rightarrow> (case gemini_delta data of
          None \<Rightarrow> None
        | Some token \<Rightarrow> if js_truthy token then Some (js_to_string token) else None))"

record stream_acc =
  fullContent :: string
  emitted :: "string list"

definition acc0 :: stream_acc where
  "acc0 = \<lparr>fullContent = [], emitted = []\<rparr>"

definition feed_line :: "(string \<Rightarrow> string option) \<Rightarrow> stream_acc \<Rightarrow> string \<Rightarrow> stream_acc" where
  "feed_line handler acc line =
     (case handler line of
        None \<Rightarrow> acc
      | Some token \<Rightarrow> acc\<lparr>fullContent := fullContent acc @ token, emitted := emitted acc @ [token]\<rparr>)"

definition data_lines :: "string \<Rightarrow> string list" where
  "data_lines chunk = filter (starts_with data_prefix) (split_on CHR ''\<newline>'' chunk)"

definition feed_chunk :: "(string \<Rightarrow> string option) \<Rightarrow> stream_acc \<Rightarrow> string \<Rightarrow> stream_acc" where
  "feed_chunk handler acc chunk = foldl (feed_line handler) acc (data_lines chunk)"

text \<open>The \<open>while (true)\<close> loop; \<open>Inl\<close> is a rejected read, with the state reached.\<close>

fun read_loop ::
  "(string \<Rightarrow> string option) \<Rightarrow> stream_acc \<Rightarrow> read_result list \<Rightarrow> (js_error \<times> stream_acc) + stream_acc"
where
  "read_loop handler acc [] = Inr acc"
| "read_loop handler acc (ReadChunk chunk # rs) = read_loop handler (feed_chunk handler acc chunk) rs"
| "read_loop handler acc (ReadFail msg # rs) = Inl (NetworkErr msg, acc)"

text \<open>
  The same loop over a reader that nothing bounds: \<open>reader i\<close> is what the
  \<open>i\<close>-th call of \<open>reader.read()\<close> resolves to, \<open>None\<close> being \<open>{done: true}\<close>.
  A server may keep the response open and send chunks for ever, so the
  \<open>while (true)\<close> loop is a \<open>partial_function\<close> in the option monad: the value
  \<open>None\<close> is a loop that never leaves.
\<close>

type_synonym reader = "nat \<Rightarrow> read_result option"

partial_function (option) read_forever ::
  "(string \<Rightarrow> string option) \<Rightarrow> reader \<Rightarrow> nat \<Rightarrow> stream_acc \<Rightarrow>
   ((js_error \<times> stream_acc) + stream_acc) option"
where
  "read_forever handler reader i acc =
     (case reader i of
        None \<Rightarrow> Some (Inr acc)
      | Some (ReadFail msg) \<Rightarrow> Some (Inl (NetworkErr msg, acc))
      | Some (ReadChunk chunk) \<Rightarrow> read_forever handler reader (Suc i) (feed_chunk handler acc chunk))"

text \<open>The \<open>n\<close>-th read leaves the loop: it reports the end or rejects.\<close>

definition stream_ends :: "reader \<Rightarrow> nat \<Rightarrow> bool" where
  "stream_ends reader n \<longleftrightarrow> (case reader n of Some (ReadChunk c) \<Rightarrow> False | _ \<Rightarrow> True)"

text \<open>The reader of a finite stream: its reads, then \<open>done\<close>.\<close>

definition list_reader :: "read_result list \<Rightarrow> reader" where
  "list_reader rs i = (if i < length rs then Some (rs ! i) else None)"

text \<open>
  The callbacks the \<open>try\<close> block makes: one \<open>onToken\<close> per emitted token, then
  \<open>onComplete\<close> with the accumulated content, or \<open>onError\<close> from the \<open>catch\<close>.
\<close>

definition stream_events ::
  "(string \<Rightarrow> string option) \<Rightarrow> provider \<Rightarrow> model_id option \<Rightarrow> read_result list \<Rightarrow> event list"
where
  "stream_events handler p model reads =
     (case read_loop handler acc0 reads of
        Inl (e, acc) \<Rightarrow> map OnToken (emitted acc) @ [OnError e]
      | Inr acc \<Rightarrow> map OnToken (emitted acc) @
          [OnComplete \<lparr>r_content = fullContent acc, r_model = model, r_provider = p, r_tokens = None\<rparr>])"

subsection \<open>The intended decoder\<close>

text \<open>
  The behaviour the spec asks for (section 8, streaming decode): the stream is one text,
  cut into lines at \<open>'\n'\<close> wherever the network happened to cut it into reads.
  \<open>buffered_events\<close> decodes the concatenation of all chunks line by line with the
  same line handler. \<open>line_aligned\<close> says that every read but the last ends at a line
  break.
\<close>

definition buffered_events ::
  "(string \<Rightarrow> string option) \<Rightarrow> provider \<Rightarrow> model_id option \<Rightarrow> string list \<Rightarrow> event list"
where
  "buffered_events handler p model chunks =
     (let acc = foldl (feed_line handler) acc0 (data_lines (concat chunks))
      in map OnToken (emitted acc) @
         [OnComplete \<lparr>r_content = fullContent acc, r_model = model, r_provider = p, r_tokens = None\<rparr>])"

definition line_aligned :: "string list \<Rightarrow> bool" where
  "line_aligned chunks \<longleftrightarrow> (\<forall>c \<in> set (butlast chunks). c \<noteq> [] \<and> last c = CHR ''\<newline>'')"

subsection \<open>Lemmas on the read loop\<close>

lemma feed_line_inv:
  "fullContent acc = concat (emitted acc) \<Longrightarrow>
   fullContent (feed_line h acc l) = concat (emitted (feed_line h acc l))"
  by (simp add: feed_line_def split: option.splits)

lemma foldl_feed_line_inv:
  "fullContent acc = concat (emitted acc) \<Longrightarrow>
   fullContent (foldl (feed_line h) acc ls) = concat (emitted (foldl (feed_line h) acc ls))"
  by (induction ls arbitrary: acc) (simp_all add: feed_line_inv)

lemma read_loop_inv:
  assumes "fullContent acc = concat (emitted acc)"
  shows "read_loop h acc rs = Inr acc' \<Longrightarrow> fullContent acc' = concat (emitted acc')"
  using assms
proof (induction h acc rs rule: read_loop.induct)
  case (2 handler acc chunk rs)
  then show ?case by (simp add: feed_chunk_def foldl_feed_line_inv)
qed auto

lemma data_lines_Nil [simp]: "data_lines [] = []"
  by (simp add: data_lines_def data_prefix_def starts_with_def)

lemma data_lines_append:
  assumes "a \<noteq> []" and "last a = CHR ''\<newline>''"
  shows "data_lines (a @ b) = data_lines a @ data_lines b"
proof -
  obtain a' where a: "a = a' @ [CHR ''\<newline>'']"
    using assms by (metis append_butlast_last_id)
  show ?thesis
    by (simp add: a data_lines_def split_on_append_sep split_on_snoc_sep data_prefix_def
        starts_with_def)
qed

lemma read_loop_aligned:
  "line_aligned cs \<Longrightarrow>
   read_loop h acc (map ReadChunk cs) = Inr (foldl (feed_line h) acc (data_lines (concat cs)))"
proof (induction cs arbitrary: acc)
  case Nil
  then show ?case by simp
next
  case (Cons c cs)
  show ?case
  proof (cases "cs = []")
    case True
    then show ?thesis by (simp add: feed_chunk_def)
  next
    case False
    with Cons.prems have c: "c \<noteq> []" "last c = CHR ''\<newline>''" and "line_aligned cs"
      by (auto simp: line_aligned_def)
    with Cons.IH show ?thesis
      by (simp add: feed_chunk_def data_lines_append [OF c])
  qed
qed

text \<open>C5. When every read but the last ends at a line break, the adapters' per-chunk
  decoding emits exactly the events of the buffered decoder over the whole stream: same
  tokens in the same order, same completed content.\<close>

theorem stream_events_aligned:
  "line_aligned chunks \<Longrightarrow>
   stream_events h p model (map ReadChunk chunks) = buffered_events h p model chunks"
  by (simp add: stream_events_def buffered_events_def read_loop_aligned Let_def)

lemma openai_line_data:
  "CHR ''\<newline>'' \<notin> set x \<Longrightarrow> data_lines (data_prefix @ x) = [data_prefix @ x]"
  by (simp add: data_lines_def data_prefix_def starts_with_def)

text \<open>C29. Finding: an event split across two reads is lost. Its first half is a
  \<open>data:\<close> line that does not parse, and its second half is a line without the
  \<open>data: \<close> prefix, so neither yields the token that the same event yields when it
  arrives in one read; the stream completes with the token missing from the content.\<close>

theorem split_event_token_lost:
  assumes "parse payload = Some j" and "openai_delta j = Some (Val (JStr tok))" and "tok \<noteq> []"
    and "payload \<noteq> ''[DONE]''" and "parse (take k payload) = None"
    and "\<not> starts_with data_prefix (drop k payload)" and "CHR ''\<newline>'' \<notin> set payload"
  shows "stream_events (openai_line parse) p model
           [ReadChunk (data_prefix @ take k payload), ReadChunk (drop k payload @ ''\<newline>'')] =
         [OnComplete \<lparr>r_content = [], r_model = model, r_provider = p, r_tokens = None\<rparr>]
       \<and> stream_events (openai_line parse) p model [ReadChunk (data_prefix @ payload @ ''\<newline>'')] =
         [OnToken tok, OnComplete \<lparr>r_content = tok, r_model = model, r_provider = p, r_tokens = None\<rparr>]"
proof -
  have nl1: "CHR ''\<newline>'' \<notin> set (take k payload)" and nl2: "CHR ''\<newline>'' \<notin> set (drop k payload)"
    using assms(7) by (auto dest: in_set_takeD in_set_dropD)
  have l1: "openai_line parse (data_prefix @ take k payload) = None"
    using assms(5) by (simp add: openai_line_def data_prefix_def Let_def)
  have l2: "data_lines (drop k payload @ ''\<newline>'') = []"
    using assms(6) nl2 by (simp add: data_lines_def split_on_snoc_sep data_prefix_def starts_with_def)
  have l3: "openai_line parse (data_prefix @ payload) = Some tok"
    using assms(1-4) by (simp add: openai_line_def data_prefix_def Let_def)
  have l4: "data_lines (data_prefix @ payload @ ''\<newline>'') = [data_prefix @ payload]"
    using assms(7) by (simp add: data_lines_def data_prefix_def starts_with_def split_on_snoc_sep)
  show ?thesis
    using l1 l2 l3 l4 openai_line_data [OF nl1]
    by (simp add: stream_events_def feed_chunk_def feed_line_def acc0_def)
qed


subsection \<open>Termination of the unbounded loop\<close>

text \<open>One turn of the loop, for each answer of \<open>reader.read()\<close>.\<close>

lemma read_forever_step:
  "reader i = None \<Longrightarrow> read_forever h reader i acc = Some (Inr acc)"
  "reader i = Some (ReadFail m) \<Longrightarrow> read_forever h reader i acc = Some (Inl (NetworkErr m, acc))"
  "reader i = Some (ReadChunk c) \<Longrightarrow>
   read_forever h reader i acc = read_forever h reader (Suc i) (feed_chunk h acc c)"
  by (subst read_forever.simps; simp)+

text \<open>If the loop returns at every read that ends the stream, it returns from every read
  before one.\<close>

lemma read_forever_returns_from:
  assumes read_forever_leaves: "\<And>i acc. stream_ends reader i \<Longrightarrow> \<exists>r. read_forever h reader i acc = Some r"
  shows "stream_ends reader n \<Longrightarrow> i \<le> n \<Longrightarrow> \<exists>r. read_forever h reader i acc = Some r"
proof (induction "n - i" arbitrary: i acc)
  case 0
  then show ?case by (simp add: read_forever_leaves)
next
  case (Suc d)
  show ?case
  proof (cases "stream_ends reader i")
    case True
    then show ?thesis by (rule read_forever_leaves)
  next
    case False
    then obtain c where c: "reader i = Some (ReadChunk c)"
      by (auto simp: stream_ends_def split: option.splits read_result.splits)
    from Suc have "\<exists>r. read_forever h reader (Suc i) (feed_chunk h acc c) = Some r"
      by (intro Suc.hyps) auto
    with c show ?thesis by (simp add: read_forever_step)
  qed
qed


lemma read_forever_returns_ends:
  assumes ret: "read_forever h reader i acc = Some r"
  shows "\<exists>n \<ge> i. stream_ends reader n"
proof (rule read_forever.raw_induct [where P = "\<lambda>h reader i acc r. \<exists>n \<ge> i. stream_ends reader n",
      OF _ ret])
  fix f h reader i acc r
  assume IH: "\<And>h reader i acc r. f h reader i acc = Some r \<Longrightarrow> \<exists>n \<ge> i. stream_ends reader n"
    and eq: "(case reader i of None \<Rightarrow> Some (Inr acc)
      | Some (ReadChunk chunk) \<Rightarrow> f h reader (Suc i) (feed_chunk h acc chunk)
      | Some (ReadFail msg) \<Rightarrow> Some (Inl (NetworkErr msg, acc))) = Some r"
  show "\<exists>n \<ge> i. stream_ends reader n"
  proof (cases "stream_ends reader i")
    case True
    then show ?thesis by blast
  next
    case False
    then obtain c where c: "reader i = Some (ReadChunk c)"
      by (auto simp: stream_ends_def split: option.splits read_result.splits)
    with eq have "f h reader (Suc i) (feed_chunk h acc c) = Some r" by simp
    then obtain n where "Suc i \<le> n" "stream_ends reader n" using IH by blast
    then show ?thesis by (intro exI [of _ n]) simp
  qed
qed

text \<open>C11. The read loop of the adapters leaves exactly when some read reports the end of
  the stream or rejects: it returns on every stream that ends, and on a stream that
  delivers chunks for ever it never returns.\<close>

theorem read_forever_terminates:
  "(\<exists>r. read_forever h reader 0 acc = Some r) \<longleftrightarrow> (\<exists>n. stream_ends reader n)"
proof -
  have leaves: "\<exists>r. read_forever h reader i acc' = Some r" if "stream_ends reader i" for i acc'
    using that by (subst read_forever.simps) (auto simp: stream_ends_def split: option.splits read_result.splits)
  show ?thesis using read_forever_returns_ends read_forever_returns_from [OF leaves] by blast
qed

lemma read_forever_suffix:
  "drop i rs = ds \<Longrightarrow> read_forever h (list_reader rs) i acc = Some (read_loop h acc ds)"
proof (induction ds arbitrary: i acc)
  case Nil
  then show ?case by (simp add: read_forever_step list_reader_def)
next
  case (Cons d ds)
  have i: "i < length rs" using Cons.prems by (metis drop_all list.distinct(1) not_le)
  have "rs ! i # drop (Suc i) rs = d # ds" using Cons_nth_drop_Suc [OF i] Cons.prems by simp
  then have d: "rs ! i = d" and ds: "drop (Suc i) rs = ds" by simp_all
  show ?case
  proof (cases d)
    case (ReadChunk c)
    with i d ds Cons.IH show ?thesis by (simp add: read_forever_step list_reader_def)
  next
    case (ReadFail m)
    with i d show ?thesis by (simp add: read_forever_step list_reader_def)
  qed
qed

text \<open>On a finite stream the unbounded loop returns, and it returns what the
  list-driven \<open>read_loop\<close> computes: \<open>read_loop\<close>, used by the other lemmas, is the
  loop of the code on the streams that end.\<close>

theorem read_forever_list:
  "read_forever h (list_reader rs) 0 acc = Some (read_loop h acc rs)"
  by (rule read_forever_suffix) simp

text \<open>A stream that never ends keeps the loop, and so \<open>isGenerating\<close>, running:
  nothing in the code bounds the time of a request.\<close>

lemma read_forever_endless:
  "(\<And>n. \<not> stream_ends reader n) \<Longrightarrow> read_forever h reader i acc = None"
  using read_forever_returns_ends by fastforce

subsection \<open>Witnesses\<close>

definition demo_payload :: string where
  \<open>demo_payload = ''{"choices":[{"delta":{"content":"Hi"}}]}''\<close>

definition demo_json :: json where
  "demo_json = JObj [(''choices'', JArr [JObj [(''delta'', JObj [(''content'', JStr ''Hi'')])]])]"

text \<open>A \<open>JSON.parse\<close> that knows a single document.\<close>

definition demo_parse :: json_parser where
  "demo_parse s = (if s = demo_payload then Some demo_json else None)"

lemma demo_openai_delta: "openai_delta demo_json = Some (Val (JStr ''Hi''))"
  by (simp add: openai_delta_def demo_json_def js_prop_def js_or_empty_def)

theorem stream_events_aligned_witness:
  "line_aligned [''data: x\<newline>'', ''data: y''] \<and>
   stream_events (openai_line demo_parse) OpenAI (Some ''gpt-4o-mini'')
     (map ReadChunk [''data: x\<newline>'', ''data: y'']) =
   buffered_events (openai_line demo_parse) OpenAI (Some ''gpt-4o-mini'') [''data: x\<newline>'', ''data: y'']"
proof -
  have h: "line_aligned [''data: x\<newline>'', ''data: y'']" by (simp add: line_aligned_def)
  show ?thesis using h stream_events_aligned [OF h] by blast
qed

theorem split_event_token_lost_witness:
  \<open>stream_events (openai_line demo_parse) OpenAI (Some ''gpt-4o-mini'')
     [ReadChunk (data_prefix @ take 20 demo_payload),
      ReadChunk (drop 20 demo_payload @ ''\<newline>'')] =
   [OnComplete \<lparr>r_content = [], r_model = Some ''gpt-4o-mini'', r_provider = OpenAI, r_tokens = None\<rparr>]
 \<and> stream_events (openai_line demo_parse) OpenAI (Some ''gpt-4o-mini'')
     [ReadChunk (data_prefix @ demo_payload @ ''\<newline>'')] =
   [OnToken ''Hi'',
    OnComplete \<lparr>r_content = ''Hi'', r_model = Some ''gpt-4o-mini'', r_provider = OpenAI, r_tokens = None\<rparr>]\<close>
proof -
  have h1: "demo_parse demo_payload = Some demo_json" by (simp add: demo_parse_def)
  have h4: "demo_payload \<noteq> ''[DONE]''" by (simp add: demo_payload_def)
  have h5: "demo_parse (take 20 demo_payload) = None" by (simp add: demo_parse_def demo_payload_def)
  have h6: "\<not> starts_with data_prefix (drop 20 demo_payload)"
    by (simp add: demo_payload_def data_prefix_def starts_with_def)
  have h7: "CHR ''\<newline>'' \<notin> set demo_payload" by (simp add: demo_payload_def)
  show ?thesis
    using split_event_token_lost [OF h1 demo_openai_delta _ h4 h5 h6 h7] by simp
qed

end
