(* ===== verification/Adapters.thy ===== *)
theory Adapters
  imports StreamDecoder
begin

text \<open>
  The four provider adapters of \<open>lib/providers/adapters.ts\<close> and the table
  \<open>adapters\<close> that the engine dispatches through. Only \<open>streamChat\<close> is
  modelled: no code of the extension calls \<open>chat\<close>.

  The runtime the adapters talk to is a record of two parameters: \<open>JSON.parse\<close> and
  \<open>fetch\<close>, which maps a request to a response or to a rejection (a network failure).
  A response is its status (\<open>response.ok\<close>), its text (what \<open>response.json()\<close>
  parses on the error path) and its body stream (\<open>None\<close> when
  \<open>response.body\<close> is \<open>null\<close>). The result of \<open>streamChat\<close> is
  \<open>js_error + event list\<close>: \<open>Inl\<close> when the returned promise rejects (an
  exception escapes the method), \<open>Inr\<close> the callbacks made when it resolves.

  Three adapters are the same code with a different endpoint, error text and provider
  id: \<open>openai_compat_streamChat\<close> is that code with the three as parameters, and
  \<open>openai_streamChat\<close>, \<open>groq_streamChat\<close> and \<open>deepseek_streamChat\<close> are
  its three instances.
\<close>

record http_response =
  resp_ok :: bool
  resp_text :: string
  resp_body :: "read_result list option"

text \<open>
  The JSON body of a request. \<open>stream: true\<close> is always sent by \<open>streamChat\<close>;
  \<open>chat\<close> sends no \<open>stream\<close> field (\<open>PlainChatBody\<close>); an \<open>undefined\<close>
  model is dropped by \<open>JSON.stringify\<close>.
\<close>

datatype request_body =
    ChatBody "model_id option" "chat_message list" rat bool
  | PlainChatBody "model_id option" "chat_message list" rat
  | GeminiBody "(string \<times> string) list" "string option"

record request =
  req_url :: string
  req_auth :: "string option"
  req_body :: request_body

record runtime =
  json_parse :: json_parser
  fetch :: "request \<Rightarrow> js_error + http_response"

text \<open>A model in a template literal: \<open>undefined\<close> prints as such.\<close>

definition model_text :: "model_id option \<Rightarrow> string" where
  "model_text m = (case m of None \<Rightarrow> ''undefined'' | Some s \<Rightarrow> s)"

subsection \<open>Requests\<close>

definition openai_compat_request ::
  "string \<Rightarrow> chat_message list \<Rightarrow> model_id option \<Rightarrow> string \<Rightarrow> request" where
  "openai_compat_request url messages model key =
     \<lparr>req_url = url, req_auth = Some (''Bearer '' @ key),
      req_body = ChatBody model messages (7 / 10) True\<rparr>"

definition gemini_contents :: "chat_message list \<Rightarrow> (string \<times> string) list" where
  "gemini_contents messages =
     map (\<lambda>m. (if role m = Assistant then ''model'' else ''user'', content m))
       (filter (\<lambda>m. role m \<noteq> System) messages)"

definition gemini_system :: "chat_message list \<Rightarrow> string option" where
  "gemini_system messages =
     (case find (\<lambda>m. role m = System) messages of
        None \<Rightarrow> None
      | Some m \<Rightarrow> if content m \<noteq> [] then Some (content m) else None)"

definition gemini_request :: "chat_message list \<Rightarrow> model_id option \<Rightarrow> string \<Rightarrow> request" where
  "gemini_request messages model key =
     \<lparr>req_url = ''https://generativelanguage.googleapis.com/v1beta/models/'' @ model_text model @
        '':streamGenerateContent?key='' @ key @ ''&alt=sse'',
      req_auth = None,
      req_body = GeminiBody (gemini_contents messages) (gemini_system messages)\<rparr>"

subsection \<open>Responses\<close>

text \<open>\<open>error.error?.message || default\<close>; \<open>None\<close> is a \<open>TypeError\<close>.\<close>

definition error_message :: "string \<Rightarrow> json \<Rightarrow> string option" where
  "error_message dflt err = do {
     e \<leftarrow> js_get (Val err) ''error'';
     m \<leftarrow> js_get_opt e ''message'';
     Some (if js_truthy m then js_to_string m else dflt) }"

text \<open>
  Everything after \<open>fetch\<close> resolved: the \<open>!response.ok\<close> branch (where
  \<open>response.json()\<close> or the message read may throw), the missing body, and the read
  loop.
\<close>

definition stream_response ::
  "runtime \<Rightarrow> (string \<Rightarrow> string option) \<Rightarrow> string \<Rightarrow> provider \<Rightarrow> model_id option \<Rightarrow>
   http_response \<Rightarrow> js_error + event list" where
  "stream_response rt handler dflt p model response =
     (if \<not> resp_ok response then
        (case json_parse rt (resp_text response) of
           None \<Rightarrow> Inl SyntaxErr
         | Some err \<Rightarrow> (case error_message dflt err of
             None \<Rightarrow> Inl TypeErr
           | Some msg \<Rightarrow> Inr [OnError (ErrorMsg msg)]))
      else (case resp_body response of
              None \<Rightarrow> Inr [OnError (ErrorMsg ''No response body'')]
            | Some reads \<Rightarrow> Inr (stream_events handler p model reads)))"

subsection \<open>The adapters\<close>

definition openai_compat_streamChat ::
  "string \<Rightarrow> string \<Rightarrow> provider \<Rightarrow> runtime \<Rightarrow> chat_message list \<Rightarrow> model_id option \<Rightarrow> string \<Rightarrow>
   js_error + event list" where
  "openai_compat_streamChat url dflt p rt messages model key =
     (case fetch rt (openai_compat_request url messages model key) of
        Inl e \<Rightarrow> Inl e
      | Inr response \<Rightarrow> stream_response rt (openai_line (json_parse rt)) dflt p model response)"

definition openai_streamChat ::
  "runtime \<Rightarrow> chat_message list \<Rightarrow> model_id option \<Rightarrow> string \<Rightarrow> js_error + event list" where
  "openai_streamChat = openai_compat_streamChat
     ''https://api.openai.com/v1/chat/completions'' ''OpenAI API error'' OpenAI"

definition groq_streamChat ::
  "runtime \<Rightarrow> chat_message list \<Rightarrow> model_id option \<Rightarrow> string \<Rightarrow> js_error + event list" where
  "groq_streamChat = openai_compat_streamChat
     ''https://api.groq.com/openai/v1/chat/completions'' ''Groq API error'' Groq"

definition deepseek_streamChat ::
  "runtime \<Rightarrow> chat_message list \<Rightarrow> model_id option \<Rightarrow> string \<Rightarrow> js_error + event list" where
  "deepseek_streamChat = openai_compat_streamChat
     ''https://api.deepseek.com/v1/chat/completions'' ''DeepSeek API error'' DeepSeek"

definition gemini_streamChat ::
  "runtime \<Rightarrow> chat_message list \<Rightarrow> model_id option \<Rightarrow> string \<Rightarrow> js_error + event list" where
  "gemini_streamChat rt messages model key =
     (case fetch rt (gemini_request messages model key) of
        Inl e \<Rightarrow> Inl e
      | Inr response \<Rightarrow>
          stream_response rt (gemini_line (json_parse rt)) ''Gemini API error'' Gemini model response)"

text \<open>The table \<open>adapters: Record<AIProvider, ProviderAdapter>\<close>.\<close>

definition adapter_streamChat ::
  "provider \<Rightarrow> runtime \<Rightarrow> chat_message list \<Rightarrow> model_id option \<Rightarrow> string \<Rightarrow> js_error + event list" where
  "adapter_streamChat p = (case p of
      OpenAI \<Rightarrow> openai_streamChat
    | Gemini \<Rightarrow> gemini_streamChat
    | Groq \<Rightarrow> groq_streamChat
    | DeepSeek \<Rightarrow> deepseek_streamChat)"

subsection \<open>The callback protocol\<close>

text \<open>
  The state machine of spec section 4.2 over the callbacks of one stream:
  \<open>not-started \<rightarrow> receiving \<rightarrow> completed\<close> or \<open>\<rightarrow> errored\<close>, tokens only
  before the end, and nothing after it. \<open>cb_step\<close> is one callback, \<open>cb_run\<close> a
  sequence of them; \<open>protocol_ok\<close> holds of a trace that runs from the start to a
  terminal phase. \<open>protocol_ok_iff\<close> characterises it: some tokens, then exactly one
  \<open>onComplete\<close> or \<open>onError\<close>, last.
\<close>

datatype phase = NotStarted | Receiving | Completed | Errored

fun terminal :: "phase \<Rightarrow> bool" where
  "terminal Completed = True"
| "terminal Errored = True"
| "terminal _ = False"

inductive cb_step :: "phase \<Rightarrow> event \<Rightarrow> phase \<Rightarrow> bool" where
  token: "\<not> terminal p \<Longrightarrow> cb_step p (OnToken t) Receiving"
| complete: "\<not> terminal p \<Longrightarrow> cb_step p (OnComplete r) Completed"
| error: "\<not> terminal p \<Longrightarrow> cb_step p (OnError e) Errored"

inductive cb_run :: "phase \<Rightarrow> event list \<Rightarrow> phase \<Rightarrow> bool" where
  run_nil: "cb_run p [] p"
| run_cons: "cb_step p e q \<Longrightarrow> cb_run q es r \<Longrightarrow> cb_run p (e # es) r"

code_pred cb_step .
code_pred cb_run .

inductive_cases cb_step_from_terminal: "cb_step p e q"
inductive_cases cb_run_Cons: "cb_run p (e # es) r"
inductive_simps cb_run_Nil_simp: "cb_run p [] r"

definition protocol_ok :: "event list \<Rightarrow> bool" where
  "protocol_ok evs \<longleftrightarrow> (\<exists>q. cb_run NotStarted evs q \<and> terminal q)"

fun is_token :: "event \<Rightarrow> bool" where
  "is_token (OnToken _) = True"
| "is_token _ = False"

lemma cb_step_terminal_target: "cb_step p e q \<Longrightarrow> terminal q \<longleftrightarrow> \<not> is_token e"
  by (induction rule: cb_step.induct) auto

lemma no_step_from_terminal: "terminal p \<Longrightarrow> \<not> cb_step p e q"
  by (auto elim: cb_step.cases)

text \<open>Once a stream has completed or failed, no further callback is made.\<close>

lemma no_callback_after_terminal:
  assumes "cb_run p es r" and "terminal p"
  shows "es = [] \<and> r = p"
  using assms by (cases rule: cb_run.cases) (auto dest: no_step_from_terminal)

lemma terminal_step_exists:
  "\<not> terminal p \<Longrightarrow> \<not> is_token e \<Longrightarrow> \<exists>q. cb_step p e q \<and> terminal q"
  by (cases e) (auto intro: cb_step.intros)

lemma cb_run_tokens_then:
  "\<not> terminal p \<Longrightarrow> \<not> is_token e \<Longrightarrow> \<exists>q. cb_run p (map OnToken ts @ [e]) q \<and> terminal q"
proof (induction ts arbitrary: p)
  case Nil
  then obtain q where "cb_step p e q" "terminal q"
    using terminal_step_exists by blast
  then show ?case by (auto intro: cb_run.intros)
next
  case (Cons t ts)
  have "\<not> terminal Receiving" by simp
  with Cons.IH Cons.prems(2) obtain q where "cb_run Receiving (map OnToken ts @ [e]) q" "terminal q"
    by blast
  with Cons.prems show ?case by (auto intro: cb_run.intros cb_step.intros)
qed

lemma cb_run_shape:
  "cb_run p evs q \<Longrightarrow> \<not> terminal p \<Longrightarrow> terminal q \<Longrightarrow>
   \<exists>ts e. evs = map OnToken ts @ [e] \<and> \<not> is_token e"
proof (induction rule: cb_run.induct)
  case (run_nil p)
  then show ?case by simp
next
  case (run_cons p e q es r)
  show ?case
  proof (cases "is_token e")
    case True
    with run_cons have "\<not> terminal q" using cb_step_terminal_target by blast
    with run_cons.IH run_cons.prems obtain ts e' where "es = map OnToken ts @ [e']" "\<not> is_token e'"
      by blast
    with True show ?thesis by (cases e) (auto intro: exI [of _ "_ # ts"])
  next
    case False
    with run_cons have "terminal q" using cb_step_terminal_target by blast
    with run_cons.hyps(2) have "es = []" using no_callback_after_terminal by blast
    with False show ?thesis by (auto intro: exI [of _ "[]"])
  qed
qed

theorem protocol_ok_iff:
  "protocol_ok evs \<longleftrightarrow> (\<exists>ts e. evs = map OnToken ts @ [e] \<and> \<not> is_token e)"
  unfolding protocol_ok_def
  using cb_run_shape cb_run_tokens_then [of NotStarted] by fastforce

subsection \<open>One generic adapter\<close>

text \<open>
  The spec's abstraction (section 6): one adapter parameterised by the request it builds,
  the line handler of its stream framing and its generic error text.
\<close>

definition compat_url :: "provider \<Rightarrow> string" where
  "compat_url p = (case p of
      OpenAI \<Rightarrow> ''https://api.openai.com/v1/chat/completions''
    | Groq \<Rightarrow> ''https://api.groq.com/openai/v1/chat/completions''
    | DeepSeek \<Rightarrow> ''https://api.deepseek.com/v1/chat/completions''
    | Gemini \<Rightarrow> ''https://generativelanguage.googleapis.com/v1beta'')"

definition adapter_request ::
  "provider \<Rightarrow> chat_message list \<Rightarrow> model_id option \<Rightarrow> string \<Rightarrow> request" where
  "adapter_request p messages model key = (case p of
      Gemini \<Rightarrow> gemini_request messages model key
    | _ \<Rightarrow> openai_compat_request (compat_url p) messages model key)"

definition line_handler :: "provider \<Rightarrow> json_parser \<Rightarrow> string \<Rightarrow> string option" where
  "line_handler p parse = (case p of Gemini \<Rightarrow> gemini_line parse | _ \<Rightarrow> openai_line parse)"

definition default_error :: "provider \<Rightarrow> string" where
  "default_error p = (case p of
      OpenAI \<Rightarrow> ''OpenAI API error''
    | Gemini \<Rightarrow> ''Gemini API error''
    | Groq \<Rightarrow> ''Groq API error''
    | DeepSeek \<Rightarrow> ''DeepSeek API error'')"

definition generic_streamChat ::
  "provider \<Rightarrow> runtime \<Rightarrow> chat_message list \<Rightarrow> model_id option \<Rightarrow> string \<Rightarrow> js_error + event list"
where
  "generic_streamChat p rt messages model key =
     (case fetch rt (adapter_request p messages model key) of
        Inl e \<Rightarrow> Inl e
      | Inr response \<Rightarrow>
          stream_response rt (line_handler p (json_parse rt)) (default_error p) p model response)"

text \<open>The text passed to \<open>onToken\<close>, in order.\<close>

fun token_text :: "event list \<Rightarrow> string" where
  "token_text [] = []"
| "token_text (OnToken t # es) = t @ token_text es"
| "token_text (_ # es) = token_text es"

subsection \<open>Lemmas on the adapters\<close>

text \<open>Each entry of the \<open>adapters\<close> table is the one generic adapter of spec
  section 6, instantiated with its provider's request, line handler and error text: the
  four vendors differ in nothing else.\<close>

lemma adapter_streamChat_generic:
  "adapter_streamChat p rt messages model key = generic_streamChat p rt messages model key"
  by (cases p)
    (simp_all add: adapter_streamChat_def generic_streamChat_def adapter_request_def
      line_handler_def default_error_def compat_url_def openai_streamChat_def groq_streamChat_def
      deepseek_streamChat_def openai_compat_streamChat_def gemini_streamChat_def
      split: sum.split)

lemma token_text_tokens [simp]: "token_text (map OnToken ts @ es) = concat ts @ token_text es"
  by (induction ts) auto

lemma stream_events_protocol: "protocol_ok (stream_events h p model reads)"
  by (auto simp: stream_events_def protocol_ok_iff split: sum.splits prod.splits)

lemma protocol_ok_single_error [simp]: "protocol_ok [OnError e]"
  unfolding protocol_ok_iff by (rule exI [of _ "[]"]) simp

lemma stream_response_protocol:
  "stream_response rt h d p model resp = Inr evs \<Longrightarrow> protocol_ok evs"
  by (auto simp: stream_response_def stream_events_protocol split: if_splits option.splits)

lemma adapter_streamChat_protocol:
  "adapter_streamChat p rt messages model key = Inr evs \<Longrightarrow> protocol_ok evs"
  by (auto simp: adapter_streamChat_generic generic_streamChat_def
      split: sum.splits dest: stream_response_protocol)

lemma acc0_inv: "fullContent acc0 = concat (emitted acc0)"
  by (simp add: acc0_def)

lemma stream_events_complete:
  assumes "OnComplete r \<in> set (stream_events h p model reads)"
  shows "r_content r = token_text (stream_events h p model reads) \<and> r_provider r = p \<and> r_model r = model"
proof (cases "read_loop h acc0 reads")
  case (Inl a)
  with assms show ?thesis by (cases a) (auto simp: stream_events_def)
next
  case (Inr acc)
  then have "fullContent acc = concat (emitted acc)"
    using read_loop_inv [OF acc0_inv] by blast
  with Inr assms show ?thesis by (auto simp: stream_events_def)
qed

text \<open>When an adapter's stream completes, \<open>onComplete\<close> carries the concatenation
  of all tokens passed to \<open>onToken\<close>, in order, the adapter's own provider id and the
  model it was called with.\<close>

theorem adapter_complete_content:
  assumes "adapter_streamChat p rt messages model key = Inr evs" and "OnComplete r \<in> set evs"
  shows "r_content r = token_text evs \<and> r_provider r = p \<and> r_model r = model"
  using assms
  by (auto simp: adapter_streamChat_generic generic_streamChat_def stream_response_def
      split: sum.splits if_splits option.splits dest: stream_events_complete)

text \<open>C22. On a non-2xx response whose body is \<open>{"error": {"message": m}}\<close>, the adapter
  makes exactly one callback, \<open>onError\<close> with \<open>m\<close>, or with the vendor's generic
  text when \<open>m\<close> is empty; no token and no completion.\<close>

theorem adapter_http_error:
  assumes "fetch rt (adapter_request p messages model key) = Inr resp" and "\<not> resp_ok resp"
    and "json_parse rt (resp_text resp) = Some (JObj [(''error'', JObj [(''message'', JStr m)])])"
  shows "adapter_streamChat p rt messages model key =
           Inr [OnError (ErrorMsg (if m \<noteq> [] then m else default_error p))]"
  using assms
  by (simp add: adapter_streamChat_generic generic_streamChat_def stream_response_def
      error_message_def js_prop_def)

text \<open>C36. On a non-2xx response whose body is not JSON, \<open>response.json()\<close> throws
  outside any \<open>try\<close>: the adapter's promise rejects with the \<open>SyntaxError\<close> instead
  of calling \<open>onError\<close>.\<close>

theorem adapter_error_body_not_json:
  assumes "fetch rt (adapter_request p messages model key) = Inr resp" and "\<not> resp_ok resp"
    and "json_parse rt (resp_text resp) = None"
  shows "adapter_streamChat p rt messages model key = Inl SyntaxErr"
  using assms by (simp add: adapter_streamChat_generic generic_streamChat_def stream_response_def)

text \<open>On a 2xx response without a body the adapter calls \<open>onError('No response
  body')\<close>; on a body that ends before any data it completes with empty content.\<close>

theorem adapter_body_cases:
  assumes "fetch rt (adapter_request p messages model key) = Inr resp" and "resp_ok resp"
  shows "(resp_body resp = None \<longrightarrow>
            adapter_streamChat p rt messages model key = Inr [OnError (ErrorMsg ''No response body'')])
       \<and> (resp_body resp = Some [] \<longrightarrow>
            adapter_streamChat p rt messages model key =
              Inr [OnComplete \<lparr>r_content = [], r_model = model, r_provider = p, r_tokens = None\<rparr>])"
  using assms
  by (simp add: adapter_streamChat_generic generic_streamChat_def stream_response_def
      stream_events_def acc0_def)

subsection \<open>Witnesses\<close>

definition demo_rt :: runtime where
  "demo_rt = \<lparr>json_parse = demo_parse,
     fetch = (\<lambda>req. Inr \<lparr>resp_ok = True, resp_text = [],
       resp_body = Some [ReadChunk (data_prefix @ demo_payload @ ''\<newline>'')]\<rparr>)\<rparr>"

definition demo_error_rt :: runtime where
  "demo_error_rt = \<lparr>json_parse = (\<lambda>s. if s = ''E'' then
       Some (JObj [(''error'', JObj [(''message'', JStr ''Invalid API key'')])]) else None),
     fetch = (\<lambda>req. Inr \<lparr>resp_ok = False, resp_text = ''E'', resp_body = None\<rparr>)\<rparr>"

definition demo_html_rt :: runtime where
  "demo_html_rt = \<lparr>json_parse = (\<lambda>s. None),
     fetch = (\<lambda>req. Inr \<lparr>resp_ok = False, resp_text = ''<html>'', resp_body = None\<rparr>)\<rparr>"

definition demo_nobody_rt :: runtime where
  "demo_nobody_rt = \<lparr>json_parse = (\<lambda>s. None),
     fetch = (\<lambda>req. Inr \<lparr>resp_ok = True, resp_text = [], resp_body = None\<rparr>)\<rparr>"

lemma demo_rt_stream:
  "adapter_streamChat OpenAI demo_rt messages (Some ''gpt-4o-mini'') key =
     Inr [OnToken ''Hi'',
       OnComplete \<lparr>r_content = ''Hi'', r_model = Some ''gpt-4o-mini'', r_provider = OpenAI,
         r_tokens = None\<rparr>]"
proof -
  have "openai_line demo_parse (data_prefix @ demo_payload) = Some ''Hi''"
    using demo_openai_delta
    by (simp add: openai_line_def demo_parse_def data_prefix_def demo_payload_def Let_def)
  moreover have "data_lines (data_prefix @ demo_payload @ ''\<newline>'') = [data_prefix @ demo_payload]"
    by (simp add: data_lines_def data_prefix_def demo_payload_def starts_with_def)
  ultimately show ?thesis
    by (simp add: adapter_streamChat_generic generic_streamChat_def demo_rt_def stream_response_def
        stream_events_def feed_chunk_def feed_line_def acc0_def line_handler_def)
qed

theorem adapter_complete_content_witness:
  "r_content \<lparr>r_content = ''Hi'', r_model = Some ''gpt-4o-mini'', r_provider = OpenAI, r_tokens = None\<rparr>
     = token_text [OnToken ''Hi'',
         OnComplete \<lparr>r_content = ''Hi'', r_model = Some ''gpt-4o-mini'', r_provider = OpenAI,
           r_tokens = None\<rparr>]"
  using adapter_complete_content [OF demo_rt_stream] by simp

theorem adapter_http_error_witness:
  "adapter_streamChat Groq demo_error_rt [] (Some ''mixtral-8x7b'') ''k'' =
     Inr [OnError (ErrorMsg ''Invalid API key'')]"
proof -
  have h1: "fetch demo_error_rt (adapter_request Groq [] (Some ''mixtral-8x7b'') ''k'') =
      Inr \<lparr>resp_ok = False, resp_text = ''E'', resp_body = None\<rparr>"
    by (simp add: demo_error_rt_def)
  have h3: "json_parse demo_error_rt (resp_text \<lparr>resp_ok = False, resp_text = ''E'', resp_body = None\<rparr>)
      = Some (JObj [(''error'', JObj [(''message'', JStr ''Invalid API key'')])])"
    by (simp add: demo_error_rt_def)
  show ?thesis using adapter_http_error [OF h1 _ h3] by simp
qed

theorem adapter_error_body_not_json_witness:
  "adapter_streamChat Gemini demo_html_rt [] (Some ''gemini-1.5-pro'') ''k'' = Inl SyntaxErr"
proof -
  have h1: "fetch demo_html_rt (adapter_request Gemini [] (Some ''gemini-1.5-pro'') ''k'') =
      Inr \<lparr>resp_ok = False, resp_text = ''<html>'', resp_body = None\<rparr>"
    by (simp add: demo_html_rt_def)
  show ?thesis using adapter_error_body_not_json [OF h1] by (simp add: demo_html_rt_def)
qed

theorem adapter_body_cases_witness:
  "adapter_streamChat DeepSeek demo_nobody_rt [] (Some ''deepseek-chat'') ''k'' =
     Inr [OnError (ErrorMsg ''No response body'')]"
proof -
  have h1: "fetch demo_nobody_rt (adapter_request DeepSeek [] (Some ''deepseek-chat'') ''k'') =
      Inr \<lparr>resp_ok = True, resp_text = [], resp_body = None\<rparr>"
    by (simp add: demo_nobody_rt_def)
  show ?thesis using adapter_body_cases [OF h1] by simp
qed

end
