(* ===== verification/Storage.thy ===== *)
theory Storage
  imports Types
begin

text \<open>
  \<open>StorageService\<close> of \<open>lib/storage.ts\<close> over \<open>chrome.storage.local\<close>. The store
  is a record with one optional field per storage key (\<open>None\<close>: the key was never
  written). Each read applies the service's default (\<open>result[key] ?? defaultValue\<close>);
  each write replaces one key. Every method is a function from the store to the new
  store (or to the value it reads).

  \<open>defaultPromptCards\<close> stamps its cards with \<open>Date.now()\<close> when the module is
  loaded: the store keeps that instant as \<open>st_boot\<close>. Operations that read the clock
  (\<open>updatePromptCard\<close>) take the current time as an argument. A failure of
  \<open>chrome.storage\<close> itself (the \<open>catch\<close> in \<open>get\<close>) is not modelled.
\<close>

record store =
  st_settings :: "settings option"
  st_cards :: "prompt_card list option"
  st_history :: "history_entry list option"
  st_last_output :: "string option"
  st_boot :: int

definition default_config ::
  "provider \<Rightarrow> string \<Rightarrow> model_id list \<Rightarrow> string \<Rightarrow> provider_config" where
  "default_config p name ms url =
     \<lparr>pc_id = p, pc_name = name, enabled = False, apiKey = [], models = ms, baseUrl = url\<rparr>"

definition defaultSettings :: settings where
  "defaultSettings = \<lparr>defaultModel = ''gpt-4o-mini'', defaultProvider = OpenAI,
     providers = [
       (OpenAI, default_config OpenAI ''OpenAI'' [''gpt-4o-mini'', ''gpt-4.1'', ''gpt-3.5-turbo'']
          ''https://api.openai.com/v1''),
       (Gemini, default_config Gemini ''Google Gemini'' [''gemini-1.5-flash'', ''gemini-1.5-pro'']
          ''https://generativelanguage.googleapis.com/v1beta''),
       (Groq, default_config Groq ''Groq'' [''llama-3.1-70b'', ''mixtral-8x7b'']
          ''https://api.groq.com/openai/v1''),
       (DeepSeek, default_config DeepSeek ''DeepSeek'' [''deepseek-chat'', ''deepseek-coder'']
          ''https://api.deepseek.com/v1'')],
     uiMode = Popup, historySize = 50, theme = Dark\<rparr>"

definition default_card ::
  "string \<Rightarrow> string \<Rightarrow> string \<Rightarrow> prompt_template \<Rightarrow> string list \<Rightarrow> int \<Rightarrow> int \<Rightarrow> prompt_card" where
  "default_card i t d tpl vars ord now =
     \<lparr>card_id = i, title = t, description = d, template = tpl, variables = vars,
      modelOverride = None, order = ord, createdAt = now, updatedAt = now\<rparr>"

definition defaultPromptCards :: "int \<Rightarrow> prompt_card list" where
  "defaultPromptCards now = [
     default_card ''rephrase-professional'' ''Rephrase Professional''
       ''Rewrite text in a professional tone''
       \<lparr>system = ''You are a professional writing assistant.'',
        instruction = ''Rephrase the following text in a professional tone:'', tone = Professional,
        maxWords = 100, rules = [''No greetings'', ''No explanations'', ''Output only the result'']\<rparr>
       [''selection''] 0 now,
     default_card ''fix-grammar'' ''Fix Grammar'' ''Correct grammar and spelling errors''
       \<lparr>system = ''You are a grammar correction assistant.'',
        instruction = ''Fix all grammar and spelling errors in the following text:'', tone = Neutral,
        maxWords = 0,
        rules = [''Preserve original meaning'', ''Only fix errors'', ''Output corrected text only'']\<rparr>
       [''selection''] 1 now,
     default_card ''commit-message'' ''Write Commit Message'' ''Generate a git commit message''
       \<lparr>system = ''You are a senior developer writing commit messages.'',
        instruction = ''Write a concise git commit message for these changes:'', tone = Strict,
        maxWords = 50, rules = [''Use conventional commit format'', ''Be concise'', ''No explanations'',
          ''Output only the commit message'']\<rparr>
       [''selection''] 2 now,
     default_card ''explain-code'' ''Explain Code'' ''Explain what the code does''
       \<lparr>system = ''You are a helpful programming tutor.'',
        instruction = ''Explain what this code does in simple terms:'', tone = Casual,
        maxWords = 200, rules = [''Be clear and concise'', ''Use simple language'']\<rparr>
       [''selection''] 3 now,
     default_card ''summarize-page'' ''Summarize Page'' ''Summarize the current page content''
       \<lparr>system = ''You are a content summarization expert.'',
        instruction = ''Summarize the main points of this page:'', tone = Neutral,
        maxWords = 150, rules = [''Focus on key points'', ''Be concise'', ''Use bullet points if helpful'']\<rparr>
       [''pageContent'', ''pageTitle''] 4 now,
     default_card ''pr-title'' ''Generate PR Title'' ''Create a pull request title''
       \<lparr>system = ''You are a developer creating PR titles.'',
        instruction = ''Generate a clear PR title for these changes:'', tone = Professional,
        maxWords = 15, rules = [''Be descriptive'', ''Keep it short'', ''Output only the title'']\<rparr>
       [''selection''] 5 now]"

subsection \<open>Settings\<close>

definition getSettings :: "store \<Rightarrow> settings" where
  "getSettings st = (case st_settings st of None \<Rightarrow> defaultSettings | Some s \<Rightarrow> s)"

definition saveSettings :: "settings \<Rightarrow> store \<Rightarrow> store" where
  "saveSettings s st = st\<lparr>st_settings := Some s\<rparr>"

text \<open>
  \<open>settings.providers[provider].apiKey = apiKey\<close> throws a \<open>TypeError\<close> when the
  stored settings have no entry for the provider.
\<close>

definition set_provider_key :: "provider \<Rightarrow> string \<Rightarrow> provider_config \<Rightarrow> provider_config" where
  "set_provider_key p key c = c\<lparr>apiKey := key, enabled := length key > 0\<rparr>"

definition updateProviderKey :: "provider \<Rightarrow> string \<Rightarrow> store \<Rightarrow> js_error + store" where
  "updateProviderKey p key st =
     (let s = getSettings st in
      if provider_lookup s p = None then Inl TypeErr
      else Inr (saveSettings (s\<lparr>providers :=
        map (\<lambda>(k, c). if k = p then (k, set_provider_key p key c) else (k, c)) (providers s)\<rparr>) st))"

definition setDefaultModel :: "model_id \<Rightarrow> provider \<Rightarrow> store \<Rightarrow> store" where
  "setDefaultModel m p st =
     saveSettings ((getSettings st)\<lparr>defaultModel := m, defaultProvider := p\<rparr>) st"

subsection \<open>Prompt cards\<close>

definition getPromptCards :: "store \<Rightarrow> prompt_card list" where
  "getPromptCards st = (case st_cards st of None \<Rightarrow> defaultPromptCards (st_boot st) | Some cs \<Rightarrow> cs)"

definition savePromptCards :: "prompt_card list \<Rightarrow> store \<Rightarrow> store" where
  "savePromptCards cs st = st\<lparr>st_cards := Some cs\<rparr>"

definition addPromptCard :: "prompt_card \<Rightarrow> store \<Rightarrow> store" where
  "addPromptCard c st = savePromptCards (getPromptCards st @ [c]) st"

definition updatePromptCard :: "int \<Rightarrow> prompt_card \<Rightarrow> store \<Rightarrow> store" where
  "updatePromptCard now c st =
     (let cs = getPromptCards st in
      case js_findIndex (\<lambda>x. card_id x = card_id c) cs of
        None \<Rightarrow> st
      | Some i \<Rightarrow> savePromptCards (cs[i := c\<lparr>updatedAt := now\<rparr>]) st)"

definition deletePromptCard :: "string \<Rightarrow> store \<Rightarrow> store" where
  "deletePromptCard i st = savePromptCards (filter (\<lambda>c. card_id c \<noteq> i) (getPromptCards st)) st"

text \<open>\<open>cardIds.map((id, index) => ...)\<close> followed by \<open>.filter(Boolean)\<close>.\<close>

definition reorder_cards :: "prompt_card list \<Rightarrow> string list \<Rightarrow> prompt_card list" where
  "reorder_cards cs ids =
     concat (map (\<lambda>(n, i). case find (\<lambda>c. card_id c = i) cs of
                              None \<Rightarrow> []
                            | Some c \<Rightarrow> [c\<lparr>order := int n\<rparr>]) (enumerate 0 ids))"

definition reorderPromptCards :: "string list \<Rightarrow> store \<Rightarrow> store" where
  "reorderPromptCards ids st = savePromptCards (reorder_cards (getPromptCards st) ids) st"

subsection \<open>History\<close>

definition getHistory :: "store \<Rightarrow> history_entry list" where
  "getHistory st = (case st_history st of None \<Rightarrow> [] | Some h \<Rightarrow> h)"

definition addHistoryEntry :: "history_entry \<Rightarrow> store \<Rightarrow> store" where
  "addHistoryEntry e st =
     (let s = getSettings st;
          history = e # getHistory st;
          history' = (if int (length history) > historySize s
                      then js_slice0 history (historySize s) else history)
      in st\<lparr>st_history := Some history'\<rparr>)"

definition getCardHistory :: "string \<Rightarrow> store \<Rightarrow> history_entry list" where
  "getCardHistory i st = filter (\<lambda>h. cardId h = i) (getHistory st)"

definition clearCardHistory :: "string \<Rightarrow> store \<Rightarrow> store" where
  "clearCardHistory i st = st\<lparr>st_history := Some (filter (\<lambda>h. cardId h \<noteq> i) (getHistory st))\<rparr>"

definition clearAllHistory :: "store \<Rightarrow> store" where
  "clearAllHistory st = st\<lparr>st_history := Some []\<rparr>"

definition setLastOutput :: "string \<Rightarrow> store \<Rightarrow> store" where
  "setLastOutput out st = st\<lparr>st_last_output := Some out\<rparr>"

definition getLastOutput :: "store \<Rightarrow> string" where
  "getLastOutput st = (case st_last_output st of None \<Rightarrow> [] | Some out \<Rightarrow> out)"

subsection \<open>Predicates and fixtures\<close>

definition keys_consistent :: "settings \<Rightarrow> bool" where
  "keys_consistent s \<longleftrightarrow> (\<forall>(p, c) \<in> set (providers s). enabled c \<longleftrightarrow> apiKey c \<noteq> [])"

definition ids_of :: "prompt_card list \<Rightarrow> string set" where
  "ids_of cs = card_id ` set cs"

definition empty_store :: store where
  "empty_store = \<lparr>st_settings = None, st_cards = None, st_history = None, st_last_output = None,
     st_boot = 0\<rparr>"

definition demo_entry :: "string \<Rightarrow> string \<Rightarrow> history_entry" where
  "demo_entry i c = \<lparr>h_id = i, cardId = c, h_input = [], h_output = [], h_model = None,
     h_provider = OpenAI, timestamp = 0, h_tokens = None\<rparr>"

subsection \<open>Lemmas on the storage operations\<close>

lemma getSettings_addHistoryEntry [simp]: "getSettings (addHistoryEntry e st) = getSettings st"
  by (simp add: getSettings_def addHistoryEntry_def Let_def)

lemma getHistory_addHistoryEntry_raw:
  "getHistory (addHistoryEntry e st) =
     (let h = e # getHistory st in
      if int (length h) > historySize (getSettings st) then js_slice0 h (historySize (getSettings st))
      else h)"
  by (simp add: getHistory_def addHistoryEntry_def Let_def)

text \<open>C4. \<open>addHistoryEntry\<close> puts the new entry first and keeps the
  \<open>historySize\<close> most recent entries: the oldest are evicted.\<close>

theorem addHistoryEntry_cap:
  assumes "0 \<le> historySize (getSettings st)"
  shows "getHistory (addHistoryEntry e st) = take (nat (historySize (getSettings st))) (e # getHistory st)"
  using assms by (auto simp: getHistory_def addHistoryEntry_def Let_def)

text \<open>Spec section 8: with \<open>historySize = 2\<close>, three completions recorded in a row
  leave exactly the two most recent entries, newest first.\<close>

theorem history_size_two_scenario:
  assumes "historySize (getSettings st) = 2" and "getHistory st = []"
  shows "getHistory (addHistoryEntry e3 (addHistoryEntry e2 (addHistoryEntry e1 st))) = [e3, e2]"
  using assms by (simp add: getHistory_addHistoryEntry_raw)

lemma keys_consistent_defaultSettings: "keys_consistent defaultSettings"
  by (simp add: keys_consistent_def defaultSettings_def default_config_def)

lemma map_of_map_update:
  "map_of (map (\<lambda>(k, c). if k = p then (k, f c) else (k, c)) xs) q =
   (if q = p then map_option f (map_of xs q) else map_of xs q)"
  by (induction xs) auto

lemma updateProviderKey_Inr:
  "updateProviderKey p key st = Inr st' \<longleftrightarrow>
   provider_lookup (getSettings st) p \<noteq> None \<and>
   st' = saveSettings ((getSettings st)\<lparr>providers :=
     map (\<lambda>(k, c). if k = p then (k, set_provider_key p key c) else (k, c))
       (providers (getSettings st))\<rparr>) st"
  by (auto simp: updateProviderKey_def Let_def)

text \<open>C7. \<open>updateProviderKey\<close> keeps the invariant of spec section 3 that a provider
  is enabled exactly when its API key is non-empty, and stores the key.\<close>

theorem updateProviderKey_consistent:
  assumes "keys_consistent (getSettings st)" and "updateProviderKey p key st = Inr st'"
  shows "keys_consistent (getSettings st') \<and>
         map_option apiKey (provider_lookup (getSettings st') p) = Some key"
proof -
  from assms(2) have found: "provider_lookup (getSettings st) p \<noteq> None"
    and st': "st' = saveSettings ((getSettings st)\<lparr>providers :=
        map (\<lambda>(k, c). if k = p then (k, set_provider_key p key c) else (k, c))
          (providers (getSettings st))\<rparr>) st"
    unfolding updateProviderKey_Inr by blast+
  have "keys_consistent ((getSettings st)\<lparr>providers :=
      map (\<lambda>(k, c). if k = p then (k, set_provider_key p key c) else (k, c))
        (providers (getSettings st))\<rparr>)"
    using assms(1) by (auto simp: keys_consistent_def set_provider_key_def split: if_splits)
  then have "keys_consistent (getSettings st')"
    by (simp add: st' getSettings_def saveSettings_def)
  moreover have "map_option apiKey (provider_lookup (getSettings st') p) = Some key"
    using found by (auto simp: st' getSettings_def saveSettings_def provider_lookup_def
        map_of_map_update set_provider_key_def)
  ultimately show ?thesis ..
qed

lemma find_card_None: "find (\<lambda>c. card_id c = i) cs = None \<longleftrightarrow> i \<notin> ids_of cs"
  by (auto simp: ids_of_def find_None_iff)

lemma find_card_Some:
  assumes "find (\<lambda>c. card_id c = i) cs = Some c"
  shows "card_id c = i" and "i \<in> ids_of cs"
proof -
  from assms obtain n where "n < length cs" "card_id (cs ! n) = i" "c = cs ! n"
    by (auto simp: find_Some_iff)
  then show "card_id c = i" and "i \<in> ids_of cs"
    by (auto simp: ids_of_def)
qed

text \<open>One step of the \<open>reorder_cards\<close> scan: the card found for the listed id, if any,
  with its new order.\<close>

lemma reorder_step:
  "(case find (\<lambda>c. card_id c = i) cs of None \<Rightarrow> [] | Some c \<Rightarrow> [c\<lparr>order := n\<rparr>]) =
   (if i \<in> ids_of cs then [(the (find (\<lambda>c. card_id c = i) cs))\<lparr>order := n\<rparr>] else [])"
proof (cases "find (\<lambda>c. card_id c = i) cs")
  case None
  then show ?thesis using find_card_None [of i cs] by simp
next
  case (Some c)
  then show ?thesis using find_card_Some(2) [OF Some] by simp
qed

lemma reorder_from_ids:
  "map card_id (concat (map (\<lambda>(n, i). case find (\<lambda>c. card_id c = i) cs of
        None \<Rightarrow> [] | Some c \<Rightarrow> [c\<lparr>order := int n\<rparr>]) (enumerate k ids)))
   = filter (\<lambda>i. i \<in> ids_of cs) ids"
proof (induction ids arbitrary: k)
  case Nil
  then show ?case by simp
next
  case (Cons i ids)
  have "i \<in> ids_of cs \<Longrightarrow> card_id (the (find (\<lambda>c. card_id c = i) cs)) = i"
    by (cases "find (\<lambda>c. card_id c = i) cs") (auto simp: find_card_None dest: find_card_Some(1))
  with Cons.IH show ?case by (simp add: reorder_step)
qed

lemma reorder_from_orders:
  "map order (concat (map (\<lambda>(n, i). case find (\<lambda>c. card_id c = i) cs of
        None \<Rightarrow> [] | Some c \<Rightarrow> [c\<lparr>order := int n\<rparr>]) (enumerate k ids)))
   = map (int \<circ> fst) (filter (\<lambda>(n, i). i \<in> ids_of cs) (enumerate k ids))"
proof (induction ids arbitrary: k)
  case Nil
  then show ?case by simp
next
  case (Cons i ids)
  then show ?case by (simp add: reorder_step)
qed

text \<open>\<open>reorderPromptCards ids\<close> keeps, in the order of \<open>ids\<close>, the stored cards
  whose id is listed, each with its position in \<open>ids\<close> as order: a stored card whose
  id is not listed is deleted, and a listed id without a card leaves a gap in the orders.\<close>

theorem reorderPromptCards_spec:
  "map card_id (getPromptCards (reorderPromptCards ids st)) =
     filter (\<lambda>i. i \<in> ids_of (getPromptCards st)) ids \<and>
   map order (getPromptCards (reorderPromptCards ids st)) =
     map (int \<circ> fst) (filter (\<lambda>(n, i). i \<in> ids_of (getPromptCards st)) (enumerate 0 ids))"
  by (simp add: reorderPromptCards_def savePromptCards_def getPromptCards_def reorder_cards_def
      reorder_from_ids reorder_from_orders)

text \<open>Finding: \<open>deletePromptCard\<close> does not recompute the orders: deleting the
  second default card leaves the orders 0, 2, 3, 4, 5, not the dense rank of spec section
  3.\<close>

theorem deletePromptCard_order_gap:
  "map order (getPromptCards (deletePromptCard ''fix-grammar'' empty_store)) = [0, 2, 3, 4, 5]"
  by (simp add: deletePromptCard_def getPromptCards_def savePromptCards_def empty_store_def
      defaultPromptCards_def default_card_def)

text \<open>\<open>clearCardHistory i\<close> removes every entry of card \<open>i\<close> and leaves the
  history of every other card as it was.\<close>

theorem clearCardHistory_frame:
  "getCardHistory i (clearCardHistory i st) = [] \<and>
   (j \<noteq> i \<longrightarrow> getCardHistory j (clearCardHistory i st) = getCardHistory j st)"
  by (auto simp: getCardHistory_def clearCardHistory_def getHistory_def intro: filter_cong)

subsection \<open>Witnesses\<close>

theorem addHistoryEntry_cap_witness:
  "getHistory (addHistoryEntry (demo_entry ''3'' ''c'')
     (empty_store\<lparr>st_settings := Some (defaultSettings\<lparr>historySize := 1\<rparr>),
                  st_history := Some [demo_entry ''2'' ''c'']\<rparr>)) = [demo_entry ''3'' ''c'']"
proof -
  let ?st = "empty_store\<lparr>st_settings := Some (defaultSettings\<lparr>historySize := 1\<rparr>),
                  st_history := Some [demo_entry ''2'' ''c'']\<rparr>"
  have h: "0 \<le> historySize (getSettings ?st)" by (simp add: getSettings_def)
  show ?thesis using addHistoryEntry_cap [OF h] by (simp add: getSettings_def getHistory_def)
qed

theorem history_size_two_scenario_witness:
  "getHistory (addHistoryEntry (demo_entry ''3'' ''c'') (addHistoryEntry (demo_entry ''2'' ''c'')
     (addHistoryEntry (demo_entry ''1'' ''c'')
       (empty_store\<lparr>st_settings := Some (defaultSettings\<lparr>historySize := 2\<rparr>)\<rparr>))))
   = [demo_entry ''3'' ''c'', demo_entry ''2'' ''c'']"
proof -
  let ?st = "empty_store\<lparr>st_settings := Some (defaultSettings\<lparr>historySize := 2\<rparr>)\<rparr>"
  have h1: "historySize (getSettings ?st) = 2" by (simp add: getSettings_def)
  have h2: "getHistory ?st = []" by (simp add: getHistory_def empty_store_def)
  show ?thesis by (rule history_size_two_scenario [OF h1 h2])
qed

theorem updateProviderKey_consistent_witness:
  "case updateProviderKey Gemini ''AIza-key'' empty_store of
     Inl e \<Rightarrow> False
   | Inr st' \<Rightarrow> keys_consistent (getSettings st') \<and>
       map_option apiKey (provider_lookup (getSettings st') Gemini) = Some ''AIza-key''"
proof -
  have h1: "keys_consistent (getSettings empty_store)"
    by (simp add: getSettings_def empty_store_def keys_consistent_defaultSettings)
  have "provider_lookup defaultSettings Gemini \<noteq> None"
    by (simp add: provider_lookup_def defaultSettings_def)
  then obtain st' where h2: "updateProviderKey Gemini ''AIza-key'' empty_store = Inr st'"
    by (simp add: updateProviderKey_def getSettings_def empty_store_def)
  show ?thesis using updateProviderKey_consistent [OF h1 h2] h2 by simp
qed

theorem clearCardHistory_frame_witness:
  "getCardHistory ''b'' (clearCardHistory ''a''
     (empty_store\<lparr>st_history := Some [demo_entry ''1'' ''a'', demo_entry ''2'' ''b'']\<rparr>)) =
   getCardHistory ''b'' (empty_store\<lparr>st_history := Some [demo_entry ''1'' ''a'', demo_entry ''2'' ''b'']\<rparr>)"
  using clearCardHistory_frame [of "''a''" _ "''b''"] by simp

end
