(* ===== verification/Orchestrator.thy ===== *)
theory Orchestrator
  imports Registry PromptCompiler Adapters Storage
begin

text \<open>
  The execution entry points of class \<open>PromptEngine\<close> (\<open>lib/prompt-engine.ts\<close>):
  \<open>executeCard\<close> and \<open>executeRephrase\<close>, and the dispatch \<open>executeWithProvider\<close>.
  Each takes the settings read by \<open>storage.getSettings()\<close> at its start and the
  runtime of the adapters, and returns \<open>js_error + event list\<close>: \<open>Inr\<close> the
  callbacks made, \<open>Inl\<close> an exception that escapes the entry point (its promise
  rejects). The two fallback searches are written as the loops they are: over the fixed
  list \<open>['openai', 'gemini', 'groq', 'deepseek']\<close> for cards, over
  \<open>Object.entries(settings.providers)\<close> for rephrasing.
\<close>

definition executeWithProvider ::
  "runtime \<Rightarrow> provider \<Rightarrow> model_id option \<Rightarrow> string \<Rightarrow> chat_message list \<Rightarrow> event list" where
  "executeWithProvider rt p model key messages =
     (case adapter_streamChat p rt messages model key of
        Inl e \<Rightarrow> [OnError e]
      | Inr evs \<Rightarrow> evs)"

definition fallbackOrder :: "provider list" where
  "fallbackOrder = [OpenAI, Gemini, Groq, DeepSeek]"

text \<open>The \<open>for\<close> loop of \<open>executeCard\<close>: \<open>fallbackConfig.enabled\<close> throws on a
  provider missing from the settings.\<close>

fun card_fallback :: "settings \<Rightarrow> provider list \<Rightarrow> js_error + (provider \<times> provider_config) option" where
  "card_fallback s [] = Inr None"
| "card_fallback s (p # ps) =
     (case provider_lookup s p of
        None \<Rightarrow> Inl TypeErr
      | Some c \<Rightarrow> if usable c then Inr (Some (p, c)) else card_fallback s ps)"

text \<open>\<open>card.modelOverride || settings.defaultModel\<close>.\<close>

definition card_model :: "settings \<Rightarrow> prompt_card \<Rightarrow> model_id" where
  "card_model s c = (case modelOverride c of None \<Rightarrow> defaultModel s | Some m \<Rightarrow> js_or m (defaultModel s))"

definition no_keys_card_msg :: string where
  "no_keys_card_msg = ''No API keys configured. Please add at least one API key in settings.''"

definition executeCard ::
  "runtime \<Rightarrow> settings \<Rightarrow> prompt_card \<Rightarrow> string \<Rightarrow> page_context \<Rightarrow> js_error + event list" where
  "executeCard rt s c input ctx =
     (let messages = buildMessages c input ctx;
          model = card_model s c;
          p = getProviderForModel model
      in case provider_lookup s p of
           None \<Rightarrow> Inl TypeErr
         | Some pc \<Rightarrow>
             if \<not> usable pc then
               (case card_fallback s fallbackOrder of
                  Inl e \<Rightarrow> Inl e
                | Inr None \<Rightarrow> Inr [OnError (ErrorMsg no_keys_card_msg)]
                | Inr (Some (fp, fc)) \<Rightarrow>
                    Inr (executeWithProvider rt fp (js_index0 (models fc)) (apiKey fc) messages))
             else Inr (executeWithProvider rt p (Some model) (apiKey pc) messages))"

text \<open>The ad hoc prompt of \<open>executeRephrase\<close>; \<open>.filter(Boolean)\<close> drops the empty
  string that stands for a missing word limit.\<close>

definition rephrase_system_prompt :: "string \<Rightarrow> int \<Rightarrow> string list \<Rightarrow> string" where
  "rephrase_system_prompt t maxW rs =
     join_with ''\<newline>'' (filter (\<lambda>x. x \<noteq> [])
       ([''You are a text rephrasing assistant.'', ''Use a '' @ t @ '' tone.'',
         if maxW > 0 then word_limit_line maxW else []] @ map bullet rs))"

definition rephrase_messages :: "string \<Rightarrow> string \<Rightarrow> int \<Rightarrow> string list \<Rightarrow> chat_message list" where
  "rephrase_messages text t maxW rs =
     [\<lparr>role = System, content = rephrase_system_prompt t maxW rs\<rparr>,
      \<lparr>role = User, content = ''Rephrase the following text:\<newline>\<newline>'' @ text\<rparr>]"

text \<open>The loop over \<open>Object.entries(settings.providers)\<close>: the first usable entry in
  insertion order.\<close>

definition rephrase_fallback :: "settings \<Rightarrow> (provider \<times> provider_config) option" where
  "rephrase_fallback s = find (\<lambda>(k, c). usable c) (providers s)"

definition executeRephrase ::
  "runtime \<Rightarrow> settings \<Rightarrow> string \<Rightarrow> string \<Rightarrow> int \<Rightarrow> string list \<Rightarrow> js_error + event list" where
  "executeRephrase rt s text t maxW rs =
     (let model = defaultModel s;
          p = getProviderForModel model;
          messages = rephrase_messages text t maxW rs
      in case provider_lookup s p of
           None \<Rightarrow> Inl TypeErr
         | Some pc \<Rightarrow>
             if \<not> usable pc then
               (case rephrase_fallback s of
                  None \<Rightarrow> Inr [OnError (ErrorMsg ''No API keys configured.'')]
                | Some (k, cfg) \<Rightarrow>
                    Inr (executeWithProvider rt k (js_index0 (models cfg)) (apiKey cfg) messages))
             else Inr (executeWithProvider rt p (Some model) (apiKey pc) messages))"

subsection \<open>Fixtures\<close>

definition demo_context :: page_context where
  "demo_context = \<lparr>selection = ''fix(api): add retry'', pageTitle = [], pageUrl = [], pageContent = []\<rparr>"

definition gemini_settings :: settings where
  "gemini_settings = defaultSettings\<lparr>providers :=
     map (\<lambda>(k, c). if k = Gemini then (k, set_provider_key Gemini ''AIza'' c) else (k, c))
       (providers defaultSettings)\<rparr>"

definition cfg_with_key :: "provider_config \<Rightarrow> string \<Rightarrow> provider_config" where
  "cfg_with_key c key = c\<lparr>apiKey := key, enabled := True\<rparr>"

definition diverging_settings :: settings where
  "diverging_settings = defaultSettings\<lparr>defaultModel := ''deepseek-chat'', providers :=
     [(Gemini, cfg_with_key (the (provider_lookup defaultSettings Gemini)) ''AIza''),
      (OpenAI, cfg_with_key (the (provider_lookup defaultSettings OpenAI)) ''sk-o''),
      (Groq, the (provider_lookup defaultSettings Groq)),
      (DeepSeek, the (provider_lookup defaultSettings DeepSeek))]\<rparr>"

subsection \<open>Properties of the entry points\<close>

text \<open>C1. Every execution follows the callback protocol of spec section 4.2: whatever
  the provider, the network and the stream deliver, \<open>executeWithProvider\<close> makes some
  \<open>onToken\<close> calls and then exactly one \<open>onComplete\<close> or \<open>onError\<close>, last.\<close>

theorem executeWithProvider_protocol:
  "protocol_ok (executeWithProvider rt p model key messages)"
  by (auto simp: executeWithProvider_def split: sum.split intro: adapter_streamChat_protocol)

lemma executeWithProvider_complete:
  assumes "OnComplete r \<in> set (executeWithProvider rt p model key messages)"
  shows "r_content r = token_text (executeWithProvider rt p model key messages)"
proof (cases "adapter_streamChat p rt messages model key")
  case (Inl e)
  with assms show ?thesis by (simp add: executeWithProvider_def)
next
  case (Inr evs)
  with assms show ?thesis
    by (auto simp: executeWithProvider_def adapter_streamChat_generic generic_streamChat_def
        stream_response_def split: sum.splits if_splits option.splits dest: stream_events_complete)
qed

lemma card_fallback_Inr:
  "\<forall>p \<in> set ps. provider_lookup s p \<noteq> None \<Longrightarrow> \<exists>r. card_fallback s ps = Inr r"
  by (induction ps) auto

lemma card_fallback_protocol:
  "card_fallback s ps = Inr (Some (fp, fc)) \<Longrightarrow> usable fc"
  by (induction ps) (auto split: option.splits if_splits)

text \<open>The same holds of \<open>executeCard\<close> and \<open>executeRephrase\<close> whenever they
  return normally.\<close>

lemma entry_points_protocol:
  "(executeCard rt s c input ctx = Inr evs \<longrightarrow> protocol_ok evs) \<and>
   (executeRephrase rt s text t maxW rs = Inr evs' \<longrightarrow> protocol_ok evs')"
proof -
  have ewp: "protocol_ok (executeWithProvider rt p m k ms)" for p m k ms
    unfolding executeWithProvider_def
    by (cases "adapter_streamChat p rt ms m k") (simp_all add: adapter_streamChat_protocol)
  show ?thesis
    by (auto simp: executeCard_def executeRephrase_def Let_def ewp
        split: option.splits if_splits sum.splits)
qed

lemma UNIV_fallbackOrder: "set fallbackOrder = UNIV"
  using provider.exhaust by (auto simp: fallbackOrder_def)

text \<open>When the settings hold an entry for each of the four providers,
  \<open>executeCard\<close> never lets an exception escape: it reports through the callbacks
  only.\<close>

theorem executeCard_total:
  assumes "\<forall>p. provider_lookup s p \<noteq> None"
  shows "\<exists>evs. executeCard rt s c input ctx = Inr evs"
proof -
  obtain r where "card_fallback s fallbackOrder = Inr r"
    using card_fallback_Inr assms by blast
  then show ?thesis
    using assms by (auto simp: executeCard_def Let_def split: option.splits)
qed

lemma card_fallback_none:
  "\<forall>p \<in> set ps. \<exists>cfg. provider_lookup s p = Some cfg \<and> \<not> usable cfg \<Longrightarrow> card_fallback s ps = Inr None"
  by (induction ps) auto

text \<open>C2. Fallback exhaustion (spec section 8): when no provider is enabled with a key,
  \<open>executeCard\<close> makes exactly one callback, \<open>onError\<close> with the "No API keys
  configured" message, and no network request.\<close>

theorem executeCard_no_keys:
  assumes "\<forall>p. \<exists>cfg. provider_lookup s p = Some cfg \<and> \<not> usable cfg"
  shows "executeCard rt s c input ctx = Inr [OnError (ErrorMsg no_keys_card_msg)]"
proof -
  have "card_fallback s fallbackOrder = Inr None"
    using assms by (simp add: card_fallback_none)
  moreover obtain pc where "provider_lookup s (getProviderForModel (card_model s c)) = Some pc"
      and "\<not> usable pc"
    using assms by blast
  ultimately show ?thesis by (simp add: executeCard_def Let_def)
qed

text \<open>Fallback exhaustion for \<open>executeRephrase\<close>: with no usable provider it makes
  exactly one callback, \<open>onError('No API keys configured.')\<close>.\<close>

theorem executeRephrase_no_keys:
  assumes "provider_lookup s (getProviderForModel (defaultModel s)) \<noteq> None"
    and "\<forall>(p, cfg) \<in> set (providers s). \<not> usable cfg"
  shows "executeRephrase rt s text t maxW rs = Inr [OnError (ErrorMsg ''No API keys configured.'')]"
proof -
  obtain pc where pc: "provider_lookup s (getProviderForModel (defaultModel s)) = Some pc"
    using assms(1) by blast
  then have "(getProviderForModel (defaultModel s), pc) \<in> set (providers s)"
    by (simp add: provider_lookup_def map_of_SomeD)
  with assms(2) have "\<not> usable pc" by blast
  moreover have "rephrase_fallback s = None"
    using assms(2) by (auto simp: rephrase_fallback_def find_None_iff)
  ultimately show ?thesis using pc by (simp add: executeRephrase_def Let_def)
qed

lemma card_fallback_unique:
  assumes "\<forall>p \<in> set ps. provider_lookup s p \<noteq> None" and "q \<in> set ps"
    and "provider_lookup s q = Some qc" and "usable qc"
    and "\<forall>p cfg. p \<noteq> q \<longrightarrow> provider_lookup s p = Some cfg \<longrightarrow> \<not> usable cfg"
  shows "card_fallback s ps = Inr (Some (q, qc))"
  using assms(1,2)
proof (induction ps)
  case Nil
  then show ?case by simp
next
  case (Cons p ps)
  show ?case
  proof (cases "p = q")
    case True
    with assms(3,4) show ?thesis by simp
  next
    case False
    with Cons.prems obtain cfg where "provider_lookup s p = Some cfg" "q \<in> set ps" by auto
    with False assms(5) Cons show ?thesis by auto
  qed
qed

text \<open>C3. Fallback search (spec section 8): when the card's provider is unusable and
  exactly one provider is enabled with a key, \<open>executeCard\<close> runs the card's messages
  on that provider with the first model of its list and its key.\<close>

theorem executeCard_fallback_single:
  assumes "provider_lookup s (getProviderForModel (card_model s c)) = Some pc" and "\<not> usable pc"
    and "\<forall>p. provider_lookup s p \<noteq> None"
    and "provider_lookup s q = Some qc" and "usable qc"
    and "\<forall>p cfg. p \<noteq> q \<longrightarrow> provider_lookup s p = Some cfg \<longrightarrow> \<not> usable cfg"
  shows "executeCard rt s c input ctx =
           Inr (executeWithProvider rt q (js_index0 (models qc)) (apiKey qc) (buildMessages c input ctx))"
proof -
  have "card_fallback s fallbackOrder = Inr (Some (q, qc))"
    using card_fallback_unique [of fallbackOrder s q qc] assms(3-6) UNIV_fallbackOrder by simp
  with assms(1,2) show ?thesis by (simp add: executeCard_def Let_def)
qed

lemma card_fallback_entries:
  assumes "\<forall>(k, c) \<in> set ys. provider_lookup s k = Some c"
  shows "card_fallback s (map fst ys) = Inr (find (\<lambda>(k, c). usable c) ys)"
  using assms by (induction ys) auto

text \<open>When the providers are stored in the default order, the fixed fallback list of
  \<open>executeCard\<close> and the \<open>Object.entries\<close> order of \<open>executeRephrase\<close> pick
  the same provider.\<close>

theorem fallback_policies_agree:
  assumes "map fst (providers s) = fallbackOrder"
  shows "card_fallback s fallbackOrder = Inr (rephrase_fallback s)"
proof -
  have "distinct (map fst (providers s))"
    using assms by (simp add: fallbackOrder_def)
  then have "\<forall>(k, c) \<in> set (providers s). provider_lookup s k = Some c"
    by (auto simp: provider_lookup_def)
  from card_fallback_entries [OF this] assms show ?thesis
    by (simp add: rephrase_fallback_def)
qed

text \<open>The rephrase prompt is the assistant line, the tone line, the word-limit line
  only for a positive limit, and one bullet per rule: \<open>filter(Boolean)\<close> leaves no
  empty line where the limit is absent.\<close>

theorem rephrase_system_prompt_lines:
  assumes "\<forall>r \<in> set rs. CHR ''\<newline>'' \<notin> set r" and "CHR ''\<newline>'' \<notin> set t"
  shows "split_on CHR ''\<newline>'' (rephrase_system_prompt t maxW rs) =
     [''You are a text rephrasing assistant.'', ''Use a '' @ t @ '' tone.''] @
     (if maxW > 0 then [word_limit_line maxW] else []) @ map bullet rs"
proof -
  have ne: "word_limit_line n \<noteq> []" "bullet r \<noteq> []" for n r
    by (simp_all add: word_limit_line_def word_limit_prefix_def bullet_def)
  have f: "filter (\<lambda>x. x \<noteq> [])
      ([''You are a text rephrasing assistant.'', ''Use a '' @ t @ '' tone.'',
        if maxW > 0 then word_limit_line maxW else []] @ map bullet rs) =
     [''You are a text rephrasing assistant.'', ''Use a '' @ t @ '' tone.''] @
     (if maxW > 0 then [word_limit_line maxW] else []) @ map bullet rs"
    using ne by (simp add: filter_id_conv)
  have "\<forall>x \<in> set ([''You are a text rephrasing assistant.'', ''Use a '' @ t @ '' tone.''] @
     (if maxW > 0 then [word_limit_line maxW] else []) @ map bullet rs). CHR ''\<newline>'' \<notin> set x"
    using assms string_of_int_no_newline
    by (auto simp: word_limit_line_def word_limit_prefix_def bullet_def)
  then show ?thesis
    unfolding rephrase_system_prompt_def f by (rule split_on_join [rotated]) simp
qed

text \<open>With every provider of the fixed order present, the card fallback picks the
  first usable provider of that order.\<close>

lemma card_fallback_find:
  "\<forall>q\<in>set ps. provider_lookup s q \<noteq> None \<Longrightarrow>
   card_fallback s ps = Inr (map_option (\<lambda>q. (q, the (provider_lookup s q)))
     (find (\<lambda>q. case provider_lookup s q of Some cfg \<Rightarrow> usable cfg | None \<Rightarrow> False) ps))"
  by (induction ps) (auto split: option.splits)

text \<open>C31. Finding (spec section 9): when the default model's provider is unusable, a card
  without override falls back to the first usable provider of the fixed order OpenAI,
  Gemini, Groq, DeepSeek, and a rephrase to the first usable provider in the order the
  providers are stored; with providers stored in another order the two entry points run
  on different providers.\<close>

theorem fallback_policies_diverge:
  assumes "modelOverride c = None"
    and "provider_lookup s (getProviderForModel (defaultModel s)) = Some pc" and "\<not> usable pc"
    and "\<forall>q\<in>set fallbackOrder. provider_lookup s q \<noteq> None"
    and "find (\<lambda>q. case provider_lookup s q of Some cfg \<Rightarrow> usable cfg | None \<Rightarrow> False) fallbackOrder = Some p1"
    and "provider_lookup s p1 = Some c1"
    and "find (\<lambda>(k, cfg). usable cfg) (providers s) = Some (p2, c2)"
  shows "executeCard rt s c input ctx =
      Inr (executeWithProvider rt p1 (js_index0 (models c1)) (apiKey c1) (buildMessages c input ctx)) \<and>
    executeRephrase rt s rtext t maxW rs =
      Inr (executeWithProvider rt p2 (js_index0 (models c2)) (apiKey c2) (rephrase_messages rtext t maxW rs))"
proof -
  have "card_fallback s fallbackOrder = Inr (Some (p1, c1))"
    using card_fallback_find [OF assms(4)] assms(5,6) by simp
  moreover have "card_model s c = defaultModel s" using assms(1) by (simp add: card_model_def)
  ultimately show ?thesis
    using assms(2,3,7)
    by (simp add: executeCard_def executeRephrase_def Let_def rephrase_fallback_def del: usable_iff)
qed

subsection \<open>Witnesses\<close>

theorem fallback_policies_diverge_witness:
  "executeCard demo_rt diverging_settings (defaultPromptCards 0 ! 2) [] demo_context =
     Inr (executeWithProvider demo_rt OpenAI (Some ''gpt-4o-mini'') ''sk-o''
       (buildMessages (defaultPromptCards 0 ! 2) [] demo_context)) \<and>
   executeRephrase demo_rt diverging_settings ''hello'' ''neutral'' 0 [] =
     Inr (executeWithProvider demo_rt Gemini (Some ''gemini-1.5-flash'') ''AIza''
       (rephrase_messages ''hello'' ''neutral'' 0 []))"
proof -
  let ?s = diverging_settings
  have h: "modelOverride (defaultPromptCards 0 ! 2) = None"
    "provider_lookup ?s (getProviderForModel (defaultModel ?s)) =
       Some (the (provider_lookup defaultSettings DeepSeek))"
    "\<not> usable (the (provider_lookup defaultSettings DeepSeek))"
    "\<forall>q\<in>set fallbackOrder. provider_lookup ?s q \<noteq> None"
    "find (\<lambda>q. case provider_lookup ?s q of Some cfg \<Rightarrow> usable cfg | None \<Rightarrow> False) fallbackOrder = Some OpenAI"
    "provider_lookup ?s OpenAI = Some (cfg_with_key (the (provider_lookup defaultSettings OpenAI)) ''sk-o'')"
    "find (\<lambda>(k, cfg). usable cfg) (providers ?s) =
       Some (Gemini, cfg_with_key (the (provider_lookup defaultSettings Gemini)) ''AIza'')"
    by (simp_all add: diverging_settings_def defaultSettings_def provider_lookup_def cfg_with_key_def
        default_config_def defaultPromptCards_def default_card_def getProviderForModel_def
        provider_models_def fallbackOrder_def)
  show ?thesis
    using fallback_policies_diverge [OF h, where rt = demo_rt and input = "[]" and ctx = demo_context
        and rtext = "''hello''" and t = "''neutral''" and maxW = 0 and rs = "[]"]
    by (simp add: cfg_with_key_def provider_lookup_def defaultSettings_def default_config_def js_index0_def)
qed

lemmas default_settings_simps = provider_lookup_def defaultSettings_def default_config_def
  card_model_def defaultPromptCards_def default_card_def getProviderForModel_def provider_models_def
  fallbackOrder_def

lemma lookup_defaultSettings_all: "\<forall>p. \<exists>cfg. provider_lookup defaultSettings p = Some cfg \<and> \<not> usable cfg"
proof
  fix p
  show "\<exists>cfg. provider_lookup defaultSettings p = Some cfg \<and> \<not> usable cfg"
    by (cases p) (simp_all add: provider_lookup_def defaultSettings_def default_config_def)
qed

theorem executeCard_total_witness:
  "\<exists>evs. executeCard demo_rt defaultSettings (defaultPromptCards 0 ! 2) [] demo_context = Inr evs"
proof -
  have h: "\<forall>p. provider_lookup defaultSettings p \<noteq> None"
    using lookup_defaultSettings_all by blast
  show ?thesis by (rule executeCard_total [OF h])
qed

theorem executeCard_no_keys_witness:
  "executeCard demo_rt defaultSettings (defaultPromptCards 0 ! 2) [] demo_context =
     Inr [OnError (ErrorMsg no_keys_card_msg)]"
  by (rule executeCard_no_keys [OF lookup_defaultSettings_all])

theorem executeRephrase_no_keys_witness:
  "executeRephrase demo_rt defaultSettings ''hello'' ''professional'' 50 [] =
     Inr [OnError (ErrorMsg ''No API keys configured.'')]"
proof -
  have h1: "provider_lookup defaultSettings (getProviderForModel (defaultModel defaultSettings)) \<noteq> None"
    by (simp add: default_settings_simps)
  have h2: "\<forall>(p, cfg) \<in> set (providers defaultSettings). \<not> usable cfg"
    by (simp add: defaultSettings_def default_config_def)
  show ?thesis by (rule executeRephrase_no_keys [OF h1 h2])
qed

theorem executeCard_fallback_single_witness:
  "executeCard demo_rt gemini_settings (defaultPromptCards 0 ! 2) [] demo_context =
     Inr (executeWithProvider demo_rt Gemini (Some ''gemini-1.5-flash'') ''AIza''
       (buildMessages (defaultPromptCards 0 ! 2) [] demo_context))"
proof -
  let ?c = "defaultPromptCards 0 ! 2"
  let ?qc = "set_provider_key Gemini ''AIza''
     (default_config Gemini ''Google Gemini'' [''gemini-1.5-flash'', ''gemini-1.5-pro'']
        ''https://generativelanguage.googleapis.com/v1beta'')"
  have h1: "provider_lookup gemini_settings (getProviderForModel (card_model gemini_settings ?c)) =
      Some (default_config OpenAI ''OpenAI'' [''gpt-4o-mini'', ''gpt-4.1'', ''gpt-3.5-turbo'']
        ''https://api.openai.com/v1'')"
    by (simp add: gemini_settings_def default_settings_simps)
  have h2: "\<not> usable (default_config OpenAI ''OpenAI'' [''gpt-4o-mini'', ''gpt-4.1'', ''gpt-3.5-turbo'']
        ''https://api.openai.com/v1'')"
    by (simp add: default_config_def)
  have h3: "\<forall>p. provider_lookup gemini_settings p \<noteq> None"
  proof
    fix p show "provider_lookup gemini_settings p \<noteq> None"
      by (cases p) (simp_all add: gemini_settings_def provider_lookup_def defaultSettings_def)
  qed
  have h4: "provider_lookup gemini_settings Gemini = Some ?qc"
    by (simp add: gemini_settings_def provider_lookup_def defaultSettings_def)
  have h5: "usable ?qc" by (simp add: set_provider_key_def)
  have h6: "\<forall>p cfg. p \<noteq> Gemini \<longrightarrow> provider_lookup gemini_settings p = Some cfg \<longrightarrow> \<not> usable cfg"
  proof (intro allI impI)
    fix p cfg
    assume "p \<noteq> Gemini" and "provider_lookup gemini_settings p = Some cfg"
    then show "\<not> usable cfg"
      by (cases p) (auto simp: gemini_settings_def provider_lookup_def defaultSettings_def
          default_config_def)
  qed
  have "apiKey ?qc = ''AIza''" and "js_index0 (models ?qc) = Some ''gemini-1.5-flash''"
    by (simp_all add: set_provider_key_def default_config_def)
  then show ?thesis using executeCard_fallback_single [OF h1 h2 h3 h4 h5 h6] by simp
qed

theorem fallback_policies_agree_witness:
  "card_fallback gemini_settings fallbackOrder = Inr (rephrase_fallback gemini_settings)"
proof -
  have h: "map fst (providers gemini_settings) = fallbackOrder"
    by (simp add: gemini_settings_def defaultSettings_def fallbackOrder_def)
  show ?thesis by (rule fallback_policies_agree [OF h])
qed

theorem rephrase_system_prompt_lines_witness:
  "split_on CHR ''\<newline>'' (rephrase_system_prompt ''casual'' 0 [''Do not include any greetings'']) =
     [''You are a text rephrasing assistant.'', ''Use a casual tone.'',
      ''- Do not include any greetings'']"
proof -
  have h1: "\<forall>r \<in> set [''Do not include any greetings'']. CHR ''\<newline>'' \<notin> set r" by simp
  have h2: "CHR ''\<newline>'' \<notin> set ''casual''" by simp
  show ?thesis using rephrase_system_prompt_lines [OF h1 h2, of 0] by (simp add: bullet_def)
qed

end
