(* ===== verification/AppStore.thy ===== *)
theory AppStore
  imports Storage
begin

text \<open>
  The zustand store \<open>useAppStore\<close> of \<open>store/app-store.ts\<close>, which the popup and
  the side panel share. Its state is the record \<open>app_state\<close>; an action runs against
  the \<open>world\<close>: the UI state, the \<open>chrome.storage\<close> store of the theory
  \<open>Storage\<close>, and the list of messages sent with \<open>chrome.runtime.sendMessage\<close>, in
  the order they were sent. Every action awaits its storage calls before it updates the
  UI state, so an action is the composition of the storage operation and the reload that
  follows it. The clock (\<open>Date.now()\<close>) is an argument of the actions that read it.

  \<open>loadCards\<close> sorts with \<open>cards.sort((a, b) => a.order - b.order)\<close>, which is stable
  since ECMAScript 2019: it is \<open>sort_key order\<close>, the stable insertion sort of the
  library. \<open>updateSettings\<close> takes a \<open>Partial<Settings>\<close>: a field is either absent
  (\<open>None\<close>) or present with its value.
\<close>

datatype view = CardsView | RephraseView | HistoryView | SettingsView

text \<open>Messages the extension pages send to the service worker.\<close>

datatype runtime_msg =
    RefreshContextMenus
  | SaveLastOutput string
  | GetPageContext

record app_state =
  a_settings :: settings
  isLoading :: bool
  cards :: "prompt_card list"
  history :: "history_entry list"
  activeView :: view
  selectedCard :: "prompt_card option"
  isEditing :: bool
  pageContext :: page_context
  currentOutput :: string
  isGenerating :: bool
  app_error :: "string option"

record world =
  app :: app_state
  st :: store
  outbox :: "runtime_msg list"

definition empty_context :: page_context where
  "empty_context = \<lparr>selection = [], pageTitle = [], pageUrl = [], pageContent = []\<rparr>"

definition initial_app :: app_state where
  "initial_app = \<lparr>a_settings = defaultSettings, isLoading = True, cards = [], history = [],
     activeView = CardsView, selectedCard = None, isEditing = False, pageContext = empty_context,
     currentOutput = [], isGenerating = False, app_error = None\<rparr>"

definition send :: "runtime_msg \<Rightarrow> world \<Rightarrow> world" where
  "send m w = w\<lparr>outbox := outbox w @ [m]\<rparr>"

definition set_app :: "(app_state \<Rightarrow> app_state) \<Rightarrow> world \<Rightarrow> world" where
  "set_app f w = w\<lparr>app := f (app w)\<rparr>"

definition set_store :: "(store \<Rightarrow> store) \<Rightarrow> world \<Rightarrow> world" where
  "set_store f w = w\<lparr>st := f (st w)\<rparr>"

subsection \<open>Settings\<close>

definition loadSettings :: "world \<Rightarrow> world" where
  "loadSettings w = set_app (\<lambda>a. a\<lparr>a_settings := getSettings (st w), isLoading := False\<rparr>) w"

record settings_patch =
  p_defaultModel :: "model_id option"
  p_defaultProvider :: "provider option"
  p_providers :: "(provider \<times> provider_config) list option"
  p_uiMode :: "ui_mode option"
  p_historySize :: "int option"
  p_theme :: "theme option"

text \<open>\<open>{ ...current, ...partial }\<close>.\<close>

definition merge_settings :: "settings \<Rightarrow> settings_patch \<Rightarrow> settings" where
  "merge_settings s p =
     \<lparr>defaultModel = (case p_defaultModel p of None \<Rightarrow> defaultModel s | Some v \<Rightarrow> v),
      defaultProvider = (case p_defaultProvider p of None \<Rightarrow> defaultProvider s | Some v \<Rightarrow> v),
      providers = (case p_providers p of None \<Rightarrow> providers s | Some v \<Rightarrow> v),
      uiMode = (case p_uiMode p of None \<Rightarrow> uiMode s | Some v \<Rightarrow> v),
      historySize = (case p_historySize p of None \<Rightarrow> historySize s | Some v \<Rightarrow> v),
      theme = (case p_theme p of None \<Rightarrow> theme s | Some v \<Rightarrow> v)\<rparr>"

definition updateSettings :: "settings_patch \<Rightarrow> world \<Rightarrow> world" where
  "updateSettings p w =
     (let updated = merge_settings (a_settings (app w)) p
      in set_app (\<lambda>a. a\<lparr>a_settings := updated\<rparr>) (set_store (saveSettings updated) w))"

text \<open>The store's \<open>updateProviderKey\<close> rejects when storage rejects; then nothing
  is reloaded.\<close>

definition app_updateProviderKey :: "provider \<Rightarrow> string \<Rightarrow> world \<Rightarrow> js_error + world" where
  "app_updateProviderKey p key w =
     (case updateProviderKey p key (st w) of
        Inl e \<Rightarrow> Inl e
      | Inr st' \<Rightarrow> Inr (loadSettings (w\<lparr>st := st'\<rparr>)))"

definition app_setDefaultModel :: "model_id \<Rightarrow> provider \<Rightarrow> world \<Rightarrow> world" where
  "app_setDefaultModel m p w = loadSettings (set_store (setDefaultModel m p) w)"

subsection \<open>Prompt cards\<close>

definition loadCards :: "world \<Rightarrow> world" where
  "loadCards w = set_app (\<lambda>a. a\<lparr>cards := sort_key order (getPromptCards (st w))\<rparr>) w"

definition addCard :: "prompt_card \<Rightarrow> world \<Rightarrow> world" where
  "addCard c w = send RefreshContextMenus (loadCards (set_store (addPromptCard c) w))"

definition updateCard :: "int \<Rightarrow> prompt_card \<Rightarrow> world \<Rightarrow> world" where
  "updateCard now c w = send RefreshContextMenus (loadCards (set_store (updatePromptCard now c) w))"

definition deleteCard :: "string \<Rightarrow> world \<Rightarrow> world" where
  "deleteCard i w = send RefreshContextMenus (loadCards (set_store (deletePromptCard i) w))"

text \<open>The copy's id is \<open>`${original.id}-copy-${Date.now()}`\<close>, its order the number
  of cards on display.\<close>

definition duplicate_of :: "int \<Rightarrow> nat \<Rightarrow> prompt_card \<Rightarrow> prompt_card" where
  "duplicate_of now n c =
     c\<lparr>card_id := card_id c @ ''-copy-'' @ string_of_int now, title := title c @ '' (Copy)'',
       order := int n, createdAt := now, updatedAt := now\<rparr>"

definition duplicateCard :: "int \<Rightarrow> string \<Rightarrow> world \<Rightarrow> world" where
  "duplicateCard now i w =
     (let cs = cards (app w) in
      case find (\<lambda>c. card_id c = i) cs of
        None \<Rightarrow> w
      | Some c \<Rightarrow> addCard (duplicate_of now (length cs) c) w)"

definition reorderCards :: "string list \<Rightarrow> world \<Rightarrow> world" where
  "reorderCards ids w = send RefreshContextMenus (loadCards (set_store (reorderPromptCards ids) w))"

subsection \<open>History\<close>

definition loadHistory :: "world \<Rightarrow> world" where
  "loadHistory w = set_app (\<lambda>a. a\<lparr>history := getHistory (st w)\<rparr>) w"

definition app_addHistoryEntry :: "history_entry \<Rightarrow> world \<Rightarrow> world" where
  "app_addHistoryEntry e w =
     send (SaveLastOutput (h_output e)) (loadHistory (set_store (addHistoryEntry e) w))"

definition app_clearCardHistory :: "string \<Rightarrow> world \<Rightarrow> world" where
  "app_clearCardHistory i w = loadHistory (set_store (clearCardHistory i) w)"

definition app_clearAllHistory :: "world \<Rightarrow> world" where
  "app_clearAllHistory w = loadHistory (set_store clearAllHistory w)"

subsection \<open>Page context\<close>

text \<open>\<open>chrome.runtime.sendMessage({type: 'GET_PAGE_CONTEXT'})\<close>: \<open>None\<close> when the
  call rejects (no receiver, as in the popup); then the context is emptied.\<close>

definition loadPageContext :: "page_context option \<Rightarrow> world \<Rightarrow> world" where
  "loadPageContext reply w =
     set_app (\<lambda>a. a\<lparr>pageContext := (case reply of None \<Rightarrow> empty_context | Some ctx \<Rightarrow> ctx)\<rparr>)
       (send GetPageContext w)"

subsection \<open>UI state setters\<close>

definition setActiveView :: "view \<Rightarrow> world \<Rightarrow> world" where
  "setActiveView v = set_app (\<lambda>a. a\<lparr>activeView := v\<rparr>)"

definition setSelectedCard :: "prompt_card option \<Rightarrow> world \<Rightarrow> world" where
  "setSelectedCard c = set_app (\<lambda>a. a\<lparr>selectedCard := c\<rparr>)"

definition setIsEditing :: "bool \<Rightarrow> world \<Rightarrow> world" where
  "setIsEditing b = set_app (\<lambda>a. a\<lparr>isEditing := b\<rparr>)"

definition setCurrentOutput :: "string \<Rightarrow> world \<Rightarrow> world" where
  "setCurrentOutput out = set_app (\<lambda>a. a\<lparr>currentOutput := out\<rparr>)"

definition setIsGenerating :: "bool \<Rightarrow> world \<Rightarrow> world" where
  "setIsGenerating b = set_app (\<lambda>a. a\<lparr>isGenerating := b\<rparr>)"

definition setError :: "string option \<Rightarrow> world \<Rightarrow> world" where
  "setError e = set_app (\<lambda>a. a\<lparr>app_error := e\<rparr>)"

subsection \<open>The actions as one step function\<close>

datatype app_action =
    LoadSettings | UpdateSettings settings_patch | UpdateProviderKey provider string
  | SetDefaultModel model_id provider
  | LoadCards | AddCard prompt_card | UpdateCard int prompt_card | DeleteCard string
  | DuplicateCard int string | ReorderCards "string list"
  | LoadHistory | AddHistoryEntry history_entry | ClearCardHistory string | ClearAllHistory
  | LoadPageContext "page_context option"
  | SetActiveView view | SetSelectedCard "prompt_card option" | SetIsEditing bool
  | SetCurrentOutput string | SetIsGenerating bool | SetError "string option"

fun app_step :: "app_action \<Rightarrow> world \<Rightarrow> js_error + world" where
  "app_step LoadSettings w = Inr (loadSettings w)"
| "app_step (UpdateSettings p) w = Inr (updateSettings p w)"
| "app_step (UpdateProviderKey p key) w = app_updateProviderKey p key w"
| "app_step (SetDefaultModel m p) w = Inr (app_setDefaultModel m p w)"
| "app_step LoadCards w = Inr (loadCards w)"
| "app_step (AddCard c) w = Inr (addCard c w)"
| "app_step (UpdateCard now c) w = Inr (updateCard now c w)"
| "app_step (DeleteCard i) w = Inr (deleteCard i w)"
| "app_step (DuplicateCard now i) w = Inr (duplicateCard now i w)"
| "app_step (ReorderCards ids) w = Inr (reorderCards ids w)"
| "app_step LoadHistory w = Inr (loadHistory w)"
| "app_step (AddHistoryEntry e) w = Inr (app_addHistoryEntry e w)"
| "app_step (ClearCardHistory i) w = Inr (app_clearCardHistory i w)"
| "app_step ClearAllHistory w = Inr (app_clearAllHistory w)"
| "app_step (LoadPageContext r) w = Inr (loadPageContext r w)"
| "app_step (SetActiveView v) w = Inr (setActiveView v w)"
| "app_step (SetSelectedCard c) w = Inr (setSelectedCard c w)"
| "app_step (SetIsEditing b) w = Inr (setIsEditing b w)"
| "app_step (SetCurrentOutput out) w = Inr (setCurrentOutput out w)"
| "app_step (SetIsGenerating b) w = Inr (setIsGenerating b w)"
| "app_step (SetError e) w = Inr (setError e w)"

text \<open>Worlds reachable from a fresh page over any stored data, by any sequence of
  actions that resolve.\<close>

inductive reachable :: "world \<Rightarrow> bool" where
  init: "reachable \<lparr>app = initial_app, st = s, outbox = []\<rparr>"
| step: "reachable w \<Longrightarrow> app_step a w = Inr w' \<Longrightarrow> reachable w'"

subsection \<open>Predicates\<close>

text \<open>The card list on display is the stored list sorted by order.\<close>

definition cards_synced :: "world \<Rightarrow> bool" where
  "cards_synced w \<longleftrightarrow> cards (app w) = sort_key order (getPromptCards (st w))"

text \<open>The stored history respects the stored cap.\<close>

definition history_capped :: "store \<Rightarrow> bool" where
  "history_capped s \<longleftrightarrow>
     0 \<le> historySize (getSettings s) \<and> int (length (getHistory s)) \<le> historySize (getSettings s)"

subsection \<open>Fixtures\<close>

definition fresh_world :: world where
  "fresh_world = \<lparr>app = initial_app, st = empty_store, outbox = []\<rparr>"

definition shrink_history :: settings_patch where
  "shrink_history = \<lparr>p_defaultModel = None, p_defaultProvider = None, p_providers = None,
     p_uiMode = None, p_historySize = Some 1, p_theme = None\<rparr>"

subsection \<open>Lemmas on the actions\<close>

lemma world_simps [simp]:
  "app (set_app f w) = f (app w)" "st (set_app f w) = st w" "outbox (set_app f w) = outbox w"
  "app (set_store g w) = app w" "st (set_store g w) = g (st w)" "outbox (set_store g w) = outbox w"
  "app (send m w) = app w" "st (send m w) = st w" "outbox (send m w) = outbox w @ [m]"
  by (simp_all add: set_app_def set_store_def send_def)

lemma store_frames [simp]:
  "getPromptCards (addHistoryEntry e s) = getPromptCards s"
  "getPromptCards (clearCardHistory i s) = getPromptCards s"
  "getPromptCards (clearAllHistory s) = getPromptCards s"
  "getPromptCards (saveSettings x s) = getPromptCards s"
  "getPromptCards (setDefaultModel m p s) = getPromptCards s"
  "getHistory (savePromptCards cs s) = getHistory s"
  "getSettings (savePromptCards cs s) = getSettings s"
  by (simp_all add: getPromptCards_def addHistoryEntry_def Let_def clearCardHistory_def
      clearAllHistory_def saveSettings_def setDefaultModel_def getHistory_def getSettings_def
      savePromptCards_def split: option.split)

lemma card_ops_frame [simp]:
  "getHistory (addPromptCard c s) = getHistory s" "getSettings (addPromptCard c s) = getSettings s"
  "getHistory (updatePromptCard n c s) = getHistory s"
  "getSettings (updatePromptCard n c s) = getSettings s"
  "getHistory (deletePromptCard i s) = getHistory s" "getSettings (deletePromptCard i s) = getSettings s"
  "getHistory (reorderPromptCards ids s) = getHistory s"
  "getSettings (reorderPromptCards ids s) = getSettings s"
  by (simp_all add: addPromptCard_def updatePromptCard_def deletePromptCard_def
      reorderPromptCards_def Let_def split: option.split)

lemma updateProviderKey_frame:
  assumes "updateProviderKey p key s = Inr s'"
  shows "getPromptCards s' = getPromptCards s" and "getHistory s' = getHistory s"
    and "historySize (getSettings s') = historySize (getSettings s)"
  using assms unfolding updateProviderKey_Inr
  by (auto simp: saveSettings_def getPromptCards_def getHistory_def getSettings_def
      split: option.split)

lemma setDefaultModel_frame [simp]:
  "getHistory (setDefaultModel m p s) = getHistory s"
  "historySize (getSettings (setDefaultModel m p s)) = historySize (getSettings s)"
  by (simp_all add: setDefaultModel_def saveSettings_def getHistory_def getSettings_def)

lemma duplicateCard_cases:
  "duplicateCard now i w = w \<or> (\<exists>c. duplicateCard now i w = addCard c w)"
  by (auto simp: duplicateCard_def Let_def split: option.split)

text \<open>C17. In every reachable state the card list on display is sorted by order:
  every action that changes it reloads it through \<open>loadCards\<close>.\<close>

theorem reachable_cards_sorted:
  "reachable w \<Longrightarrow> sorted (map order (cards (app w)))"
proof (induction rule: reachable.induct)
  case (init s)
  then show ?case by (simp add: initial_app_def)
next
  case (step w a w')
  then show ?case
  proof (cases a)
    case (UpdateProviderKey p key)
    with step show ?thesis
      by (auto simp: app_updateProviderKey_def loadSettings_def split: sum.splits)
  next
    case (DuplicateCard now i)
    with step duplicateCard_cases [of now i w] show ?thesis
      by (auto simp: addCard_def loadCards_def)
  qed (auto simp: loadSettings_def updateSettings_def Let_def app_setDefaultModel_def loadCards_def
      addCard_def updateCard_def deleteCard_def reorderCards_def loadHistory_def
      app_addHistoryEntry_def app_clearCardHistory_def app_clearAllHistory_def loadPageContext_def
      setActiveView_def setSelectedCard_def setIsEditing_def setCurrentOutput_def
      setIsGenerating_def setError_def)
qed

text \<open>C10. Once loaded, the card list on display stays equal to the stored list sorted
  by order, whatever action runs: each card action reloads it and no other action writes
  the stored cards.\<close>

theorem app_step_cards_synced:
  assumes "app_step a w = Inr w'" and "cards_synced w"
  shows "cards_synced w'"
proof (cases a)
  case (UpdateProviderKey p key)
  with assms show ?thesis
    by (auto simp: app_updateProviderKey_def loadSettings_def cards_synced_def
        updateProviderKey_frame split: sum.splits)
next
  case (DuplicateCard now i)
  with assms duplicateCard_cases [of now i w] show ?thesis
    by (auto simp: addCard_def loadCards_def cards_synced_def)
qed (use assms in \<open>auto simp: cards_synced_def loadSettings_def updateSettings_def Let_def
      app_setDefaultModel_def loadCards_def addCard_def updateCard_def deleteCard_def
      reorderCards_def loadHistory_def app_addHistoryEntry_def app_clearCardHistory_def
      app_clearAllHistory_def loadPageContext_def setActiveView_def setSelectedCard_def
      setIsEditing_def setCurrentOutput_def setIsGenerating_def setError_def\<close>)

lemma history_capped_add:
  "history_capped s \<Longrightarrow> history_capped (addHistoryEntry e s)"
  by (auto simp: history_capped_def getHistory_addHistoryEntry_raw Let_def)

lemma history_ops_frame [simp]:
  "getHistory (clearCardHistory i s) = filter (\<lambda>h. cardId h \<noteq> i) (getHistory s)"
  "getSettings (clearCardHistory i s) = getSettings s"
  "getHistory (clearAllHistory s) = []" "getSettings (clearAllHistory s) = getSettings s"
  by (simp_all add: clearCardHistory_def clearAllHistory_def getHistory_def getSettings_def)

lemma history_capped_clear:
  assumes "history_capped s"
  shows "history_capped (clearCardHistory i s)"
proof -
  have "length (filter (\<lambda>h. cardId h \<noteq> i) (getHistory s)) \<le> length (getHistory s)"
    by (rule length_filter_le)
  then have "int (length (filter (\<lambda>h. cardId h \<noteq> i) (getHistory s))) \<le> int (length (getHistory s))"
    by (simp only: of_nat_le_iff)
  with assms show ?thesis unfolding history_capped_def history_ops_frame by linarith
qed

text \<open>C18. Every action other than \<open>updateSettings\<close> keeps the stored history within a
  non-negative \<open>historySize\<close> (spec section 3: history capped, oldest evicted).\<close>

theorem app_step_history_capped:
  assumes "app_step a w = Inr w'" and "\<forall>p. a \<noteq> UpdateSettings p" and "history_capped (st w)"
  shows "history_capped (st w')"
proof (cases a)
  case (UpdateProviderKey p key)
  with assms show ?thesis
    by (auto simp: app_updateProviderKey_def loadSettings_def history_capped_def
        updateProviderKey_frame split: sum.splits)
next
  case (DuplicateCard now i)
  with assms duplicateCard_cases [of now i w] show ?thesis
    by (auto simp: addCard_def loadCards_def history_capped_def)
next
  case (AddHistoryEntry e)
  with assms show ?thesis
    by (auto simp: app_addHistoryEntry_def loadHistory_def history_capped_add)
next
  case (ClearCardHistory i)
  with assms show ?thesis
    by (auto simp: app_clearCardHistory_def loadHistory_def history_capped_clear)
qed (use assms in \<open>auto simp: history_capped_def loadSettings_def
      app_setDefaultModel_def loadCards_def addCard_def updateCard_def deleteCard_def
      reorderCards_def loadHistory_def app_clearAllHistory_def loadPageContext_def
      setActiveView_def setSelectedCard_def setIsEditing_def setCurrentOutput_def setIsGenerating_def setError_def\<close>)

lemma length_filter_other_key:
  "distinct (map f xs) \<Longrightarrow> x \<in> set xs \<Longrightarrow> length (filter (\<lambda>y. f y \<noteq> f x) xs) = length xs - 1"
proof (induction xs)
  case (Cons y ys)
  show ?case
  proof (cases "y = x")
    case True
    with Cons.prems have "filter (\<lambda>z. f z \<noteq> f x) ys = ys"
      by (auto simp: filter_id_conv) (metis rev_image_eqI)
    with True show ?thesis by simp
  next
    case False
    with Cons.prems have "f y \<noteq> f x" "x \<in> set ys" by (auto simp: image_iff)
    with Cons show ?thesis by (cases ys) auto
  qed
qed simp

lemma deleteCard_cards:
  "getPromptCards (st (deleteCard i w)) = filter (\<lambda>x. card_id x \<noteq> i) (getPromptCards (st w)) \<and>
   cards (app (deleteCard i w)) = sort_key order (filter (\<lambda>x. card_id x \<noteq> i) (getPromptCards (st w)))"
  by (simp add: deleteCard_def loadCards_def deletePromptCard_def getPromptCards_def savePromptCards_def)

text \<open>C35. Finding: \<open>duplicateCard\<close> gives the copy the order \<open>cards.length\<close>. For
  every stored list whose orders are the dense ranks \<open>0 .. n-1\<close> (spec section 3), deleting
  any card but the last one leaves that rank taken, and duplicating any remaining card then
  stores two cards with the same order.\<close>

theorem duplicate_after_delete_order_clash:
  assumes dense: "order ` set (getPromptCards (st w)) = {0..<int (length (getPromptCards (st w)))}"
    and ids: "distinct (map card_id (getPromptCards (st w)))"
    and d: "d \<in> set (getPromptCards (st w))" "order d < int (length (getPromptCards (st w))) - 1"
    and c: "c \<in> set (getPromptCards (st w))" "card_id c \<noteq> card_id d"
  shows "\<not> distinct (map order (getPromptCards (st (duplicateCard now (card_id c) (deleteCard (card_id d) w)))))"
proof -
  let ?cs = "getPromptCards (st w)" and ?n = "int (length (getPromptCards (st w)))"
  let ?cs' = "filter (\<lambda>x. card_id x \<noteq> card_id d) ?cs"
  let ?w1 = "deleteCard (card_id d) w"
  have len: "length ?cs' = length ?cs - 1" using length_filter_other_key [OF ids d(1)] .
  have n: "1 \<le> length ?cs" using d(1) by (cases ?cs) auto
  have "?n - 1 \<in> order ` set ?cs" using dense n by (simp add: Suc_le_eq)
  then obtain e0 where e0: "e0 \<in> set ?cs" "order e0 = ?n - 1" by auto
  have "card_id e0 \<noteq> card_id d"
  proof
    assume "card_id e0 = card_id d"
    then have "e0 = d" using ids e0(1) d(1) by (auto simp: distinct_map dest: inj_onD)
    with e0(2) d(2) show False by simp
  qed
  with e0 have e0': "e0 \<in> set ?cs'" "order e0 = ?n - 1" by simp_all
  have "c \<in> set (cards (app ?w1))" using c deleteCard_cards [of "card_id d" w] by simp
  then have "find (\<lambda>y. card_id y = card_id c) (cards (app ?w1)) \<noteq> None"
    by (auto simp: find_None_iff)
  then obtain x where x: "find (\<lambda>y. card_id y = card_id c) (cards (app ?w1)) = Some x" by auto
  have "length (cards (app ?w1)) = length ?cs - 1" using len deleteCard_cards [of "card_id d" w] by simp
  then have "getPromptCards (st (duplicateCard now (card_id c) ?w1)) =
      ?cs' @ [duplicate_of now (length ?cs - 1) x]"
    using x deleteCard_cards [of "card_id d" w]
    by (simp add: duplicateCard_def Let_def addCard_def loadCards_def addPromptCard_def
        getPromptCards_def savePromptCards_def)
  moreover have "order (duplicate_of now (length ?cs - 1) x) = ?n - 1"
    using n by (simp add: duplicate_of_def of_nat_diff)
  ultimately show ?thesis using e0' by (auto simp: image_iff)
qed

text \<open>Finding: \<open>updateSettings\<close> stores a smaller \<open>historySize\<close> without trimming
  the history: after two recorded runs, lowering the cap to 1 leaves two entries until the
  next run is recorded.\<close>

theorem updateSettings_breaks_cap:
  "history_capped (st (app_addHistoryEntry (demo_entry ''2'' ''c'')
       (app_addHistoryEntry (demo_entry ''1'' ''c'') fresh_world))) \<and>
   \<not> history_capped (st (updateSettings shrink_history (app_addHistoryEntry (demo_entry ''2'' ''c'')
       (app_addHistoryEntry (demo_entry ''1'' ''c'') fresh_world))))"
  by (simp add: history_capped_def updateSettings_def Let_def app_addHistoryEntry_def
      loadHistory_def fresh_world_def initial_app_def merge_settings_def shrink_history_def
      addHistoryEntry_def saveSettings_def getHistory_def getSettings_def
      empty_store_def defaultSettings_def)

subsection \<open>Witnesses\<close>

theorem duplicate_after_delete_order_clash_witness:
  "\<not> distinct (map order (getPromptCards (st (duplicateCard 7 ''commit-message''
      (deleteCard ''fix-grammar'' fresh_world)))))"
proof -
  let ?cs = "getPromptCards (st fresh_world)"
  have cs: "?cs = defaultPromptCards 0"
    by (simp add: fresh_world_def empty_store_def getPromptCards_def)
  have h: "order ` set ?cs = {0..<int (length ?cs)}" "distinct (map card_id ?cs)"
    "defaultPromptCards 0 ! 1 \<in> set ?cs" "order (defaultPromptCards 0 ! 1) < int (length ?cs) - 1"
    "defaultPromptCards 0 ! 2 \<in> set ?cs"
    "card_id (defaultPromptCards 0 ! 2) \<noteq> card_id (defaultPromptCards 0 ! 1)"
    unfolding cs by (simp_all add: defaultPromptCards_def default_card_def atLeastLessThan_def
        atLeast_def lessThan_def insert_commute) (auto simp: set_eq_iff)
  have i: "card_id (defaultPromptCards 0 ! 2) = ''commit-message''"
    "card_id (defaultPromptCards 0 ! 1) = ''fix-grammar''"
    by (simp_all add: defaultPromptCards_def default_card_def)
  show ?thesis using duplicate_after_delete_order_clash [OF h, of 7] i by simp
qed

lemma reachable_fresh: "reachable fresh_world"
  unfolding fresh_world_def by (rule reachable.init)

theorem reachable_cards_sorted_witness:
  "sorted (map order (cards (app (loadCards fresh_world))))"
proof -
  have "reachable (loadCards fresh_world)"
    by (rule reachable.step [OF reachable_fresh, of LoadCards]) simp
  then show ?thesis by (rule reachable_cards_sorted)
qed

theorem app_step_cards_synced_witness:
  "cards_synced (deleteCard ''fix-grammar'' (loadCards fresh_world))"
proof -
  have h1: "app_step (DeleteCard ''fix-grammar'') (loadCards fresh_world) =
      Inr (deleteCard ''fix-grammar'' (loadCards fresh_world))" by simp
  have h2: "cards_synced (loadCards fresh_world)" by (simp add: cards_synced_def loadCards_def)
  show ?thesis by (rule app_step_cards_synced [OF h1 h2])
qed

theorem app_step_history_capped_witness:
  "history_capped (st (app_addHistoryEntry (demo_entry ''1'' ''c'') fresh_world))"
proof -
  have h1: "app_step (AddHistoryEntry (demo_entry ''1'' ''c'')) fresh_world =
      Inr (app_addHistoryEntry (demo_entry ''1'' ''c'') fresh_world)" by simp
  have h2: "\<forall>p. AddHistoryEntry (demo_entry ''1'' ''c'') \<noteq> UpdateSettings p" by simp
  have h3: "history_capped (st fresh_world)"
    by (simp add: history_capped_def fresh_world_def empty_store_def getHistory_def getSettings_def
        defaultSettings_def)
  show ?thesis by (rule app_step_history_capped [OF h1 h2 h3])
qed

end
