(* ===== verification/RunSession.thy ===== *)
theory RunSession
  imports Orchestrator AppStore
begin

text \<open>
  The two places where the UI runs the engine: \<open>onRun\<close> of \<open>components/CardGrid.tsx\<close>
  and \<open>handleRephrase\<close> of \<open>components/RephrasePanel.tsx\<close>. Both set the store's
  \<open>isGenerating\<close>, clear the output and the error, call the engine with three callbacks
  and let the callbacks drive the store: \<open>onToken\<close> appends to a local \<open>output\<close> and
  shows it, \<open>onComplete\<close> clears \<open>isGenerating\<close> and records a history entry,
  \<open>onError\<close> clears \<open>isGenerating\<close>, shows the message and clears the output.

  A run is modelled as the fold of the callback handler over the engine's event trace,
  starting from the state the handler sets before the call; the pair carries the world
  and the closure's \<open>output\<close>. When the engine's promise rejects (the left side of its
  result) no callback runs and the handler's own promise rejects: the state stays as the
  handler left it before the call. The engine reads the settings from storage
  (\<open>storage.getSettings()\<close>), so a run reads them from the world's store.

  \<open>error.message\<close> is the text of an \<open>Error\<close> built by the code or of a transport
  failure; for the runtime's own \<open>TypeError\<close> and \<open>SyntaxError\<close> the message is
  the runtime's and is represented by the error's name.
\<close>

definition js_error_message :: "js_error \<Rightarrow> string" where
  "js_error_message e = (case e of
      ErrorMsg m \<Rightarrow> m | NetworkErr m \<Rightarrow> m | TypeErr \<Rightarrow> ''TypeError'' | SyntaxErr \<Rightarrow> ''SyntaxError'')"

text \<open>\<open>setIsGenerating(true); setCurrentOutput(''); setError(null)\<close>.\<close>

definition run_start :: "world \<Rightarrow> world" where
  "run_start w = setError None (setCurrentOutput [] (setIsGenerating True w))"

text \<open>The three callbacks; \<open>mk\<close> builds the history entry from the response.\<close>

fun on_event :: "(ai_response \<Rightarrow> history_entry) \<Rightarrow> world \<times> string \<Rightarrow> event \<Rightarrow> world \<times> string" where
  "on_event mk (w, out) (OnToken t) = (setCurrentOutput (out @ t) w, out @ t)"
| "on_event mk (w, out) (OnComplete r) = (app_addHistoryEntry (mk r) (setIsGenerating False w), out)"
| "on_event mk (w, out) (OnError e) =
     (setCurrentOutput [] (setError (Some (js_error_message e)) (setIsGenerating False w)), out)"

definition run_events :: "(ai_response \<Rightarrow> history_entry) \<Rightarrow> world \<Rightarrow> event list \<Rightarrow> world" where
  "run_events mk w evs = fst (foldl (on_event mk) (run_start w, []) evs)"

subsection \<open>Running a card\<close>

text \<open>\<open>pageContext.selection || pageContext.pageContent?.slice(0, 200) || ''\<close>.\<close>

definition history_input :: "page_context \<Rightarrow> string" where
  "history_input ctx = js_or (selection ctx) (js_or (take 200 (pageContent ctx)) [])"

definition card_entry :: "int \<Rightarrow> prompt_card \<Rightarrow> page_context \<Rightarrow> ai_response \<Rightarrow> history_entry" where
  "card_entry now c ctx r =
     \<lparr>h_id = string_of_int now, cardId = card_id c, h_input = history_input ctx,
      h_output = r_content r, h_model = r_model r, h_provider = r_provider r, timestamp = now,
      h_tokens = r_tokens r\<rparr>"

definition runCard :: "int \<Rightarrow> runtime \<Rightarrow> prompt_card \<Rightarrow> world \<Rightarrow> world" where
  "runCard now rt c w =
     (let ctx = pageContext (app w) in
      case executeCard rt (getSettings (st w)) c [] ctx of
        Inl e \<Rightarrow> run_start w
      | Inr evs \<Rightarrow> run_events (card_entry now c ctx) w evs)"

subsection \<open>Rephrasing\<close>

text \<open>The \<open>TONES\<close> table: the tone's value as the string passed to the engine.\<close>

definition tone_name :: "tone \<Rightarrow> string" where
  "tone_name t = (case t of
      Professional \<Rightarrow> ''professional'' | Casual \<Rightarrow> ''casual''
    | Neutral \<Rightarrow> ''neutral'' | Strict \<Rightarrow> ''strict'')"

definition toggleRule :: "string \<Rightarrow> string list \<Rightarrow> string list" where
  "toggleRule r active = (if r \<in> set active then filter (\<lambda>x. x \<noteq> r) active else active @ [r])"

text \<open>The rule texts, pushed in a fixed order whatever the order of \<open>activeRules\<close>.\<close>

definition rephrase_rules :: "string list \<Rightarrow> string list" where
  "rephrase_rules active =
     (if ''noGreetings'' \<in> set active then [''Do not include any greetings''] else []) @
     (if ''noExplanation'' \<in> set active then [''Do not include any explanations''] else []) @
     (if ''outputOnly'' \<in> set active then [''Output only the rephrased text''] else [])"

text \<open>\<open>String.prototype.trim\<close> removes white space and line terminators; on the
  characters of the model these are tab, line feed, vertical tab, form feed, carriage
  return, space and no-break space.\<close>

definition js_space :: "char \<Rightarrow> bool" where
  "js_space c \<longleftrightarrow> c \<in> {CHR 0x09, CHR 0x0A, CHR 0x0B, CHR 0x0C, CHR 0x0D, CHR 0x20, CHR 0xA0}"

definition trim_empty :: "string \<Rightarrow> bool" where
  "trim_empty s \<longleftrightarrow> (\<forall>c \<in> set s. js_space c)"

definition rephrase_entry :: "int \<Rightarrow> string \<Rightarrow> ai_response \<Rightarrow> history_entry" where
  "rephrase_entry now input r =
     \<lparr>h_id = string_of_int now, cardId = ''rephrase'', h_input = input,
      h_output = r_content r, h_model = r_model r, h_provider = r_provider r, timestamp = now,
      h_tokens = r_tokens r\<rparr>"

definition handleRephrase ::
  "int \<Rightarrow> runtime \<Rightarrow> string \<Rightarrow> tone \<Rightarrow> int \<Rightarrow> string list \<Rightarrow> world \<Rightarrow> world" where
  "handleRephrase now rt input t maxW active w =
     (if trim_empty input then w
      else case executeRephrase rt (getSettings (st w)) input (tone_name t) maxW (rephrase_rules active) of
        Inl e \<Rightarrow> run_start w
      | Inr evs \<Rightarrow> run_events (rephrase_entry now input) w evs)"

subsection \<open>Outcome of a run\<close>

definition settled :: "event list \<Rightarrow> world \<Rightarrow> bool" where
  "settled evs w \<longleftrightarrow> \<not> isGenerating (app w) \<and>
     (case last evs of
        OnComplete r \<Rightarrow> currentOutput (app w) = token_text evs \<and>
          last (outbox w) = SaveLastOutput (r_content r)
      | OnError e \<Rightarrow> currentOutput (app w) = [] \<and> app_error (app w) = Some (js_error_message e)
      | OnToken t \<Rightarrow> False)"

subsection \<open>Fixtures\<close>

definition keyed_settings :: settings where
  "keyed_settings = defaultSettings\<lparr>providers :=
     map (\<lambda>(k, c). if k = OpenAI then (k, set_provider_key OpenAI ''sk-demo'' c) else (k, c))
       (providers defaultSettings)\<rparr>"

definition keyed_world :: world where
  "keyed_world = fresh_world\<lparr>st := empty_store\<lparr>st_settings := Some keyed_settings\<rparr>\<rparr>"

definition no_provider_world :: world where
  "no_provider_world =
     fresh_world\<lparr>st := empty_store\<lparr>st_settings := Some (defaultSettings\<lparr>providers := []\<rparr>)\<rparr>\<rparr>"

definition demo_response :: ai_response where
  "demo_response = \<lparr>r_content = ''Hi'', r_model = Some ''gpt-4o-mini'', r_provider = OpenAI,
     r_tokens = None\<rparr>"

subsection \<open>Lemmas on runs\<close>

lemma setCurrentOutput_twice [simp]: "setCurrentOutput a (setCurrentOutput b w) = setCurrentOutput a w"
  by (simp add: setCurrentOutput_def set_app_def)

lemma fold_tokens:
  "foldl (on_event mk) (w, out) (map OnToken ts) =
     (if ts = [] then w else setCurrentOutput (out @ concat ts) w, out @ concat ts)"
proof (induction ts arbitrary: w out)
  case Nil
  then show ?case by simp
next
  case (Cons t ts)
  then show ?case by (cases "ts = []") simp_all
qed

lemma run_events_shape:
  assumes "protocol_ok evs"
  obtains ts e where "evs = map OnToken ts @ [e]" "\<not> is_token e"
    "run_events mk w evs =
       fst (on_event mk (if ts = [] then run_start w else setCurrentOutput (concat ts) (run_start w),
                         concat ts) e)"
proof -
  from assms obtain ts e where evs: "evs = map OnToken ts @ [e]" "\<not> is_token e"
    unfolding protocol_ok_iff by blast
  then show ?thesis using that by (simp add: run_events_def fold_tokens)
qed

lemma run_start_simps [simp]:
  "currentOutput (app (run_start w)) = []"
  "st (run_start w) = st w" "outbox (run_start w) = outbox w"
  by (simp_all add: run_start_def setError_def setCurrentOutput_def setIsGenerating_def)

lemma token_text_last:
  "\<not> is_token e \<Longrightarrow> token_text (map OnToken ts @ [e]) = concat ts"
  by (cases e) simp_all

lemma run_events_settled:
  assumes "protocol_ok evs" and mk: "\<And>r. h_output (mk r) = r_content r"
  shows "settled evs (run_events mk w evs)"
proof -
  obtain ts e where evs: "evs = map OnToken ts @ [e]" "\<not> is_token e"
    and run: "run_events mk w evs =
       fst (on_event mk (if ts = [] then run_start w else setCurrentOutput (concat ts) (run_start w),
                         concat ts) e)"
    using run_events_shape [OF assms(1)] by blast
  show ?thesis
    using evs run mk
    by (cases e) (auto simp: settled_def token_text_last app_addHistoryEntry_def loadHistory_def
        setIsGenerating_def setCurrentOutput_def setError_def run_start_def)
qed

lemma run_events_store_complete:
  assumes "protocol_ok evs" and "OnComplete r \<in> set evs"
  shows "st (run_events mk w evs) = addHistoryEntry (mk r) (st w)"
proof -
  obtain ts e where evs: "evs = map OnToken ts @ [e]" "\<not> is_token e"
    and run: "run_events mk w evs =
       fst (on_event mk (if ts = [] then run_start w else setCurrentOutput (concat ts) (run_start w),
                         concat ts) e)"
    using run_events_shape [OF assms(1)] by blast
  with assms(2) have "e = OnComplete r" by auto
  with run show ?thesis
    by (simp add: app_addHistoryEntry_def loadHistory_def setIsGenerating_def setCurrentOutput_def)
qed

lemma card_entry_output [simp]: "h_output (card_entry now c ctx r) = r_content r"
  by (simp add: card_entry_def)

lemma rephrase_entry_output [simp]: "h_output (rephrase_entry now input r) = r_content r"
  by (simp add: rephrase_entry_def)

text \<open>C8. Liveness of a card run: whenever the engine resolves, the run ends with
  \<open>isGenerating\<close> cleared, and either the output shown is the concatenation of the
  tokens and the completed output was sent to the service worker, or the output is
  cleared and the error message shown.\<close>

theorem runCard_settles:
  assumes "executeCard rt (getSettings (st w)) c [] (pageContext (app w)) = Inr evs"
  shows "settled evs (runCard now rt c w)"
proof -
  have "protocol_ok evs" using assms entry_points_protocol by blast
  with assms show ?thesis by (simp add: runCard_def Let_def run_events_settled)
qed

text \<open>The same for a rephrase run on non-blank input.\<close>

theorem handleRephrase_settles:
  assumes "\<not> trim_empty input"
    and "executeRephrase rt (getSettings (st w)) input (tone_name t) maxW (rephrase_rules active) = Inr evs"
  shows "settled evs (handleRephrase now rt input t maxW active w)"
proof -
  have "protocol_ok evs" using assms(2) entry_points_protocol by blast
  with assms show ?thesis by (simp add: handleRephrase_def run_events_settled)
qed

text \<open>\<open>handleRephrase\<close> ignores blank input: no state changes and no request.\<close>

theorem handleRephrase_blank:
  "trim_empty input \<Longrightarrow> handleRephrase now rt input t maxW active w = w"
  by (simp add: handleRephrase_def)

text \<open>A completed card run records its entry first in the stored history (when the
  cap is positive), and the entry's output is the concatenation of the tokens shown.\<close>

theorem runCard_records_history:
  assumes "executeCard rt (getSettings (st w)) c [] (pageContext (app w)) = Inr evs"
    and "OnComplete r \<in> set evs" and "0 < historySize (getSettings (st w))"
  shows "hd (getHistory (st (runCard now rt c w))) = card_entry now c (pageContext (app w)) r \<and>
         r_content r = token_text evs"
proof -
  have p: "protocol_ok evs" using assms(1) entry_points_protocol by blast
  have "st (runCard now rt c w) = addHistoryEntry (card_entry now c (pageContext (app w)) r) (st w)"
    using assms(1) run_events_store_complete [OF p assms(2)] by (simp add: runCard_def Let_def)
  moreover have "r_content r = token_text evs"
    using assms(1,2)
    by (auto simp: executeCard_def Let_def split: option.splits if_splits sum.splits
        dest: executeWithProvider_complete)
  ultimately show ?thesis
    using assms(3) by (simp add: getHistory_addHistoryEntry_raw Let_def js_slice0_def)
qed

text \<open>Toggling a rule option twice leaves the rules sent to the engine unchanged:
  the rule texts depend only on which options are active, not on the order of
  \<open>activeRules\<close>.\<close>

theorem rephrase_rules_toggle_twice:
  "rephrase_rules (toggleRule r (toggleRule r active)) = rephrase_rules active"
  by (auto simp: rephrase_rules_def toggleRule_def)

text \<open>C33. Finding: when the stored settings lack the entry of the model's provider,
  \<open>executeCard\<close> rejects with a \<open>TypeError\<close> before any callback, and
  \<open>onRun\<close> does not catch it: \<open>isGenerating\<close> stays set and the card grid stays
  disabled. Spec section 7 says errors reach the caller only through \<open>onError\<close>.\<close>

theorem runCard_stuck_without_provider:
  assumes "provider_lookup (getSettings (st w)) (getProviderForModel (card_model (getSettings (st w)) c)) = None"
  shows "executeCard rt (getSettings (st w)) c [] (pageContext (app w)) = Inl TypeErr \<and>
    runCard now rt c w = run_start w \<and> isGenerating (app (runCard now rt c w)) \<and>
    currentOutput (app (runCard now rt c w)) = [] \<and> app_error (app (runCard now rt c w)) = None"
proof -
  have e: "executeCard rt (getSettings (st w)) c [] (pageContext (app w)) = Inl TypeErr"
    using assms by (simp add: executeCard_def Let_def)
  then have "runCard now rt c w = run_start w" by (simp add: runCard_def Let_def)
  with e show ?thesis
    by (simp add: run_start_def setError_def setCurrentOutput_def setIsGenerating_def)
qed

subsection \<open>Witnesses\<close>

theorem runCard_stuck_without_provider_witness:
  "provider_lookup (getSettings (st no_provider_world))
     (getProviderForModel (card_model (getSettings (st no_provider_world)) (defaultPromptCards 0 ! 2))) = None \<and>
   isGenerating (app (runCard 1 demo_rt (defaultPromptCards 0 ! 2) no_provider_world))"
proof -
  have h: "provider_lookup (getSettings (st no_provider_world))
     (getProviderForModel (card_model (getSettings (st no_provider_world)) (defaultPromptCards 0 ! 2))) = None"
    by (simp add: no_provider_world_def getSettings_def provider_lookup_def)
  show ?thesis using h runCard_stuck_without_provider [OF h, where rt = demo_rt and now = 1] by auto
qed

lemma keyed_world_settings: "getSettings (st keyed_world) = keyed_settings"
  by (simp add: keyed_world_def getSettings_def)

lemma keyed_executeCard:
  "executeCard demo_rt keyed_settings (defaultPromptCards 0 ! 2) [] ctx =
     Inr [OnToken ''Hi'', OnComplete demo_response]"
  by (simp add: executeCard_def Let_def keyed_settings_def default_settings_simps
      set_provider_key_def executeWithProvider_def demo_rt_stream demo_response_def)

lemma keyed_executeRephrase:
  "executeRephrase demo_rt keyed_settings input t maxW rs = Inr [OnToken ''Hi'', OnComplete demo_response]"
  by (simp add: executeRephrase_def Let_def keyed_settings_def default_settings_simps
      set_provider_key_def executeWithProvider_def demo_rt_stream demo_response_def)

theorem runCard_settles_witness:
  "settled [OnToken ''Hi'', OnComplete demo_response]
     (runCard 1 demo_rt (defaultPromptCards 0 ! 2) keyed_world)"
  by (rule runCard_settles) (simp add: keyed_world_settings keyed_executeCard)

theorem handleRephrase_settles_witness:
  "settled [OnToken ''Hi'', OnComplete demo_response]
     (handleRephrase 1 demo_rt ''hello'' Professional 50 [''noGreetings''] keyed_world)"
proof -
  have h: "\<not> trim_empty ''hello''" by (simp add: trim_empty_def js_space_def)
  show ?thesis
    by (rule handleRephrase_settles [OF h]) (simp add: keyed_world_settings keyed_executeRephrase)
qed

theorem handleRephrase_blank_witness:
  "handleRephrase 1 demo_rt ''  '' Professional 50 [] keyed_world = keyed_world"
proof -
  have h: "trim_empty ''  ''" by (simp add: trim_empty_def js_space_def)
  show ?thesis by (rule handleRephrase_blank [OF h])
qed

theorem runCard_records_history_witness:
  "hd (getHistory (st (runCard 1 demo_rt (defaultPromptCards 0 ! 2) keyed_world))) =
     card_entry 1 (defaultPromptCards 0 ! 2) (pageContext (app keyed_world)) demo_response \<and>
   r_content demo_response = token_text [OnToken ''Hi'', OnComplete demo_response]"
proof -
  have h1: "executeCard demo_rt (getSettings (st keyed_world)) (defaultPromptCards 0 ! 2) []
      (pageContext (app keyed_world)) = Inr [OnToken ''Hi'', OnComplete demo_response]"
    by (simp add: keyed_world_settings keyed_executeCard)
  have h3: "0 < historySize (getSettings (st keyed_world))"
    by (simp add: keyed_world_settings keyed_settings_def defaultSettings_def)
  show ?thesis by (rule runCard_records_history [OF h1 _ h3]) simp
qed

end
