(* ===== verification/Editors.thy ===== *)
theory Editors
  imports RunSession
begin

text \<open>
  The editing components of the extension pages: the card editor
  (\<open>components/CardEditor.tsx\<close>), the header's buttons (\<open>components/Header.tsx\<close>) and
  the card grid's edit button that open it, the key form of
  \<open>components/SettingsPanel.tsx\<close>, and the model menu of
  \<open>components/ModelSelector.tsx\<close>. Each component's \<open>useState\<close> fields are a record;
  each handler is a function of that record and of the world of the store
  (\<open>AppStore\<close>), and calls the store's actions as the code does. The rendering itself
  is not modelled, except for the conditions that enable a button and the lists a menu
  offers. The editor's form follows React's lifecycle: \<open>editor_mount\<close> is the form of
  a new editor instance, and \<open>editor_next\<close> the form after a render, which keeps the
  instance while the editor stays shown and reloads it only when the selection changes.
\<close>

subsection \<open>Trimming\<close>

text \<open>\<open>String.prototype.trim\<close>, with the white space of \<open>js_space\<close>.\<close>

definition js_trim :: "string \<Rightarrow> string" where
  "js_trim s = rev (dropWhile js_space (rev (dropWhile js_space s)))"

subsection \<open>Card editor\<close>

text \<open>The editor's ten \<open>useState\<close> fields; \<open>modelOverride\<close> is an \<open>AIModel\<close> or
  \<open>''''\<close>.\<close>

record editor_form =
  e_title :: string
  e_description :: string
  e_system :: string
  e_instruction :: string
  e_tone :: tone
  e_maxWords :: int
  e_rules :: "string list"
  e_newRule :: string
  e_modelOverride :: string
  e_variables :: "string list"

definition blank_form :: editor_form where
  "blank_form = \<lparr>e_title = [], e_description = [], e_system = [], e_instruction = [],
     e_tone = Professional, e_maxWords = 100, e_rules = [], e_newRule = [], e_modelOverride = [],
     e_variables = [''selection'']\<rparr>"

text \<open>The \<open>useEffect\<close> on \<open>selectedCard\<close>: a selected card fills the form; with no
  selected card the form keeps its values.\<close>

definition load_card :: "prompt_card option \<Rightarrow> editor_form \<Rightarrow> editor_form" where
  "load_card sel f = (case sel of
      None \<Rightarrow> f
    | Some c \<Rightarrow> f\<lparr>e_title := title c, e_description := description c,
        e_system := system (template c), e_instruction := instruction (template c),
        e_tone := tone (template c), e_maxWords := maxWords (template c),
        e_rules := rules (template c),
        e_modelOverride := (case modelOverride c of None \<Rightarrow> [] | Some m \<Rightarrow> js_or m []),
        e_variables := variables c\<rparr>)"

definition form_template :: "editor_form \<Rightarrow> prompt_template" where
  "form_template f = \<lparr>system = e_system f, instruction = e_instruction f, tone = e_tone f,
     maxWords = e_maxWords f, rules = e_rules f\<rparr>"

text \<open>\<open>modelOverride || undefined\<close>.\<close>

definition override_of :: "string \<Rightarrow> model_id option" where
  "override_of m = (if m = [] then None else Some m)"

text \<open>
  \<open>handleSave\<close>. The store's \<open>updateCard\<close> and \<open>addCard\<close> are not awaited and
  \<open>setIsEditing(false)\<close> runs at once; the fields they write are disjoint, so the
  order of completion does not change the result. The calls to \<open>Date.now()\<close> are one
  time \<open>now\<close>.
\<close>

definition handleSave :: "int \<Rightarrow> editor_form \<Rightarrow> world \<Rightarrow> world" where
  "handleSave now f w = setIsEditing False
     (case selectedCard (app w) of
        Some c \<Rightarrow> updateCard now (c\<lparr>title := e_title f, description := e_description f,
          template := form_template f, variables := e_variables f,
          modelOverride := override_of (e_modelOverride f), updatedAt := now\<rparr>) w
      | None \<Rightarrow> addCard \<lparr>card_id = ''card-'' @ string_of_int now, title = e_title f,
          description = e_description f, template = form_template f, variables = e_variables f,
          modelOverride = override_of (e_modelOverride f), order = int (length (cards (app w))),
          createdAt = now, updatedAt = now\<rparr> w)"

text \<open>The Save button: \<open>disabled={!title.trim() || !instruction.trim()}\<close>.\<close>

definition save_enabled :: "editor_form \<Rightarrow> bool" where
  "save_enabled f \<longleftrightarrow> \<not> trim_empty (e_title f) \<and> \<not> trim_empty (e_instruction f)"

definition clickSave :: "int \<Rightarrow> editor_form \<Rightarrow> world \<Rightarrow> world" where
  "clickSave now f w = (if save_enabled f then handleSave now f w else w)"

definition addRule :: "editor_form \<Rightarrow> editor_form" where
  "addRule f = (if js_trim (e_newRule f) \<noteq> []
     then f\<lparr>e_rules := e_rules f @ [js_trim (e_newRule f)], e_newRule := []\<rparr> else f)"

text \<open>\<open>rules.filter((_, i) => i !== index)\<close>.\<close>

definition removeRule :: "nat \<Rightarrow> editor_form \<Rightarrow> editor_form" where
  "removeRule index f = f\<lparr>e_rules :=
     map fst (filter (\<lambda>(_, i). i \<noteq> index) (zip (e_rules f) [0..<length (e_rules f)]))\<rparr>"

definition toggleVariable :: "string \<Rightarrow> editor_form \<Rightarrow> editor_form" where
  "toggleVariable v f = f\<lparr>e_variables :=
     (if v \<in> set (e_variables f) then filter (\<lambda>x. x \<noteq> v) (e_variables f) else e_variables f @ [v])\<rparr>"

subsection \<open>Opening the editor\<close>

text \<open>\<open>Header.handleAddCard\<close>, the header's tabs, and the card grid's edit button.\<close>

definition handleAddCard :: "world \<Rightarrow> world" where
  "handleAddCard w = setActiveView CardsView (setIsEditing True (setSelectedCard None w))"

definition clickTab :: "view \<Rightarrow> world \<Rightarrow> world" where
  "clickTab v w = setIsEditing False (setActiveView v w)"

definition onEdit :: "prompt_card \<Rightarrow> world \<Rightarrow> world" where
  "onEdit c w = setIsEditing True (setSelectedCard (Some c) w)"

text \<open>The form the editor shows when it mounts in world \<open>w\<close>: the initial
  \<open>useState\<close> values, then the effect.\<close>

definition editor_mount :: "world \<Rightarrow> editor_form" where
  "editor_mount w = load_card (selectedCard (app w)) blank_form"

text \<open>Whether the page renders the editor: \<open>activeView === 'cards' && isEditing\<close>,
  once loaded.\<close>

definition editor_open :: "app_state \<Rightarrow> bool" where
  "editor_open a \<longleftrightarrow> \<not> isLoading a \<and> activeView a = CardsView \<and> isEditing a"

text \<open>The editor's form after a handler took the page from \<open>w\<close> to \<open>w'\<close>, for a
  page that renders the editor in \<open>w'\<close>. An editor already rendered in \<open>w\<close> is the
  same component instance: its \<open>useState\<close> fields keep form \<open>f\<close>, and its effect runs
  again only when \<open>selectedCard\<close> changed, loading the new card if there is one.
  Otherwise the editor mounts in \<open>w'\<close>.\<close>

definition editor_next :: "world \<Rightarrow> editor_form \<Rightarrow> world \<Rightarrow> editor_form" where
  "editor_next w f w' =
     (if editor_open (app w) then
        (if selectedCard (app w') = selectedCard (app w) then f else load_card (selectedCard (app w')) f)
      else editor_mount w')"

subsection \<open>Settings panel\<close>

text \<open>\<open>Object.keys(PROVIDER_INFO)\<close>, the order of the key fields.\<close>

definition provider_info_keys :: "provider list" where
  "provider_info_keys = [OpenAI, Gemini, Groq, DeepSeek]"

record key_form =
  showKeys :: "provider \<Rightarrow> bool"
  tempKeys :: "provider \<Rightarrow> string"
  saved :: "provider option"

text \<open>The initial state reads \<open>settings.providers.openai.apiKey\<close> and the three
  others: a \<open>TypeError\<close> when an entry is missing.\<close>

definition init_key_form :: "settings \<Rightarrow> js_error + key_form" where
  "init_key_form s =
     (if list_all (\<lambda>p. provider_lookup s p \<noteq> None) provider_info_keys
      then Inr \<lparr>showKeys = (\<lambda>p. False),
        tempKeys = (\<lambda>p. case provider_lookup s p of None \<Rightarrow> [] | Some c \<Rightarrow> apiKey c),
        saved = None\<rparr>
      else Inl TypeErr)"

definition editKey :: "provider \<Rightarrow> string \<Rightarrow> key_form \<Rightarrow> key_form" where
  "editKey p v f = f\<lparr>tempKeys := (tempKeys f)(p := v)\<rparr>"

definition toggleShowKey :: "provider \<Rightarrow> key_form \<Rightarrow> key_form" where
  "toggleShowKey p f = f\<lparr>showKeys := (showKeys f)(p := \<not> showKeys f p)\<rparr>"

text \<open>\<open>handleSaveKey\<close>: a rejected \<open>updateProviderKey\<close> rejects the handler before
  \<open>setSaved\<close>. The timer that clears \<open>saved\<close> two seconds later is not modelled.\<close>

definition handleSaveKey :: "provider \<Rightarrow> key_form \<Rightarrow> world \<Rightarrow> js_error + key_form \<times> world" where
  "handleSaveKey p f w =
     (case app_updateProviderKey p (tempKeys f p) w of
        Inl e \<Rightarrow> Inl e
      | Inr w' \<Rightarrow> Inr (f\<lparr>saved := Some p\<rparr>, w'))"

text \<open>\<open>disabled={tempKeys[provider] === settings.providers[provider].apiKey}\<close>;
  \<open>None\<close> is the \<open>TypeError\<close> of a missing entry.\<close>

definition save_key_disabled :: "key_form \<Rightarrow> settings \<Rightarrow> provider \<Rightarrow> bool option" where
  "save_key_disabled f s p = map_option (\<lambda>c. tempKeys f p = apiKey c) (provider_lookup s p)"

text \<open>\<open>Object.values(settings.providers).filter(p => p.enabled).length\<close>; the
  association list stands for the object's entries.\<close>

definition enabledCount :: "settings \<Rightarrow> nat" where
  "enabledCount s = length (filter (\<lambda>(p, c). enabled c) (providers s))"

definition no_patch :: settings_patch where
  "no_patch = \<lparr>p_defaultModel = None, p_defaultProvider = None, p_providers = None,
     p_uiMode = None, p_historySize = None, p_theme = None\<rparr>"

definition setHistorySize :: "int \<Rightarrow> world \<Rightarrow> world" where
  "setHistorySize n = updateSettings (no_patch\<lparr>p_historySize := Some n\<rparr>)"

definition setUiMode :: "ui_mode \<Rightarrow> world \<Rightarrow> world" where
  "setUiMode m = updateSettings (no_patch\<lparr>p_uiMode := Some m\<rparr>)"

subsection \<open>Model selector\<close>

text \<open>\<open>Object.entries(settings.providers).filter(([_, config]) => config.enabled &&
  config.apiKey)\<close>, and the menu it renders: each such provider's models, in order.\<close>

definition enabledProviders :: "settings \<Rightarrow> (provider \<times> provider_config) list" where
  "enabledProviders s = filter (\<lambda>(p, c). enabled c \<and> apiKey c \<noteq> []) (providers s)"

definition model_menu :: "settings \<Rightarrow> (model_id \<times> provider) list" where
  "model_menu s = concat (map (\<lambda>(p, c). map (\<lambda>m. (m, p)) (models c)) (enabledProviders s))"

text \<open>\<open>handleSelectModel\<close>: the store's \<open>setDefaultModel\<close> and \<open>setIsOpen(false)\<close>;
  the first component is the menu's \<open>isOpen\<close>.\<close>

definition handleSelectModel :: "model_id \<Rightarrow> provider \<Rightarrow> world \<Rightarrow> bool \<times> world" where
  "handleSelectModel m p w = (False, app_setDefaultModel m p w)"

text \<open>Every configured provider lists only models the registry gives to it, as the
  default settings do.\<close>

definition registered :: "settings \<Rightarrow> bool" where
  "registered s \<longleftrightarrow> (\<forall>(p, c) \<in> set (providers s). set (models c) \<subseteq> set (provider_models p))"


subsection \<open>Fixtures\<close>

text \<open>The page after loading, with the first default card open in the editor.\<close>

definition editing_world :: world where
  "editing_world = onEdit (defaultPromptCards 0 ! 0) (set_app (\<lambda>a. a\<lparr>isLoading := False\<rparr>) fresh_world)"

definition demo_form :: editor_form where
  "demo_form = blank_form\<lparr>e_title := ''Tidy'', e_instruction := ''Tidy this:''\<rparr>"

definition demo_keys :: key_form where
  "demo_keys = \<lparr>showKeys = (\<lambda>p. False), tempKeys = (\<lambda>p. ''AIza-demo''), saved = None\<rparr>"

subsection \<open>Lemmas\<close>

lemma updatePromptCard_updatedAt [simp]:
  "updatePromptCard now (c\<lparr>updatedAt := x\<rparr>) = updatePromptCard now c"
proof
  fix s
  have "c\<lparr>updatedAt := x, updatedAt := now\<rparr> = c\<lparr>updatedAt := now\<rparr>" by simp
  then show "updatePromptCard now (c\<lparr>updatedAt := x\<rparr>) s = updatePromptCard now c s"
    by (simp add: updatePromptCard_def Let_def split: option.split)
qed

lemma handleAddCard_frame [simp]:
  "cards (app (handleAddCard w)) = cards (app w)" "st (handleAddCard w) = st w"
  by (simp_all add: handleAddCard_def setActiveView_def setIsEditing_def setSelectedCard_def)

text \<open>When every stored provider is enabled exactly when it has a key, the count the
  settings panel shows is the number of providers the model menu lists.\<close>

theorem enabledCount_agrees: "keys_consistent s \<Longrightarrow> enabledCount s = length (enabledProviders s)"
  unfolding enabledCount_def enabledProviders_def keys_consistent_def
  by (intro arg_cong [where f = length] filter_cong) auto


text \<open>Saving a valid form while no card is selected appends one new card built from
  the form and closes the editor.\<close>

lemma save_new_card:
  assumes "save_enabled f" and "selectedCard (app v) = None"
  shows "(\<exists>c. getPromptCards (st (clickSave now f v)) = getPromptCards (st v) @ [c] \<and>
         card_id c = ''card-'' @ string_of_int now \<and> title c = e_title f \<and>
         description c = e_description f \<and> template c = form_template f \<and>
         variables c = e_variables f \<and> order c = int (length (cards (app v)))) \<and>
    \<not> isEditing (app (clickSave now f v)) \<and>
    last (outbox (clickSave now f v)) = RefreshContextMenus"
  using assms by (simp add: clickSave_def handleSave_def addCard_def loadCards_def setIsEditing_def
      addPromptCard_def getPromptCards_def savePromptCards_def)

text \<open>C13. Opening a card in the editor and saving it unchanged stores the card as it
  was, with only its update time set: the form loads every field the save writes back.\<close>

theorem editor_save_unchanged:
  assumes "selectedCard (app w) = Some c" and "modelOverride c \<noteq> Some []"
  shows "handleSave now (editor_mount w) w = setIsEditing False (updateCard now c w)"
proof -
  have "updateCard now (c\<lparr>title := e_title (editor_mount w), description := e_description (editor_mount w),
     template := form_template (editor_mount w), variables := e_variables (editor_mount w),
     modelOverride := override_of (e_modelOverride (editor_mount w)), updatedAt := now\<rparr>) w =
     updateCard now c w"
  proof -
    have "c\<lparr>title := e_title (editor_mount w), description := e_description (editor_mount w),
       template := form_template (editor_mount w), variables := e_variables (editor_mount w),
       modelOverride := override_of (e_modelOverride (editor_mount w))\<rparr> = c"
      using assms by (cases "modelOverride c")
        (simp_all add: editor_mount_def load_card_def form_template_def override_of_def)
    then show ?thesis by (simp add: updateCard_def)
  qed
  with assms(1) show ?thesis by (simp add: handleSave_def)
qed


text \<open>C14. When the editor is not shown, the header's add button opens it on a blank form,
  whatever card was selected before; saving it appends one new card to the stored list,
  with the time's id, the form's title and template, and the number of cards on display as
  its order, closes the editor and asks the service worker to rebuild the menus.\<close>

theorem new_card_session:
  assumes "\<not> editor_open (app w)" and "save_enabled f"
  shows "editor_next w f0 (handleAddCard w) = blank_form \<and>
    (\<exists>c. getPromptCards (st (clickSave now f (handleAddCard w))) = getPromptCards (st w) @ [c] \<and>
         card_id c = ''card-'' @ string_of_int now \<and> title c = e_title f \<and>
         template c = form_template f \<and> order c = int (length (cards (app w)))) \<and>
    \<not> isEditing (app (clickSave now f (handleAddCard w))) \<and>
    last (outbox (clickSave now f (handleAddCard w))) = RefreshContextMenus"
proof -
  have sel: "selectedCard (app (handleAddCard w)) = None"
    by (simp add: handleAddCard_def setActiveView_def setIsEditing_def setSelectedCard_def)
  have "editor_next w f0 (handleAddCard w) = blank_form"
    using assms(1) sel by (simp add: editor_next_def editor_mount_def load_card_def)
  moreover note save_new_card [OF assms(2) sel, of now]
  ultimately show ?thesis unfolding handleAddCard_frame by blast
qed

text \<open>C15. Finding: the add button does not clear a form that is already shown. Pressing it
  while a card is open in the editor keeps the same editor instance, and its effect skips
  the \<open>null\<close> selection, so the form still holds that card's fields; saving it stores a
  new card with the edited card's title, description, template and variables.\<close>

theorem add_while_editing_keeps_form:
  assumes "editor_open (app w)" and "selectedCard (app w) = Some c"
    and "save_enabled (load_card (Some c) f0)"
  shows "editor_open (app (handleAddCard w)) \<and>
    editor_next w (load_card (Some c) f0) (handleAddCard w) = load_card (Some c) f0 \<and>
    (\<exists>c'. getPromptCards (st (clickSave now (load_card (Some c) f0) (handleAddCard w))) =
         getPromptCards (st w) @ [c'] \<and> card_id c' = ''card-'' @ string_of_int now \<and>
         title c' = title c \<and> description c' = description c \<and> template c' = template c \<and>
         variables c' = variables c)"
proof -
  have o: "editor_open (app (handleAddCard w))" "selectedCard (app (handleAddCard w)) = None"
    using assms(1) by (simp_all add: editor_open_def handleAddCard_def setActiveView_def
        setIsEditing_def setSelectedCard_def)
  have "editor_next w (load_card (Some c) f0) (handleAddCard w) = load_card (Some c) f0"
    using assms(1,2) o(2) by (simp add: editor_next_def load_card_def)
  moreover have "form_template (load_card (Some c) f0) = template c"
    by (simp add: form_template_def load_card_def)
  moreover have "\<exists>c'. getPromptCards (st (clickSave now (load_card (Some c) f0) (handleAddCard w))) =
         getPromptCards (st w) @ [c'] \<and> card_id c' = ''card-'' @ string_of_int now \<and>
         title c' = e_title (load_card (Some c) f0) \<and> description c' = e_description (load_card (Some c) f0) \<and>
         template c' = form_template (load_card (Some c) f0) \<and>
         variables c' = e_variables (load_card (Some c) f0)"
    using save_new_card [OF assms(3) o(2), of now] unfolding handleAddCard_frame by blast
  ultimately show ?thesis using o(1) by (simp add: load_card_def)
qed

text \<open>C20. The model menu offers only pairs of a model and the provider the registry gives
  it, when the configured model lists are the registry's; choosing one stores it as the
  default and reloads the settings on display, so the default model and the default
  provider agree.\<close>

theorem selectModel_coherent:
  assumes "registered (a_settings (app w))" and "(m, p) \<in> set (model_menu (a_settings (app w)))"
  shows "getProviderForModel m = p \<and>
    a_settings (app (snd (handleSelectModel m p w))) = getSettings (st (snd (handleSelectModel m p w))) \<and>
    defaultModel (a_settings (app (snd (handleSelectModel m p w)))) = m \<and>
    defaultProvider (a_settings (app (snd (handleSelectModel m p w)))) = p"
proof -
  from assms(2) obtain c where "(p, c) \<in> set (providers (a_settings (app w)))" "m \<in> set (models c)"
    by (auto simp: model_menu_def enabledProviders_def)
  with assms(1) have "m \<in> set (provider_models p)" by (auto simp: registered_def)
  then have "getProviderForModel m = p" by (rule getProviderForModel_listed)
  then show ?thesis
    by (simp add: handleSelectModel_def app_setDefaultModel_def loadSettings_def setDefaultModel_def
        saveSettings_def getSettings_def)
qed


text \<open>Saving a key from the settings panel stores it for that provider, enables the
  provider exactly when the key is not empty, shows the settings reloaded from storage,
  marks the provider as saved and disables its Save button until the key is edited again.\<close>

theorem handleSaveKey_saves:
  assumes "provider_lookup (getSettings (st w)) p = Some c"
  shows "\<exists>w'. handleSaveKey p f w = Inr (f\<lparr>saved := Some p\<rparr>, w') \<and>
    a_settings (app w') = getSettings (st w') \<and>
    provider_lookup (a_settings (app w')) p =
      Some (c\<lparr>apiKey := tempKeys f p, enabled := tempKeys f p \<noteq> []\<rparr>) \<and>
    save_key_disabled (f\<lparr>saved := Some p\<rparr>) (a_settings (app w')) p = Some True"
proof -
  let ?s = "getSettings (st w)"
  let ?s' = "?s\<lparr>providers := map (\<lambda>(k, c). if k = p then (k, set_provider_key p (tempKeys f p) c) else (k, c))
       (providers ?s)\<rparr>"
  have upd: "app_updateProviderKey p (tempKeys f p) w = Inr (loadSettings (w\<lparr>st := saveSettings ?s' (st w)\<rparr>))"
    using assms by (simp add: app_updateProviderKey_def updateProviderKey_def Let_def)
  have lk: "provider_lookup ?s' p = Some (c\<lparr>apiKey := tempKeys f p, enabled := tempKeys f p \<noteq> []\<rparr>)"
    using assms by (simp add: provider_lookup_def map_of_map_update set_provider_key_def)
  show ?thesis
    using upd lk
    by (simp add: handleSaveKey_def loadSettings_def saveSettings_def getSettings_def save_key_disabled_def)
qed

text \<open>A provider missing from the stored settings makes the save reject.\<close>

lemma handleSaveKey_missing:
  "provider_lookup (getSettings (st w)) p = None \<Longrightarrow> handleSaveKey p f w = Inl TypeErr"
  by (simp add: handleSaveKey_def app_updateProviderKey_def updateProviderKey_def Let_def)

subsection \<open>Witnesses\<close>

lemma keyed_settings_consistent: "keys_consistent keyed_settings"
  by (simp add: keys_consistent_def keyed_settings_def default_settings_simps set_provider_key_def)

theorem enabledCount_agrees_witness:
  "keys_consistent keyed_settings \<and> enabledCount keyed_settings = length (enabledProviders keyed_settings)"
  using enabledCount_agrees [OF keyed_settings_consistent] keyed_settings_consistent by simp

theorem editor_save_unchanged_witness:
  "selectedCard (app (onEdit (defaultPromptCards 0 ! 0) fresh_world)) = Some (defaultPromptCards 0 ! 0) \<and>
   modelOverride (defaultPromptCards 0 ! 0) \<noteq> Some [] \<and>
   handleSave 7 (editor_mount (onEdit (defaultPromptCards 0 ! 0) fresh_world))
     (onEdit (defaultPromptCards 0 ! 0) fresh_world) =
   setIsEditing False (updateCard 7 (defaultPromptCards 0 ! 0) (onEdit (defaultPromptCards 0 ! 0) fresh_world))"
proof -
  have h: "selectedCard (app (onEdit (defaultPromptCards 0 ! 0) fresh_world)) = Some (defaultPromptCards 0 ! 0)"
    "modelOverride (defaultPromptCards 0 ! 0) \<noteq> Some []"
    by (simp_all add: onEdit_def setIsEditing_def setSelectedCard_def defaultPromptCards_def
        default_card_def)
  show ?thesis using h editor_save_unchanged [OF h] by simp
qed

theorem new_card_session_witness:
  "\<not> editor_open (app fresh_world) \<and> save_enabled demo_form \<and>
   editor_next fresh_world blank_form (handleAddCard fresh_world) = blank_form \<and>
   \<not> isEditing (app (clickSave 7 demo_form (handleAddCard fresh_world)))"
proof -
  have h: "\<not> editor_open (app fresh_world)" "save_enabled demo_form"
    by (simp_all add: editor_open_def fresh_world_def initial_app_def save_enabled_def demo_form_def
        trim_empty_def js_space_def)
  show ?thesis using h new_card_session [OF h, of blank_form 7] by simp
qed

theorem add_while_editing_keeps_form_witness:
  "editor_open (app editing_world) \<and>
   editor_next editing_world (load_card (Some (defaultPromptCards 0 ! 0)) blank_form)
     (handleAddCard editing_world) = load_card (Some (defaultPromptCards 0 ! 0)) blank_form"
proof -
  have h: "editor_open (app editing_world)"
    "selectedCard (app editing_world) = Some (defaultPromptCards 0 ! 0)"
    "save_enabled (load_card (Some (defaultPromptCards 0 ! 0)) blank_form)"
    by (simp_all add: editing_world_def editor_open_def onEdit_def setIsEditing_def setSelectedCard_def
        fresh_world_def initial_app_def save_enabled_def load_card_def defaultPromptCards_def
        default_card_def trim_empty_def js_space_def)
  show ?thesis using h add_while_editing_keeps_form [OF h, of 7] by blast
qed

theorem selectModel_coherent_witness:
  "registered (a_settings (app (loadSettings keyed_world))) \<and>
   (''gpt-4.1'', OpenAI) \<in> set (model_menu (a_settings (app (loadSettings keyed_world)))) \<and>
   getProviderForModel ''gpt-4.1'' = OpenAI"
proof -
  have s: "a_settings (app (loadSettings keyed_world)) = keyed_settings"
    by (simp add: loadSettings_def keyed_world_settings)
  have h: "registered (a_settings (app (loadSettings keyed_world)))"
    "(''gpt-4.1'', OpenAI) \<in> set (model_menu (a_settings (app (loadSettings keyed_world))))"
    unfolding s
    by (simp_all add: registered_def model_menu_def enabledProviders_def keyed_settings_def
        default_settings_simps set_provider_key_def provider_models_def)
  show ?thesis using h selectModel_coherent [OF h] by simp
qed

theorem handleSaveKey_saves_witness:
  "provider_lookup (getSettings (st fresh_world)) Gemini =
     Some (default_config Gemini ''Google Gemini'' [''gemini-1.5-flash'', ''gemini-1.5-pro'']
       ''https://generativelanguage.googleapis.com/v1beta'') \<and>
   (\<exists>w'. handleSaveKey Gemini demo_keys fresh_world = Inr (demo_keys\<lparr>saved := Some Gemini\<rparr>, w') \<and>
     save_key_disabled (demo_keys\<lparr>saved := Some Gemini\<rparr>) (a_settings (app w')) Gemini = Some True)"
proof -
  have h: "provider_lookup (getSettings (st fresh_world)) Gemini =
     Some (default_config Gemini ''Google Gemini'' [''gemini-1.5-flash'', ''gemini-1.5-pro'']
       ''https://generativelanguage.googleapis.com/v1beta'')"
    by (simp add: fresh_world_def empty_store_def getSettings_def provider_lookup_def
        default_settings_simps)
  show ?thesis using h handleSaveKey_saves [OF h, of demo_keys] by blast
qed

end
