(* ===== verification/Screens.thy ===== *)
theory Screens
  imports Editors "HOL-Library.Multiset"
begin

text \<open>
  What the extension pages show: the layout of \<open>popup/App.tsx\<close> and
  \<open>sidepanel/App.tsx\<close> (the same tree), the output panel
  (\<open>components/OutputPanel.tsx\<close>) and the history list
  (\<open>components/HistoryPanel.tsx\<close>), and the four loads both pages start on mount.
  A screen is the list of main panels rendered and the output panel, if rendered; the
  markup inside a panel is not modelled, except for the text an output panel shows and
  the labels the history list computes.
\<close>

subsection \<open>History list\<close>

text \<open>\<open>getCardName\<close>: \<open>card?.title || 'Unknown'\<close>, an absent card being falsy.\<close>

definition getCardName :: "prompt_card list \<Rightarrow> string \<Rightarrow> string" where
  "getCardName cs i =
     (if i = ''rephrase'' then ''Rephrase''
      else js_or (case find (\<lambda>c. card_id c = i) cs of None \<Rightarrow> [] | Some c \<Rightarrow> title c) ''Unknown'')"

text \<open>The four forms of \<open>formatTime\<close>'s result: \<open>'Just now'\<close>, \<open>`${n}m ago`\<close>,
  \<open>`${n}h ago`\<close>, and \<open>date.toLocaleDateString()\<close>, whose text depends on the locale
  and is not modelled. Times are milliseconds; \<open>Math.floor\<close> of the quotient is
  \<open>div\<close>.\<close>

datatype time_label = JustNow | MinutesAgo int | HoursAgo int | LocaleDate int

definition formatTime :: "int \<Rightarrow> int \<Rightarrow> time_label" where
  "formatTime now ts =
     (let diff = now - ts in
      if diff < 60000 then JustNow
      else if diff < 3600000 then MinutesAgo (diff div 60000)
      else if diff < 86400000 then HoursAgo (diff div 3600000)
      else LocaleDate ts)"

definition time_text :: "time_label \<Rightarrow> string option" where
  "time_text l = (case l of
      JustNow \<Rightarrow> Some ''Just now''
    | MinutesAgo n \<Rightarrow> Some (string_of_int n @ ''m ago'')
    | HoursAgo n \<Rightarrow> Some (string_of_int n @ ''h ago'')
    | LocaleDate t \<Rightarrow> None)"

text \<open>\<open>setExpandedId(expandedId === entry.id ? null : entry.id)\<close>.\<close>

definition toggleExpanded :: "string \<Rightarrow> string option \<Rightarrow> string option" where
  "toggleExpanded i expanded = (if expanded = Some i then None else Some i)"

text \<open>The text of a history entry: the first 100 characters of the output followed by
  \<open>...\<close>, the input or \<open>No input text\<close>, and the token total when the entry
  has token counts.\<close>

definition history_preview :: "history_entry \<Rightarrow> string" where
  "history_preview e = take 100 (h_output e) @ ''...''"

definition history_input_text :: "history_entry \<Rightarrow> string" where
  "history_input_text e = js_or (h_input e) ''No input text''"

definition tokens_total :: "history_entry \<Rightarrow> int option" where
  "tokens_total e = map_option (\<lambda>(p, c). p + c) (h_tokens e)"

subsection \<open>Output panel\<close>

datatype output_view = ErrorView string | OutputView string bool

text \<open>\<open>if (error)\<close> shows the error alone; otherwise the output, headed
  \<open>Generating...\<close> while \<open>isGenerating\<close>.\<close>

definition outputPanel :: "app_state \<Rightarrow> output_view" where
  "outputPanel a = (case app_error a of
      Some e \<Rightarrow> if e \<noteq> [] then ErrorView e else OutputView (currentOutput a) (isGenerating a)
    | None \<Rightarrow> OutputView (currentOutput a) (isGenerating a))"

text \<open>\<open>handleClose\<close>.\<close>

definition handleClose :: "world \<Rightarrow> world" where
  "handleClose w = setError None (setCurrentOutput [] w)"

subsection \<open>Layout of the pages\<close>

datatype panel = CardGridPanel | CardEditorPanel | RephrasePanel | HistoryPanel | SettingsPanel

datatype screen = LoadingScreen | AppScreen "panel list" "output_view option"

definition main_panels :: "app_state \<Rightarrow> panel list" where
  "main_panels a =
     (if activeView a = CardsView \<and> \<not> isEditing a then [CardGridPanel] else []) @
     (if activeView a = CardsView \<and> isEditing a then [CardEditorPanel] else []) @
     (if activeView a = RephraseView then [RephrasePanel] else []) @
     (if activeView a = HistoryView then [HistoryPanel] else []) @
     (if activeView a = SettingsView then [SettingsPanel] else [])"

definition app_screen :: "app_state \<Rightarrow> screen" where
  "app_screen a =
     (if isLoading a then LoadingScreen
      else AppScreen (main_panels a)
        (if currentOutput a \<noteq> [] \<and> activeView a = CardsView \<and> \<not> isEditing a
         then Some (outputPanel a) else None))"

text \<open>The error text on screen, if any: only the output panel shows one.\<close>

definition displayed_error :: "screen \<Rightarrow> string option" where
  "displayed_error s = (case s of AppScreen ps (Some (ErrorView e)) \<Rightarrow> Some e | _ \<Rightarrow> None)"

subsection \<open>Mounting a page\<close>

text \<open>The mount effect starts \<open>loadSettings\<close>, \<open>loadCards\<close>, \<open>loadHistory\<close> and
  \<open>loadPageContext\<close> without awaiting them: they complete in any order.\<close>

definition mount_actions :: "page_context option \<Rightarrow> app_action list" where
  "mount_actions reply = [LoadSettings, LoadCards, LoadHistory, LoadPageContext reply]"

fun run_actions :: "app_action list \<Rightarrow> world \<Rightarrow> js_error + world" where
  "run_actions [] w = Inr w"
| "run_actions (a # as) w = (case app_step a w of Inl e \<Rightarrow> Inl e | Inr w' \<Rightarrow> run_actions as w')"


subsection \<open>Fixtures\<close>

definition demo_entry :: history_entry where
  "demo_entry = card_entry 1 (defaultPromptCards 0 ! 2) empty_context demo_response"

definition history_world :: world where
  "history_world = fresh_world\<lparr>app := initial_app\<lparr>history := [demo_entry]\<rparr>\<rparr>"

subsection \<open>Lemmas\<close>

lemma div_between:
  "(0::int) < b \<Longrightarrow> lo \<le> d \<Longrightarrow> d \<le> hi \<Longrightarrow> lo div b \<le> d div b \<and> d div b \<le> hi div b"
  by (simp add: zdiv_mono1)

lemma no_output_no_error: "currentOutput a = [] \<Longrightarrow> displayed_error (app_screen a) = None"
  by (simp add: app_screen_def displayed_error_def)

text \<open>C12. Finding: the message of a failed card run is never shown. \<open>onError\<close> stores
  the message and clears the output, and the only component that renders the error is the
  output panel, which the page renders only while the output is not empty.\<close>

theorem runCard_error_hidden:
  assumes "executeCard rt (getSettings (st w)) c [] (pageContext (app w)) = Inr evs"
    and "last evs = OnError e"
  shows "app_error (app (runCard now rt c w)) = Some (js_error_message e) \<and>
    displayed_error (app_screen (app (runCard now rt c w))) = None"
proof -
  have "protocol_ok evs" using assms(1) entry_points_protocol by blast
  then have "settled evs (runCard now rt c w)"
    using assms(1) by (simp add: runCard_def Let_def run_events_settled)
  with assms(2) show ?thesis by (simp add: settled_def no_output_no_error)
qed

text \<open>The relative times of the history list are within their unit: minutes from 1
  to 59 and hours from 1 to 23.\<close>

theorem formatTime_bounds:
  "case formatTime now ts of
     MinutesAgo n \<Rightarrow> 1 \<le> n \<and> n \<le> 59
   | HoursAgo n \<Rightarrow> 1 \<le> n \<and> n \<le> 23
   | _ \<Rightarrow> True"
  using div_between [of 60000 60000 "now - ts" 3599999] div_between [of 3600000 3600000 "now - ts" 86399999]
  by (auto simp: formatTime_def Let_def)

lemma formatTime_future: "now \<le> ts \<Longrightarrow> formatTime now ts = JustNow"
  by (simp add: formatTime_def)

text \<open>Deleting a card keeps its history entries, and the history list then names
  them \<open>Unknown\<close>.\<close>

theorem deleteCard_history_unknown:
  assumes "e \<in> set (history (app w))" and "cardId e = i" and "i \<noteq> ''rephrase''"
  shows "e \<in> set (history (app (deleteCard i w))) \<and>
    getCardName (cards (app (deleteCard i w))) (cardId e) = ''Unknown''"
proof -
  have "find (\<lambda>c. card_id c = i) (cards (app (deleteCard i w))) = None"
    by (simp add: deleteCard_def loadCards_def deletePromptCard_def find_None_iff getPromptCards_def
        savePromptCards_def)
  with assms show ?thesis by (simp add: deleteCard_def loadCards_def getCardName_def)
qed

lemma mount_step:
  "a \<in> set (mount_actions r) \<Longrightarrow> app_step a w = Inr (projr (app_step a w))"
  by (auto simp: mount_actions_def)

lemma run_actions_mount:
  "set as \<subseteq> set (mount_actions r) \<Longrightarrow> run_actions as w = Inr (fold (\<lambda>a w. projr (app_step a w)) as w)"
proof (induction as arbitrary: w)
  case (Cons a as)
  then have "a \<in> set (mount_actions r)" and "set as \<subseteq> set (mount_actions r)" by auto
  with Cons.IH mount_step [of a r w] show ?case by (cases "app_step a w") auto
qed simp

lemma mount_steps_commute:
  "a \<in> set (mount_actions r) \<Longrightarrow> b \<in> set (mount_actions r) \<Longrightarrow>
   (\<lambda>w. projr (app_step a w)) \<circ> (\<lambda>w. projr (app_step b w)) =
   (\<lambda>w. projr (app_step b w)) \<circ> (\<lambda>w. projr (app_step a w))"
  by (auto simp: mount_actions_def fun_eq_iff loadSettings_def loadCards_def loadHistory_def
      loadPageContext_def set_app_def send_def)

text \<open>C16. The four loads a page starts on mount give the same page whatever order they
  complete in: each writes its own field of the state and none writes the storage.\<close>

theorem mount_order_irrelevant:
  assumes "mset as = mset (mount_actions r)"
  shows "run_actions as w = run_actions (mount_actions r) w"
proof -
  have "set as = set (mount_actions r)" by (metis assms set_mset_mset)
  then show ?thesis
    using run_actions_mount [of as r w] run_actions_mount [of "mount_actions r" r w]
      fold_multiset_equiv [OF mount_steps_commute assms [symmetric]]
    by simp
qed

text \<open>A page mounted on any storage ends loaded, showing the card grid on the stored
  cards sorted by order, and no output panel.\<close>

lemma mount_shows_grid:
  "run_actions (mount_actions r) \<lparr>app = initial_app, st = s, outbox = []\<rparr> = Inr w' \<Longrightarrow>
   app_screen (app w') = AppScreen [CardGridPanel] None \<and> cards_synced w'"
  by (auto simp: mount_actions_def loadSettings_def loadCards_def loadHistory_def loadPageContext_def
      initial_app_def app_screen_def main_panels_def cards_synced_def)

subsection \<open>Witnesses\<close>

lemma fresh_executeCard:
  "executeCard rt (getSettings (st fresh_world)) (defaultPromptCards 0 ! 2) [] ctx =
     Inr [OnError (ErrorMsg no_keys_card_msg)]"
proof -
  have "card_fallback defaultSettings fallbackOrder = Inr None"
    using lookup_defaultSettings_all by (simp add: card_fallback_none)
  then show ?thesis
    by (simp add: executeCard_def Let_def card_model_def defaultPromptCards_def default_card_def
        default_settings_simps getProviderForModel_def provider_models_def fresh_world_def
        empty_store_def getSettings_def)
qed

theorem runCard_error_hidden_witness:
  "executeCard demo_rt (getSettings (st fresh_world)) (defaultPromptCards 0 ! 2) []
     (pageContext (app fresh_world)) = Inr [OnError (ErrorMsg no_keys_card_msg)] \<and>
   app_error (app (runCard 1 demo_rt (defaultPromptCards 0 ! 2) fresh_world)) = Some no_keys_card_msg \<and>
   displayed_error (app_screen (app (runCard 1 demo_rt (defaultPromptCards 0 ! 2) fresh_world))) = None"
  using runCard_error_hidden [OF fresh_executeCard, where e = "ErrorMsg no_keys_card_msg" and now = 1
      and rt = demo_rt] fresh_executeCard
  by (simp add: js_error_message_def)

theorem deleteCard_history_unknown_witness:
  "demo_entry \<in> set (history (app history_world)) \<and> cardId demo_entry = ''commit-message'' \<and>
   getCardName (cards (app (deleteCard ''commit-message'' history_world))) (cardId demo_entry) = ''Unknown''"
proof -
  have h: "demo_entry \<in> set (history (app history_world))" "cardId demo_entry = ''commit-message''"
    by (simp_all add: history_world_def demo_entry_def card_entry_def defaultPromptCards_def
        default_card_def)
  show ?thesis using h deleteCard_history_unknown [OF h] by simp
qed

theorem mount_order_irrelevant_witness:
  "mset (rev (mount_actions None)) = mset (mount_actions None) \<and>
   run_actions (rev (mount_actions None)) fresh_world = run_actions (mount_actions None) fresh_world"
proof -
  have h: "mset (rev (mount_actions None)) = mset (mount_actions None)" by simp
  show ?thesis using h mount_order_irrelevant [OF h] by simp
qed

end
