(* ===== verification/ServiceWorker.thy ===== *)
theory ServiceWorker
  imports AppStore
begin

text \<open>
  The background service worker (\<open>background/service_worker.ts\<close>), the content script
  (\<open>content/content_script.ts\<close>) and the message handler of the side panel
  (\<open>sidepanel/App.tsx\<close>): the event wiring between the browser, the pages and the
  store.

  The context menu is the list of items registered with \<open>chrome.contextMenus\<close>, in
  creation order. \<open>create\<close> with an id that is already registered fails and reports
  through \<open>chrome.runtime.lastError\<close>, which the code never reads: the item is simply not
  added (\<open>menu_create\<close>). The effects of a listener are the list of calls it makes to
  the browser (\<open>sw_out\<close>), in order; \<open>setTimeout(..., 500)\<close> only delays the message
  after the panel is opened, so the order is kept. A tab id is a natural number; the
  code's \<open>!tab?.id\<close> rejects a missing tab and the id 0.
\<close>

datatype menu_type = NormalItem | SeparatorItem

record menu_item =
  mi_id :: string
  mi_parent :: "string option"
  mi_title :: "string option"
  mi_type :: menu_type

definition menu_create :: "menu_item \<Rightarrow> menu_item list \<Rightarrow> menu_item list" where
  "menu_create item ms = (if mi_id item \<in> set (map mi_id ms) then ms else ms @ [item])"

definition parent_item :: menu_item where
  "parent_item = \<lparr>mi_id = ''ai-prompt-sidebar'', mi_parent = None,
     mi_title = Some ''AI Prompt Sidebar'', mi_type = NormalItem\<rparr>"

definition card_item :: "prompt_card \<Rightarrow> menu_item" where
  "card_item c = \<lparr>mi_id = ''card-'' @ card_id c, mi_parent = Some ''ai-prompt-sidebar'',
     mi_title = Some (title c), mi_type = NormalItem\<rparr>"

definition separator_item :: menu_item where
  "separator_item = \<lparr>mi_id = ''separator'', mi_parent = Some ''ai-prompt-sidebar'',
     mi_title = None, mi_type = SeparatorItem\<rparr>"

definition rephrase_item :: menu_item where
  "rephrase_item = \<lparr>mi_id = ''rephrase-selection'', mi_parent = Some ''ai-prompt-sidebar'',
     mi_title = Some ''Quick Rephrase'', mi_type = NormalItem\<rparr>"

text \<open>The items created after the card list has been read, in order.\<close>

definition menu_tail :: "prompt_card list \<Rightarrow> menu_item list" where
  "menu_tail cs = map card_item (sort_key order cs) @ [separator_item, rephrase_item]"

text \<open>\<open>createContextMenus\<close> run alone: remove every item, then create the parent,
  one item per stored card sorted by order, the separator and the rephrase item.\<close>

definition createContextMenus :: "store \<Rightarrow> menu_item list" where
  "createContextMenus s = fold menu_create (parent_item # menu_tail (getPromptCards s)) []"

subsection \<open>Interleaved menu rebuilds\<close>

text \<open>
  \<open>createContextMenus\<close> suspends twice: at \<open>await chrome.contextMenus.removeAll()\<close> and
  at \<open>await storage.getPromptCards()\<close>. Its body is therefore three atomic segments:
  remove all items; create the parent and read the cards; create the rest from the cards
  read. \<open>REFRESH_CONTEXT_MENUS\<close> starts a rebuild without awaiting it, so two rebuilds
  can interleave, and the store can change between the segments of one of them.
\<close>

datatype cm_phase = CM_Start | CM_Removed | CM_Read "prompt_card list" | CM_Done

fun cm_step :: "store \<Rightarrow> cm_phase \<Rightarrow> menu_item list \<Rightarrow> cm_phase \<times> menu_item list" where
  "cm_step s CM_Start ms = (CM_Removed, [])"
| "cm_step s CM_Removed ms = (CM_Read (getPromptCards s), menu_create parent_item ms)"
| "cm_step s (CM_Read cs) ms = (CM_Done, fold menu_create (menu_tail cs) ms)"
| "cm_step s CM_Done ms = (CM_Done, ms)"

text \<open>A scheduler event: one segment of rebuild \<open>i\<close>, or a write to the store.\<close>

datatype cm_event = Seg nat | StoreWrite "store \<Rightarrow> store"

record cm_sys =
  cm_store :: store
  cm_menus :: "menu_item list"
  cm_threads :: "cm_phase list"

fun cm_exec :: "cm_sys \<Rightarrow> cm_event \<Rightarrow> cm_sys" where
  "cm_exec sys (StoreWrite f) = sys\<lparr>cm_store := f (cm_store sys)\<rparr>"
| "cm_exec sys (Seg i) =
     (if i < length (cm_threads sys) then
        (let (ph, ms) = cm_step (cm_store sys) (cm_threads sys ! i) (cm_menus sys)
         in sys\<lparr>cm_menus := ms, cm_threads := (cm_threads sys)[i := ph]\<rparr>)
      else sys)"

definition cm_run :: "cm_sys \<Rightarrow> cm_event list \<Rightarrow> cm_sys" where
  "cm_run sys evs = foldl cm_exec sys evs"

subsection \<open>Listeners\<close>

datatype panel_msg = RephraseSelectionMsg string | RunCardMsg string string

datatype tab_msg = CopyToClipboard string | GetSelection

datatype sw_out = OpenSidePanel nat | ToPanel panel_msg | ToTab nat tab_msg

text \<open>\<open>info.menuItemId.toString().replace('card-', '')\<close>: a string pattern replaces
  its first occurrence only.\<close>

fun replace_first :: "string \<Rightarrow> string \<Rightarrow> string \<Rightarrow> string" where
  "replace_first pat rep [] = (if pat = [] then rep else [])"
| "replace_first pat rep (c # cs) =
     (if starts_with pat (c # cs) then rep @ drop (length pat) (c # cs)
      else c # replace_first pat rep cs)"

definition onClicked :: "string \<Rightarrow> string option \<Rightarrow> nat option \<Rightarrow> sw_out list" where
  "onClicked mid sel tab =
     (case (tab, sel) of
        (Some t, Some s) \<Rightarrow>
          if t = 0 \<or> s = [] then []
          else if mid = ''rephrase-selection'' then [OpenSidePanel t, ToPanel (RephraseSelectionMsg s)]
          else if starts_with ''card-'' mid then
            [OpenSidePanel t, ToPanel (RunCardMsg (replace_first ''card-'' [] mid) s)]
          else []
      | _ \<Rightarrow> [])"

definition onCommand :: "string \<Rightarrow> nat option \<Rightarrow> store \<Rightarrow> sw_out list" where
  "onCommand cmd tab s =
     (case tab of
        None \<Rightarrow> []
      | Some t \<Rightarrow>
          if t = 0 then []
          else if cmd = ''toggle-sidebar'' then [OpenSidePanel t]
          else if cmd = ''copy-output'' then
            (if getLastOutput s \<noteq> [] then [ToTab t (CopyToClipboard (getLastOutput s))] else [])
          else [])"

text \<open>\<open>onInstalled\<close>: seed the default cards when the stored list is empty, then
  rebuild the menu. \<open>defaultPromptCards\<close> is the module's array, stamped when the
  module was loaded.\<close>

definition onInstalled :: "store \<Rightarrow> store \<times> menu_item list" where
  "onInstalled s =
     (let s' = (if getPromptCards s = [] then savePromptCards (defaultPromptCards (st_boot s)) s else s)
      in (s', createContextMenus s'))"

text \<open>The page as the injected function reads it, and the tab as \<open>chrome.tabs\<close>
  reports it.\<close>

record page =
  pg_selection :: string
  pg_title :: string
  pg_href :: string
  pg_innerText :: string

record tab_info =
  tab_id :: nat
  tab_title :: "string option"
  tab_url :: "string option"

text \<open>The injected function: \<open>getSelection()?.toString() || ''\<close>, the title, the URL
  and \<open>document.body.innerText.slice(0, 5000)\<close>.\<close>

definition page_context_of :: "page \<Rightarrow> page_context" where
  "page_context_of pg = \<lparr>selection = pg_selection pg, pageTitle = pg_title pg, pageUrl = pg_href pg,
     pageContent = take 5000 (pg_innerText pg)\<rparr>"

text \<open>The \<open>GET_PAGE_CONTEXT\<close> reply. \<open>script\<close> is the outcome of
  \<open>chrome.scripting.executeScript\<close>: \<open>None\<close> when it throws, \<open>Some None\<close> when it
  returns no result, \<open>Some (Some pg)\<close> with the page read.\<close>

definition getPageContextReply :: "tab_info option \<Rightarrow> page option option \<Rightarrow> page_context" where
  "getPageContextReply tab script =
     (case tab of
        None \<Rightarrow> empty_context
      | Some tb \<Rightarrow>
          if tab_id tb = 0 then empty_context
          else (case script of
                  None \<Rightarrow> \<lparr>selection = [],
                            pageTitle = js_or (case tab_title tb of None \<Rightarrow> [] | Some x \<Rightarrow> x) [],
                            pageUrl = js_or (case tab_url tb of None \<Rightarrow> [] | Some x \<Rightarrow> x) [],
                            pageContent = []\<rparr>
                | Some None \<Rightarrow> empty_context
                | Some (Some pg) \<Rightarrow> page_context_of pg))"

text \<open>The other two messages the pages send: rebuild the menu, store the last output.\<close>

definition sw_onMessage :: "runtime_msg \<Rightarrow> store \<times> menu_item list \<Rightarrow> store \<times> menu_item list" where
  "sw_onMessage m sm = (case m of
      RefreshContextMenus \<Rightarrow> (fst sm, createContextMenus (fst sm))
    | SaveLastOutput out \<Rightarrow> (setLastOutput out (fst sm), snd sm)
    | GetPageContext \<Rightarrow> sm)"

subsection \<open>Content script\<close>

text \<open>The clipboard after a tab message; \<open>ok\<close> is whether
  \<open>navigator.clipboard.writeText\<close> resolves. The reply is \<open>success\<close> or the
  selection.\<close>

datatype tab_reply = Success bool | Selection string

definition content_onMessage ::
  "tab_msg \<Rightarrow> bool \<Rightarrow> string \<Rightarrow> string \<Rightarrow> string \<times> tab_reply" where
  "content_onMessage m ok sel clip = (case m of
      CopyToClipboard text \<Rightarrow> (if ok then (text, Success True) else (clip, Success False))
    | GetSelection \<Rightarrow> (clip, Selection sel))"

subsection \<open>Side panel\<close>

text \<open>\<open>handleMessage\<close> of the side panel: switch the view and reload the page
  context; \<open>reply\<close> is the answer to the \<open>GET_PAGE_CONTEXT\<close> it sends.\<close>

definition panel_onMessage :: "panel_msg \<Rightarrow> page_context option \<Rightarrow> world \<Rightarrow> world" where
  "panel_onMessage m reply w = (case m of
      RephraseSelectionMsg s \<Rightarrow> loadPageContext reply (setActiveView RephraseView w)
    | RunCardMsg i s \<Rightarrow> loadPageContext reply (setActiveView CardsView w))"

subsection \<open>Fixtures\<close>

definition race_schedule :: "string \<Rightarrow> cm_event list" where
  "race_schedule i = [Seg 0, Seg 0, StoreWrite (deletePromptCard i), Seg 1, Seg 1, Seg 0, Seg 1]"

text \<open>The same two rebuilds and deletion without interleaving: rebuild 0 finishes before
  the card is deleted and rebuild 1 starts.\<close>

definition sequential_schedule :: "string \<Rightarrow> cm_event list" where
  "sequential_schedule i = [Seg 0, Seg 0, Seg 0, StoreWrite (deletePromptCard i), Seg 1, Seg 1, Seg 1]"

subsection \<open>Lemmas\<close>

lemma replace_first_prefix: "p \<noteq> [] \<Longrightarrow> replace_first p r (p @ x) = r @ x"
  by (cases p) (simp_all add: starts_with_def)

lemma fold_menu_create_distinct:
  "distinct (map mi_id (ms @ items)) \<Longrightarrow> fold menu_create items ms = ms @ items"
  by (induction items arbitrary: ms) (auto simp: menu_create_def)

lemma distinct_map_sort_key: "distinct (map g (sort_key f xs)) = distinct (map g xs)"
  by (simp add: distinct_map)

lemma mi_id_card_item [simp]: "mi_id (card_item c) = ''card-'' @ card_id c"
  by (simp add: card_item_def)

text \<open>C19. Round trip of the card menu: clicking the menu item created for a card, on a
  tab with a non-empty selection, opens the side panel and sends \<open>RUN_CARD\<close> with that
  card's id (the prefix \<open>card-\<close> is removed again) and the selection.\<close>

theorem menu_click_roundtrip:
  assumes "s \<noteq> []" and "t \<noteq> 0"
  shows "onClicked (mi_id (card_item c)) (Some s) (Some t) = [OpenSidePanel t, ToPanel (RunCardMsg (card_id c) s)]"
proof -
  have "mi_id (card_item c) \<noteq> ''rephrase-selection''" by (simp add: card_item_def)
  moreover have "starts_with ''card-'' (mi_id (card_item c))" by (simp add: starts_with_def)
  moreover have "replace_first ''card-'' [] (mi_id (card_item c)) = card_id c"
    unfolding mi_id_card_item by (subst replace_first_prefix) simp_all
  ultimately show ?thesis using assms by (simp add: onClicked_def)
qed

text \<open>When the stored card ids are distinct, a menu rebuild registers exactly the
  parent, one item per card in order of \<open>order\<close>, the separator and the rephrase item:
  no item is lost to an id clash.\<close>

theorem createContextMenus_ids:
  assumes "distinct (map card_id (getPromptCards s))"
  shows "map mi_id (createContextMenus s) =
     ''ai-prompt-sidebar'' # map (\<lambda>c. ''card-'' @ card_id c) (sort_key order (getPromptCards s)) @
     [''separator'', ''rephrase-selection'']"
proof -
  let ?cs = "sort_key order (getPromptCards s)"
  have d: "distinct (map (\<lambda>c. ''card-'' @ card_id c) ?cs)"
    using assms by (simp add: distinct_map_sort_key distinct_map inj_on_def)
  have "distinct (map mi_id ([] @ parent_item # menu_tail (getPromptCards s)))"
    using d by (auto simp: menu_tail_def comp_def parent_item_def separator_item_def
        rephrase_item_def)
  then have "createContextMenus s = parent_item # menu_tail (getPromptCards s)"
    unfolding createContextMenus_def by (subst fold_menu_create_distinct) simp_all
  then show ?thesis
    by (simp add: menu_tail_def comp_def parent_item_def separator_item_def rephrase_item_def)
qed

lemma fold_menu_create_ids:
  "mi_id ` set (fold menu_create items ms) = mi_id ` set ms \<union> mi_id ` set items"
  by (induction items arbitrary: ms) (auto simp: menu_create_def)

lemma menu_tail_ids:
  "mi_id ` set (menu_tail cs) = (\<lambda>c. ''card-'' @ card_id c) ` set cs \<union> {''separator'', ''rephrase-selection''}"
  by (simp add: menu_tail_def image_Un image_image card_item_def separator_item_def rephrase_item_def)

text \<open>C34. Finding: two rebuilds that interleave around a deletion leave the deleted card in
  the menu. For every store and every stored card: rebuild 0 reads the cards, the card is
  deleted and rebuild 1 starts (as \<open>deleteCard\<close> does), rebuild 1 clears the menu before
  rebuild 0 creates its stale items, and the card's item stays although no stored card has
  its id. Run one after the other, the same two rebuilds and deletion remove the item.\<close>

theorem menu_rebuild_race:
  assumes "c \<in> set (getPromptCards s)"
  shows "''card-'' @ card_id c \<in> set (map mi_id (cm_menus
      (cm_run \<lparr>cm_store = s, cm_menus = ms, cm_threads = [CM_Start, CM_Start]\<rparr> (race_schedule (card_id c))))) \<and>
    card_id c \<notin> card_id ` set (getPromptCards (cm_store
      (cm_run \<lparr>cm_store = s, cm_menus = ms, cm_threads = [CM_Start, CM_Start]\<rparr> (race_schedule (card_id c))))) \<and>
    ''card-'' @ card_id c \<notin> set (map mi_id (cm_menus
      (cm_run \<lparr>cm_store = s, cm_menus = ms, cm_threads = [CM_Start, CM_Start]\<rparr> (sequential_schedule (card_id c)))))"
proof -
  let ?del = "deletePromptCard (card_id c) s"
  have del: "getPromptCards ?del = filter (\<lambda>x. card_id x \<noteq> card_id c) (getPromptCards s)"
    by (simp add: deletePromptCard_def getPromptCards_def savePromptCards_def)
  have race: "cm_run \<lparr>cm_store = s, cm_menus = ms, cm_threads = [CM_Start, CM_Start]\<rparr> (race_schedule (card_id c)) =
      \<lparr>cm_store = ?del, cm_menus = fold menu_create (menu_tail (getPromptCards ?del))
        (fold menu_create (menu_tail (getPromptCards s)) (menu_create parent_item [])),
       cm_threads = [CM_Done, CM_Done]\<rparr>"
    by (simp add: cm_run_def race_schedule_def)
  have seq: "cm_run \<lparr>cm_store = s, cm_menus = ms, cm_threads = [CM_Start, CM_Start]\<rparr> (sequential_schedule (card_id c)) =
      \<lparr>cm_store = ?del, cm_menus = fold menu_create (menu_tail (getPromptCards ?del)) (menu_create parent_item []),
       cm_threads = [CM_Done, CM_Done]\<rparr>"
    by (simp add: cm_run_def sequential_schedule_def)
  show ?thesis
    unfolding race seq
    using assms del
    by (auto simp: fold_menu_create_ids menu_tail_ids menu_create_def parent_item_def)
qed

text \<open>The copy shortcut: after \<open>SAVE_LAST_OUTPUT\<close> stored a non-empty output,
  the \<open>copy-output\<close> command on a tab sends that output to the tab's content script.\<close>

theorem copy_output_command:
  assumes "out \<noteq> []" and "t \<noteq> 0"
  shows "onCommand ''copy-output'' (Some t) (fst (sw_onMessage (SaveLastOutput out) sm)) =
           [ToTab t (CopyToClipboard out)]"
  using assms by (simp add: onCommand_def sw_onMessage_def setLastOutput_def getLastOutput_def)

text \<open>The page context sent to the pages never carries more than 5000 characters of
  page text, whatever the tab and the outcome of the injected script.\<close>

theorem page_context_bound:
  "length (pageContent (getPageContextReply tab script)) \<le> 5000"
  by (simp add: getPageContextReply_def page_context_of_def empty_context_def
      split: option.split)

text \<open>C32. Finding: the side panel's handler of \<open>RUN_CARD\<close> only switches to the card
  view and reloads the page context. It ignores the card id and the selection it is
  sent, and it starts no run: choosing a card in the context menu never executes it
  (the comment says \<open>CardGrid\<close> handles it; \<open>CardGrid\<close> has no listener).\<close>

theorem panel_run_card_ignored:
  "panel_onMessage (RunCardMsg i s) reply w = panel_onMessage (RunCardMsg j s') reply w \<and>
   isGenerating (app (panel_onMessage (RunCardMsg i s) reply w)) = isGenerating (app w) \<and>
   currentOutput (app (panel_onMessage (RunCardMsg i s) reply w)) = currentOutput (app w) \<and>
   st (panel_onMessage (RunCardMsg i s) reply w) = st w"
  by (simp add: panel_onMessage_def loadPageContext_def setActiveView_def)

text \<open>Finding: \<open>onInstalled\<close> (which also runs on every extension update) seeds
  nothing on a fresh install, where the missing key already reads as the defaults, but it
  restores the six default cards over a list the user emptied.\<close>

theorem onInstalled_reseeds:
  "st_cards (fst (onInstalled empty_store)) = None \<and>
   getPromptCards (fst (onInstalled (s\<lparr>st_cards := Some []\<rparr>))) = defaultPromptCards (st_boot s)"
  by (simp add: onInstalled_def Let_def getPromptCards_def savePromptCards_def empty_store_def
      defaultPromptCards_def)

subsection \<open>Witnesses\<close>

theorem menu_rebuild_race_witness:
  "''card-fix-grammar'' \<in> set (map mi_id (cm_menus
      (cm_run \<lparr>cm_store = empty_store, cm_menus = [], cm_threads = [CM_Start, CM_Start]\<rparr>
        (race_schedule ''fix-grammar''))))"
proof -
  have h: "defaultPromptCards 0 ! 1 \<in> set (getPromptCards empty_store)"
    by (simp add: getPromptCards_def empty_store_def defaultPromptCards_def)
  have i: "card_id (defaultPromptCards 0 ! 1) = ''fix-grammar''"
    by (simp add: defaultPromptCards_def default_card_def)
  show ?thesis using menu_rebuild_race [OF h, of "[]"] i by simp
qed

theorem menu_click_roundtrip_witness:
  "onClicked (mi_id (card_item (defaultPromptCards 0 ! 2))) (Some ''fix(api): add retry'') (Some 7) =
     [OpenSidePanel 7, ToPanel (RunCardMsg (card_id (defaultPromptCards 0 ! 2)) ''fix(api): add retry'')]"
  by (rule menu_click_roundtrip) simp_all

theorem createContextMenus_ids_witness:
  "map mi_id (createContextMenus empty_store) =
     ''ai-prompt-sidebar'' # map (\<lambda>c. ''card-'' @ card_id c) (sort_key order (getPromptCards empty_store)) @
     [''separator'', ''rephrase-selection'']"
proof -
  have h: "distinct (map card_id (getPromptCards empty_store))"
    by (simp add: getPromptCards_def empty_store_def defaultPromptCards_def default_card_def)
  show ?thesis by (rule createContextMenus_ids [OF h])
qed

theorem copy_output_command_witness:
  "onCommand ''copy-output'' (Some 3) (fst (sw_onMessage (SaveLastOutput ''feat: x'') (empty_store, []))) =
     [ToTab 3 (CopyToClipboard ''feat: x'')]"
  by (rule copy_output_command) simp_all

end
