(* ===== verification/Interactions.thy ===== *)
theory Interactions
  imports Screens ServiceWorker
begin

text \<open>
  The rephrase panel's own state (\<open>components/RephrasePanel.tsx\<close>) and the ways it
  meets the rest of the program: the side panel's \<open>REPHRASE_SELECTION\<close> handler, which
  switches to the panel and reloads the page context, and the keyboard, which starts a
  rephrase without the checks of the Send button. React keeps a component's
  \<open>useState\<close> values from its mount until it unmounts, and renders between the
  synchronous part of a handler and the completion of what it awaits; \<open>panel_render\<close>
  is that rule for the rephrase panel. The card grid's Run button and card menu
  (\<open>components/CardGrid.tsx\<close>) complete the handlers of the page; the content
  script's toast is modelled over the page's elements; and the last section shows that
  every handler is a sequence of store actions.
\<close>

subsection \<open>Rephrase panel state\<close>

record rephrase_form =
  r_input :: string
  r_tone :: tone
  r_maxWords :: int
  r_activeRules :: "string list"

text \<open>The initial \<open>useState\<close> values; \<open>input\<close> starts as
  \<open>pageContext.selection || ''''\<close>.\<close>

definition rephrase_mount :: "app_state \<Rightarrow> rephrase_form" where
  "rephrase_mount a = \<lparr>r_input = js_or (selection (pageContext a)) [], r_tone = Professional,
     r_maxWords = 50, r_activeRules = [''noGreetings'', ''noExplanation'', ''outputOnly'']\<rparr>"

text \<open>A render: the panel is mounted while the view is \<open>rephrase\<close>, with the state it
  had, or a fresh state when it was not mounted; otherwise it is unmounted.\<close>

definition panel_render :: "world \<Rightarrow> rephrase_form option \<Rightarrow> rephrase_form option" where
  "panel_render w f =
     (if activeView (app w) = RephraseView
      then (case f of None \<Rightarrow> Some (rephrase_mount (app w)) | Some g \<Rightarrow> Some g)
      else None)"

text \<open>A \<open>REPHRASE_SELECTION\<close> message reaching the side panel: \<open>setActiveView\<close> runs
  and the page renders before the reply to \<open>GET_PAGE_CONTEXT\<close> arrives; then the
  reply is stored and the page renders again.\<close>

definition rephrase_message_flow ::
  "string \<Rightarrow> page_context option \<Rightarrow> world \<times> rephrase_form option \<Rightarrow> world \<times> rephrase_form option"
where
  "rephrase_message_flow s reply pf =
     (let f1 = panel_render (setActiveView RephraseView (fst pf)) (snd pf);
          w' = panel_onMessage (RephraseSelectionMsg s) reply (fst pf)
      in (w', panel_render w' f1))"

text \<open>The Send button: \<open>disabled={!input.trim() || isGenerating}\<close>.\<close>

definition send_enabled :: "rephrase_form \<Rightarrow> app_state \<Rightarrow> bool" where
  "send_enabled f a \<longleftrightarrow> \<not> trim_empty (r_input f) \<and> \<not> isGenerating a"

definition clickSend :: "int \<Rightarrow> runtime \<Rightarrow> rephrase_form \<Rightarrow> world \<Rightarrow> world" where
  "clickSend now rt f w =
     (if send_enabled f (app w)
      then handleRephrase now rt (r_input f) (r_tone f) (r_maxWords f) (r_activeRules f) w else w)"

text \<open>\<open>handleKeyDown\<close>: Enter without Shift calls \<open>handleRephrase\<close>.\<close>

definition handleKeyDown :: "string \<Rightarrow> bool \<Rightarrow> int \<Rightarrow> runtime \<Rightarrow> rephrase_form \<Rightarrow> world \<Rightarrow> world" where
  "handleKeyDown key shift now rt f w =
     (if key = ''Enter'' \<and> \<not> shift
      then handleRephrase now rt (r_input f) (r_tone f) (r_maxWords f) (r_activeRules f) w else w)"

definition setInput :: "string \<Rightarrow> rephrase_form \<Rightarrow> rephrase_form" where
  "setInput v f = f\<lparr>r_input := v\<rparr>"

definition setTone :: "tone \<Rightarrow> rephrase_form \<Rightarrow> rephrase_form" where
  "setTone t f = f\<lparr>r_tone := t\<rparr>"

definition setMaxWords :: "int \<Rightarrow> rephrase_form \<Rightarrow> rephrase_form" where
  "setMaxWords n f = f\<lparr>r_maxWords := n\<rparr>"

definition clickRule :: "string \<Rightarrow> rephrase_form \<Rightarrow> rephrase_form" where
  "clickRule r f = f\<lparr>r_activeRules := toggleRule r (r_activeRules f)\<rparr>"

subsection \<open>Two runs at once\<close>

text \<open>
  Two runs of the callback handler over one store, each with its own \<open>output\<close>
  closure, their callbacks arriving in the order a schedule gives: \<open>(True, e)\<close> is an
  event of the first run, \<open>(False, e)\<close> one of the second.
\<close>

fun run_two ::
  "(ai_response \<Rightarrow> history_entry) \<Rightarrow> world \<times> string \<times> string \<Rightarrow> (bool \<times> event) list \<Rightarrow> world"
where
  "run_two mk (w, o1, o2) [] = w"
| "run_two mk (w, o1, o2) ((True, e) # es) =
     (let (w', o1') = on_event mk (w, o1) e in run_two mk (w', o1', o2) es)"
| "run_two mk (w, o1, o2) ((False, e) # es) =
     (let (w', o2') = on_event mk (w, o2) e in run_two mk (w', o1, o2') es)"

subsection \<open>Card grid items\<close>

text \<open>A card's Run button: \<open>disabled={isGenerating}\<close>.\<close>

definition clickRun :: "int \<Rightarrow> runtime \<Rightarrow> prompt_card \<Rightarrow> world \<Rightarrow> world" where
  "clickRun now rt c w = (if isGenerating (app w) then w else runCard now rt c w)"

text \<open>The grid's \<open>activeMenu\<close>: the menu button of card \<open>i\<close> opens its menu, or
  closes it when it is the open one; each entry of the menu closes it.\<close>

definition toggleMenu :: "string \<Rightarrow> string option \<Rightarrow> string option" where
  "toggleMenu i active = (if active = Some i then None else Some i)"

definition menuEdit :: "prompt_card \<Rightarrow> world \<times> string option \<Rightarrow> world \<times> string option" where
  "menuEdit c wm = (onEdit c (fst wm), None)"

definition menuDuplicate :: "int \<Rightarrow> prompt_card \<Rightarrow> world \<times> string option \<Rightarrow> world \<times> string option" where
  "menuDuplicate now c wm = (duplicateCard now (card_id c) (fst wm), None)"

definition menuDelete :: "prompt_card \<Rightarrow> world \<times> string option \<Rightarrow> world \<times> string option" where
  "menuDelete c wm = (deleteCard (card_id c) (fst wm), None)"

subsection \<open>The content script's toast\<close>

text \<open>
  \<open>showToast\<close> of \<open>content/content_script.ts\<close> over the elements of the page that
  carry an id, in document order, each with the serial of its creation:
  \<open>document.getElementById\<close> finds the first element with the id, \<open>remove()\<close>
  detaches that element and does nothing to a detached one. The toast's own timer
  removes, 2.2 seconds later, the element it created; the styles are not modelled.
\<close>

record dom_el =
  el_serial :: nat
  el_id :: string
  el_text :: string

record page_dom =
  dom_els :: "dom_el list"
  next_el :: nat

definition toast_id :: string where
  "toast_id = ''ai-sidebar-toast''"

definition showToast :: "string \<Rightarrow> page_dom \<Rightarrow> page_dom" where
  "showToast msg d =
     (let kept = (case find (\<lambda>e. el_id e = toast_id) (dom_els d) of
                    None \<Rightarrow> dom_els d
                  | Some e \<Rightarrow> remove1 e (dom_els d))
      in \<lparr>dom_els = kept @ [\<lparr>el_serial = next_el d, el_id = toast_id, el_text = msg\<rparr>],
          next_el = Suc (next_el d)\<rparr>)"

text \<open>\<open>toast.remove()\<close> for the toast created with serial \<open>n\<close>.\<close>

definition removeEl :: "nat \<Rightarrow> page_dom \<Rightarrow> page_dom" where
  "removeEl n d = d\<lparr>dom_els := filter (\<lambda>e. el_serial e \<noteq> n) (dom_els d)\<rparr>"

text \<open>What reaches the page: a successful copy shows the toast; a timer of an earlier
  toast fires. Any interleaving is possible.\<close>

datatype toast_event = CopyDone | ToastTimer nat

fun toast_step :: "page_dom \<Rightarrow> toast_event \<Rightarrow> page_dom" where
  "toast_step d CopyDone = showToast ''Copied to clipboard!'' d"
| "toast_step d (ToastTimer n) = removeEl n d"

definition toast_count :: "page_dom \<Rightarrow> nat" where
  "toast_count d = length (filter (\<lambda>e. el_id e = toast_id) (dom_els d))"

subsection \<open>Fixtures\<close>

definition typed_form :: rephrase_form where
  "typed_form = \<lparr>r_input = ''hello wrld'', r_tone = Professional, r_maxWords = 50,
     r_activeRules = [''noGreetings'', ''noExplanation'', ''outputOnly'']\<rparr>"

definition generating_world :: world where
  "generating_world = setIsGenerating True keyed_world"

subsection \<open>Lemmas\<close>

lemma panel_render_rephrase:
  "activeView (app w) = RephraseView \<Longrightarrow>
   panel_render w f = Some (case f of None \<Rightarrow> rephrase_mount (app w) | Some g \<Rightarrow> g)"
  by (simp add: panel_render_def split: option.split)

text \<open>C25. Finding: the text a "Rephrase selection" menu action puts in the rephrase
  panel is never the selection it was sent for. The side panel ignores the message's
  selection; the panel, if it was not shown, mounts before the fresh page context
  arrives and takes the old selection, and if it was shown it keeps its input. The page
  context is updated, the input is not.\<close>

theorem rephrase_selection_ignored:
  "pageContext (app (fst (rephrase_message_flow s (Some ctx) (w, f)))) = ctx \<and>
   map_option r_input (snd (rephrase_message_flow s (Some ctx) (w, f))) =
     Some (case f of None \<Rightarrow> js_or (selection (pageContext (app w))) [] | Some g \<Rightarrow> r_input g)"
proof -
  have v1: "activeView (app (setActiveView RephraseView w)) = RephraseView"
    by (simp add: setActiveView_def)
  have v2: "activeView (app (panel_onMessage (RephraseSelectionMsg s) (Some ctx) w)) = RephraseView"
    by (simp add: panel_onMessage_def loadPageContext_def setActiveView_def)
  show ?thesis
    using panel_render_rephrase [OF v1, of f] panel_render_rephrase [OF v2]
    by (cases f) (simp_all add: rephrase_message_flow_def Let_def panel_onMessage_def
        loadPageContext_def setActiveView_def rephrase_mount_def)
qed

text \<open>C26. Finding: while a run is in progress the Send button is disabled and a click
  does nothing, but Enter in the text box still calls \<open>handleRephrase\<close> and starts a
  second run over the same store.\<close>

theorem enter_ignores_generating:
  assumes "isGenerating (app w)"
  shows "\<not> send_enabled f (app w) \<and> clickSend now rt f w = w \<and>
    handleKeyDown ''Enter'' False now rt f w =
      handleRephrase now rt (r_input f) (r_tone f) (r_maxWords f) (r_activeRules f) w"
  using assms by (simp add: send_enabled_def clickSend_def handleKeyDown_def)

text \<open>What two overlapping runs show: the first run's completion clears
  \<open>isGenerating\<close> while the second still streams, and the output on screen mixes the
  two runs' texts as their tokens arrive.\<close>

lemma overlapping_runs:
  "let w0 = run_start (setCurrentOutput ''Hel'' (run_start w));
       mk = rephrase_entry 1 ''hello''
   in currentOutput (app (run_two mk (w0, ''Hel'', []) [(True, OnToken ''lo'')])) = ''Hello'' \<and>
      currentOutput (app (run_two mk (w0, ''Hel'', []) [(True, OnToken ''lo''), (False, OnToken ''Hi'')])) = ''Hi'' \<and>
      \<not> isGenerating (app (run_two mk (w0, ''Hel'', [])
        [(True, OnToken ''lo''), (False, OnToken ''Hi''), (True, OnComplete demo_response)])) \<and>
      currentOutput (app (run_two mk (w0, ''Hel'', [])
        [(True, OnToken ''lo''), (False, OnToken ''Hi''), (True, OnComplete demo_response),
         (False, OnToken '' there'')])) = ''Hi there''"
  by (simp add: Let_def run_start_def setError_def setIsGenerating_def setCurrentOutput_def app_addHistoryEntry_def
      loadHistory_def)

subsection \<open>The handlers as store actions\<close>

text \<open>Each setter and action of the store is one step of \<open>app_step\<close>.\<close>

lemma reachable_actions [intro]:
  assumes "reachable w"
  shows "reachable (setCurrentOutput x w)"
    "reachable (setIsGenerating b w)"
    "reachable (setError e w)"
    "reachable (setIsEditing b w)"
    "reachable (setSelectedCard sc w)"
    "reachable (setActiveView v w)"
    "reachable (app_addHistoryEntry h w)"
    "reachable (addCard c w)"
    "reachable (updateCard now c w)"
    "reachable (deleteCard i w)"
    "reachable (duplicateCard now i w)"
    "reachable (updateSettings sp w)"
    "reachable (app_setDefaultModel m p w)"
  using reachable.step [OF assms, of "SetCurrentOutput x"]
    reachable.step [OF assms, of "SetIsGenerating b"]
    reachable.step [OF assms, of "SetError e"]
    reachable.step [OF assms, of "SetIsEditing b"]
    reachable.step [OF assms, of "SetSelectedCard sc"]
    reachable.step [OF assms, of "SetActiveView v"]
    reachable.step [OF assms, of "AddHistoryEntry h"]
    reachable.step [OF assms, of "AddCard c"]
    reachable.step [OF assms, of "UpdateCard now c"]
    reachable.step [OF assms, of "DeleteCard i"]
    reachable.step [OF assms, of "DuplicateCard now i"]
    reachable.step [OF assms, of "UpdateSettings sp"]
    reachable.step [OF assms, of "SetDefaultModel m p"]
  by simp_all

lemma reachable_updateProviderKey:
  "reachable w \<Longrightarrow> app_updateProviderKey q k w = Inr w' \<Longrightarrow> reachable w'"
  by (rule reachable.step [where a = "UpdateProviderKey q k"]) simp_all

lemma reachable_run_events:
  "reachable w \<Longrightarrow> reachable (fst (foldl (on_event mk) (w, out) evs))"
proof (induction evs arbitrary: w out rule: rev_induct)
  case (snoc e evs)
  obtain w1 o1 where f: "foldl (on_event mk) (w, out) evs = (w1, o1)" by fastforce
  with snoc have "reachable w1" by (metis fst_conv)
  with f show ?case by (cases e) auto
qed simp

lemma reachable_runs:
  "reachable w \<Longrightarrow> reachable (runCard now rt c w)"
  "reachable w \<Longrightarrow> reachable (handleRephrase now rt input t maxW active w)"
  by (auto simp: runCard_def handleRephrase_def run_events_def run_start_def Let_def
      intro!: reachable_run_events split: sum.split)

text \<open>Every handler of the page is a sequence of store actions: the worlds reachable
  through the store stay reachable through the card grid (run, edit, duplicate, delete),
  the rephrase panel, the card editor, the header, the settings panel and the model
  selector, so every invariant of the reachable worlds holds for the page as the user
  drives it.\<close>

theorem ui_handlers_reachable:
  assumes "reachable w"
  shows "reachable (clickRun now rt c w) \<and> reachable (fst (menuEdit c (w, mm))) \<and>
    reachable (fst (menuDuplicate now c (w, mm))) \<and> reachable (fst (menuDelete c (w, mm))) \<and>
    reachable (clickSend now rt rf w) \<and> reachable (handleKeyDown key shift now rt rf w) \<and>
    reachable (clickSave now f w) \<and> reachable (handleAddCard w) \<and> reachable (clickTab v w) \<and>
    reachable (snd (handleSelectModel m p w)) \<and> reachable (setHistorySize n w) \<and>
    reachable (setUiMode u w) \<and>
    (case handleSaveKey q kf w of Inl e \<Rightarrow> True | Inr r \<Rightarrow> reachable (snd r))"
proof -
  have "reachable (clickSave now f w)"
    using assms by (auto simp: clickSave_def handleSave_def split: option.split)
  moreover have "case handleSaveKey q kf w of Inl e \<Rightarrow> True | Inr r \<Rightarrow> reachable (snd r)"
    using assms by (auto simp: handleSaveKey_def reachable_updateProviderKey split: sum.split)
  ultimately show ?thesis
    using assms reachable_runs
    by (auto simp: clickRun_def menuEdit_def onEdit_def menuDuplicate_def menuDelete_def clickSend_def
        handleKeyDown_def handleAddCard_def clickTab_def handleSelectModel_def setHistorySize_def
        setUiMode_def)
qed

lemma toast_count_show:
  assumes "toast_count d \<le> 1"
  shows "toast_count (showToast msg d) = 1"
proof (cases "find (\<lambda>e. el_id e = toast_id) (dom_els d)")
  case None
  then have "filter (\<lambda>e. el_id e = toast_id) (dom_els d) = []"
    by (simp add: find_None_iff filter_empty_conv)
  with None show ?thesis by (simp add: showToast_def toast_count_def)
next
  case (Some e)
  then have e: "e \<in> set (dom_els d)" "el_id e = toast_id" by (auto dest: find_Some_iff [THEN iffD1] simp: in_set_conv_nth)
  then have "length (filter (\<lambda>e. el_id e = toast_id) (remove1 e (dom_els d))) = 0"
    using assms by (simp add: toast_count_def filter_remove1 length_remove1)
  with Some show ?thesis by (simp add: showToast_def toast_count_def)
qed

lemma toast_count_remove: "toast_count (removeEl n d) \<le> toast_count d"
proof -
  have "filter (\<lambda>e. el_id e = toast_id) (filter (\<lambda>e. el_serial e \<noteq> n) (dom_els d)) =
    filter (\<lambda>e. el_serial e \<noteq> n) (filter (\<lambda>e. el_id e = toast_id) (dom_els d))"
    by (simp add: filter_filter conj_commute)
  then show ?thesis by (simp add: removeEl_def toast_count_def del: filter_filter)
qed

text \<open>However copies and the timers of earlier toasts interleave, the page never shows
  more than one toast.\<close>

theorem toast_single:
  "toast_count d \<le> 1 \<Longrightarrow> toast_count (foldl toast_step d evs) \<le> 1"
proof (induction evs arbitrary: d)
  case (Cons ev evs)
  have "toast_count (toast_step d ev) \<le> 1"
    using Cons.prems toast_count_show [of d] toast_count_remove [of _ d]
    by (cases ev) (auto intro: order_trans)
  with Cons.IH show ?case by simp
qed simp

lemma stale_timer_keeps_toast:
  "el_serial e \<noteq> n \<Longrightarrow> e \<in> set (dom_els d) \<Longrightarrow> e \<in> set (dom_els (removeEl n d))"
  by (simp add: removeEl_def)

subsection \<open>Witnesses\<close>

theorem enter_ignores_generating_witness:
  "isGenerating (app generating_world) \<and> \<not> send_enabled typed_form (app generating_world) \<and>
   handleKeyDown ''Enter'' False 1 demo_rt typed_form generating_world =
     handleRephrase 1 demo_rt ''hello wrld'' Professional 50
       [''noGreetings'', ''noExplanation'', ''outputOnly''] generating_world"
proof -
  have h: "isGenerating (app generating_world)"
    by (simp add: generating_world_def setIsGenerating_def)
  show ?thesis using h enter_ignores_generating [OF h, of typed_form] by (simp add: typed_form_def)
qed

theorem ui_handlers_reachable_witness:
  "reachable fresh_world \<and> reachable (clickRun 1 demo_rt (defaultPromptCards 0 ! 2) fresh_world) \<and>
   reachable (clickSave 1 demo_form fresh_world) \<and>
   reachable (handleKeyDown ''Enter'' False 1 demo_rt typed_form fresh_world)"
  using reachable_fresh ui_handlers_reachable [OF reachable_fresh, where now = 1 and rt = demo_rt
      and c = "defaultPromptCards 0 ! 2" and mm = None and rf = typed_form and key = "''Enter''"
      and shift = False and f = demo_form and v = CardsView and m = "''gpt-4.1''" and p = OpenAI
      and n = 25 and u = Popup and q = Gemini and kf = demo_keys]
  by blast

end
