(* ===== verification/Panels.thy ===== *)
theory Panels
  imports Interactions
begin

text \<open>
  The constant tables the components render (\<open>MODELS\<close> and \<open>TONES\<close> of the card
  editor, \<open>MODEL_LABELS\<close> of the model selector, \<open>TONES\<close> and \<open>RULE_OPTIONS\<close> of the
  rephrase panel, the header's tabs, the settings panel's history sizes and status line),
  the three copy buttons with the clipboard they write, and the side panel's own layout,
  which repeats the popup's. The lemmas check the tables against the registry and the
  engine, and the composition of the settings panel's history-size choice with the store.
\<close>

subsection \<open>Tables\<close>

definition editor_tones :: "tone list" where
  "editor_tones = [Professional, Casual, Neutral, Strict]"

text \<open>\<open>MODELS\<close> of the card editor: the options of the model-override select.\<close>

definition editor_models :: "(model_id \<times> string) list" where
  "editor_models = [(''gpt-4o-mini'', ''GPT-4o Mini''), (''gpt-4.1'', ''GPT-4.1''),
     (''gpt-3.5-turbo'', ''GPT-3.5 Turbo''), (''gemini-1.5-flash'', ''Gemini 1.5 Flash''),
     (''gemini-1.5-pro'', ''Gemini 1.5 Pro''), (''llama-3.1-70b'', ''Llama 3.1 70B''),
     (''mixtral-8x7b'', ''Mixtral 8x7B''), (''deepseek-chat'', ''DeepSeek Chat''),
     (''deepseek-coder'', ''DeepSeek Coder'')]"

text \<open>\<open>VARIABLE_OPTIONS\<close> of the card editor.\<close>

definition variable_options :: "(string \<times> string) list" where
  "variable_options = [(''selection'', ''{{selection}}''), (''pageTitle'', ''{{pageTitle}}''),
     (''pageUrl'', ''{{pageUrl}}''), (''pageContent'', ''{{pageContent}}'')]"

text \<open>\<open>MODEL_LABELS\<close> of the model selector, a record over the model identifiers.\<close>

definition model_label_table :: "(model_id \<times> string) list" where
  "model_label_table = [(''gpt-4o-mini'', ''GPT-4o Mini''), (''gpt-4.1'', ''GPT-4.1''),
     (''gpt-3.5-turbo'', ''GPT-3.5 Turbo''), (''gemini-1.5-flash'', ''Gemini 1.5 Flash''),
     (''gemini-1.5-pro'', ''Gemini 1.5 Pro''), (''llama-3.1-70b'', ''Llama 3.1 70B''),
     (''mixtral-8x7b'', ''Mixtral 8x7B''), (''deepseek-chat'', ''DeepSeek Chat''),
     (''deepseek-coder'', ''DeepSeek Coder'')]"

text \<open>The label a menu entry shows: \<open>MODEL_LABELS[model]\<close>, \<open>undefined\<close> (no text)
  for an identifier outside the table.\<close>

definition model_label :: "model_id \<Rightarrow> string option" where
  "model_label m = map_of model_label_table m"

definition rephrase_tones :: "(tone \<times> string) list" where
  "rephrase_tones = [(Professional, ''Professional''), (Casual, ''Casual''), (Neutral, ''Neutral''),
     (Strict, ''Strict'')]"

definition rule_options :: "(string \<times> string) list" where
  "rule_options = [(''noGreetings'', ''No greetings''), (''noExplanation'', ''No explanation''),
     (''outputOnly'', ''Output only text'')]"

definition header_tabs :: "(view \<times> string) list" where
  "header_tabs = [(CardsView, ''Cards''), (RephraseView, ''Rephrase''), (HistoryView, ''History''),
     (SettingsView, ''Settings'')]"

text \<open>The options of the settings panel's History Size select.\<close>

definition history_size_options :: "int list" where
  "history_size_options = [25, 50, 100, 200]"

text \<open>The settings panel's status line: \<open>{enabledCount} provider{enabledCount > 1 ?
  's' : ''} configured\<close>, or the prompt to add a key.\<close>

definition settings_status :: "settings \<Rightarrow> string" where
  "settings_status s =
     (let n = enabledCount s in
      if n > 0 then string_of_nat n @ '' provider'' @ (if n > 1 then ''s'' else []) @ '' configured''
      else ''Add at least one API key to get started'')"

subsection \<open>Copy buttons\<close>

text \<open>
  The clipboard and a component's \<open>copied\<close> mark. \<open>navigator.clipboard.writeText\<close>
  may reject (\<open>ok = False\<close>); then the awaiting handler rejects before it sets the
  mark. The timer that clears the mark two seconds later is \<open>copy_timeout\<close>.
\<close>

record copy_marks =
  clipboard :: string
  copied :: bool

text \<open>The output panel's Copy button, \<open>disabled={isGenerating}\<close>.\<close>

definition outputCopy :: "bool \<Rightarrow> world \<Rightarrow> copy_marks \<Rightarrow> copy_marks" where
  "outputCopy ok w cm =
     (if isGenerating (app w) then cm
      else if ok then cm\<lparr>clipboard := currentOutput (app w), copied := True\<rparr> else cm)"

text \<open>The rephrase panel's Copy button, rendered while the output is not empty and
  never disabled.\<close>

definition rephraseCopy :: "bool \<Rightarrow> world \<Rightarrow> copy_marks \<Rightarrow> copy_marks" where
  "rephraseCopy ok w cm =
     (if currentOutput (app w) = [] then cm
      else if ok then cm\<lparr>clipboard := currentOutput (app w), copied := True\<rparr> else cm)"

text \<open>The history list's Copy button of an entry: it writes the entry's output and
  marks that entry as copied.\<close>

definition historyCopy ::
  "bool \<Rightarrow> history_entry \<Rightarrow> copy_marks \<times> string option \<Rightarrow> copy_marks \<times> string option" where
  "historyCopy ok e cs =
     (if ok then ((fst cs)\<lparr>clipboard := h_output e\<rparr>, Some (h_id e)) else cs)"

definition copy_timeout :: "copy_marks \<Rightarrow> copy_marks" where
  "copy_timeout cm = cm\<lparr>copied := False\<rparr>"

subsection \<open>Side panel layout\<close>

text \<open>\<open>sidepanel/App.tsx\<close>: the loads of its mount effect and the tree it renders.\<close>

definition sidepanel_mount_actions :: "page_context option \<Rightarrow> app_action list" where
  "sidepanel_mount_actions reply = [LoadSettings, LoadCards, LoadHistory, LoadPageContext reply]"

definition sidepanel_screen :: "app_state \<Rightarrow> screen" where
  "sidepanel_screen a =
     (if isLoading a then LoadingScreen
      else AppScreen
        ((if activeView a = CardsView \<and> \<not> isEditing a then [CardGridPanel] else []) @
         (if activeView a = CardsView \<and> isEditing a then [CardEditorPanel] else []) @
         (if activeView a = RephraseView then [RephrasePanel] else []) @
         (if activeView a = HistoryView then [HistoryPanel] else []) @
         (if activeView a = SettingsView then [SettingsPanel] else []))
        (if currentOutput a \<noteq> [] \<and> activeView a = CardsView \<and> \<not> isEditing a
         then Some (outputPanel a) else None))"

subsection \<open>Fixtures\<close>

definition summary_context :: page_context where
  "summary_context = \<lparr>selection = ''a few words'', pageTitle = ''Release notes'', pageUrl = [],
     pageContent = ''The whole page.''\<rparr>"

subsection \<open>Lemmas\<close>

text \<open>The variables offered by the editor are the four placeholders the compiler
  substitutes, and the rephrase panel's rule options are the ones it reads.\<close>

lemma option_tables:
  "map fst variable_options = [''selection'', ''pageTitle'', ''pageUrl'', ''pageContent'']"
  "rephrase_rules (map fst rule_options) =
     [''Do not include any greetings'', ''Do not include any explanations'', ''Output only the rephrased text'']"
  "set (map fst header_tabs) = UNIV" "distinct (map fst header_tabs)"
  "set (map fst rephrase_tones) = UNIV" "set editor_tones = UNIV"
proof -
  have v: "(UNIV :: view set) = {CardsView, RephraseView, HistoryView, SettingsView}"
    using view.exhaust by auto
  have t: "(UNIV :: tone set) = {Professional, Casual, Neutral, Strict}"
    using tone.exhaust by auto
  show "map fst variable_options = [''selection'', ''pageTitle'', ''pageUrl'', ''pageContent'']"
    by (simp add: variable_options_def)
  show "rephrase_rules (map fst rule_options) =
     [''Do not include any greetings'', ''Do not include any explanations'', ''Output only the rephrased text'']"
    by (simp add: rephrase_rules_def rule_options_def)
  show "set (map fst header_tabs) = UNIV" "distinct (map fst header_tabs)"
    by (simp_all add: header_tabs_def v)
  show "set (map fst rephrase_tones) = UNIV" "set editor_tones = UNIV"
    by (simp_all add: rephrase_tones_def editor_tones_def t)
qed

text \<open>C24. Finding: the card's \<open>variables\<close>, which the editor lets the user choose, are
  never read: the engine's result does not depend on them, and it appends the selection
  whenever there is one. The "Summarize Page" card, declared over the page content and
  title, summarizes the selection instead when text is selected.\<close>

theorem card_variables_ignored:
  assumes "selection ctx \<noteq> []"
  shows "executeCard rt s (c\<lparr>variables := vs\<rparr>) input ctx = executeCard rt s c input ctx \<and>
    variables (defaultPromptCards now ! 4) = [''pageContent'', ''pageTitle''] \<and>
    content (buildMessages (defaultPromptCards now ! 4) [] ctx ! 1) =
      ''Summarize the main points of this page:\<newline>\<newline>'' @ selection ctx"
  using assms
  by (simp add: executeCard_def buildMessages_def card_model_def Let_def defaultPromptCards_def
      default_card_def interpolateVariables_def replace_lemmas js_or_def)

text \<open>The side panel renders the same tree as the popup, and starts the same loads on
  mount: every lemma about the popup's screen holds for the side panel.\<close>

theorem sidepanel_is_popup:
  "sidepanel_screen = app_screen \<and> sidepanel_mount_actions = mount_actions"
  by (simp add: fun_eq_iff sidepanel_screen_def app_screen_def main_panels_def
      sidepanel_mount_actions_def mount_actions_def)

text \<open>C21. Every history size the settings panel offers is positive; after choosing one
  the stored cap is that size, and the history recorded next respects it, however long the
  stored history was.\<close>

theorem history_size_choice_capped:
  assumes "n \<in> set history_size_options"
  shows "historySize (getSettings (st (setHistorySize n w))) = n \<and>
    history_capped (st (app_addHistoryEntry e (setHistorySize n w)))"
proof -
  have n: "0 < n" using assms by (auto simp: history_size_options_def)
  have h: "historySize (getSettings (st (setHistorySize n w))) = n"
    by (simp add: setHistorySize_def updateSettings_def Let_def merge_settings_def no_patch_def
        saveSettings_def getSettings_def)
  show ?thesis
    using n h
    by (simp add: app_addHistoryEntry_def loadHistory_def history_capped_def
        getHistory_addHistoryEntry_raw Let_def js_slice0_def)
qed

text \<open>While a run streams, the output panel's Copy button does nothing, but the rephrase
  panel's copies the partial output.\<close>

lemma copy_while_generating:
  "isGenerating (app w) \<Longrightarrow> currentOutput (app w) \<noteq> [] \<Longrightarrow>
   outputCopy True w cm = cm \<and> clipboard (rephraseCopy True w cm) = currentOutput (app w)"
  by (simp add: outputCopy_def rephraseCopy_def)

lemma settings_status_keyed: "settings_status keyed_settings = ''1 provider configured''"
  by (simp add: settings_status_def enabledCount_def keyed_settings_def default_settings_simps
      set_provider_key_def string_of_nat.simps digit_char_simps)

subsection \<open>Witnesses\<close>

theorem card_variables_ignored_witness:
  "selection summary_context \<noteq> [] \<and>
   content (buildMessages (defaultPromptCards 0 ! 4) [] summary_context ! 1) =
     ''Summarize the main points of this page:\<newline>\<newline>a few words''"
proof -
  have h: "selection summary_context \<noteq> []" by (simp add: summary_context_def)
  show ?thesis
    using h card_variables_ignored [OF h, where now = 0]
    by (simp add: summary_context_def)
qed

theorem history_size_choice_capped_witness:
  "25 \<in> set history_size_options \<and>
   history_capped (st (app_addHistoryEntry demo_entry (setHistorySize 25 fresh_world)))"
proof -
  have h: "25 \<in> set history_size_options" by (simp add: history_size_options_def)
  show ?thesis using h history_size_choice_capped [OF h] by blast
qed

end
