(* ===== verification/CardGrid.thy ===== *)
theory CardGrid
  imports Panels
begin

text \<open>
  The card list of \<open>components/CardGrid.tsx\<close> as it is rendered and as mouse clicks
  reach it. \<open>CardGrid\<close> renders one \<open>PromptCardItem\<close> per card, or the empty
  message; each item shows the card's title, description and badges, a Run button disabled
  while a run streams, and a menu button whose menu is rendered only while the grid's
  \<open>activeMenu\<close> is that card. Each item's effect adds a \<open>mousedown\<close> listener to
  the document that sets \<open>activeMenu\<close> to \<open>null\<close> when the press is outside that
  item's menu container (the menu button and the menu).

  A click is a \<open>mousedown\<close>, which every item's listener sees in the order the items
  were mounted, then a \<open>click\<close> on the same element. The state the listeners set is
  rendered in between (React renders a discrete event's update before the next input
  event), and a \<open>click\<close> on an element that rendering removed reaches no handler.
\<close>

subsection \<open>Rendering\<close>

record grid_card =
  item_id :: string
  item_title :: string
  item_description :: string
  item_menu_open :: bool
  item_run_disabled :: bool
  item_tone :: tone
  item_words_badge :: "int option"
  item_model_badge :: "model_id option"

text \<open>One \<open>PromptCardItem\<close>: \<open>isActive={activeMenu === card.id}\<close>,
  \<open>disabled={isGenerating}\<close>, the word badge when \<open>maxWords > 0\<close>, the model badge
  when \<open>card.modelOverride\<close> is truthy.\<close>

definition grid_item :: "string option \<Rightarrow> bool \<Rightarrow> prompt_card \<Rightarrow> grid_card" where
  "grid_item active generating c =
     \<lparr>item_id = card_id c, item_title = title c, item_description = description c,
      item_menu_open = (active = Some (card_id c)), item_run_disabled = generating,
      item_tone = tone (template c),
      item_words_badge = (if maxWords (template c) > 0 then Some (maxWords (template c)) else None),
      item_model_badge = (case modelOverride c of None \<Rightarrow> None | Some m \<Rightarrow> if m = [] then None else Some m)\<rparr>"

datatype grid_view = EmptyGrid | CardList "grid_card list"

definition card_grid :: "app_state \<Rightarrow> string option \<Rightarrow> grid_view" where
  "card_grid a active =
     (if cards a = [] then EmptyGrid else CardList (map (grid_item active (isGenerating a)) (cards a)))"

subsection \<open>Mouse events\<close>

datatype menu_entry = EditEntry | DuplicateEntry | DeleteEntry

text \<open>Where a press lands: a card's Run button, its menu button, an entry of its menu, or
  anywhere else on the page.\<close>

datatype grid_target = RunButton string | MenuButton string | MenuEntry string menu_entry | Outside

text \<open>\<open>menuRef.current.contains(event.target)\<close>: the container of card \<open>i\<close>'s menu
  holds its menu button and its menu.\<close>

fun in_menu :: "string \<Rightarrow> grid_target \<Rightarrow> bool" where
  "in_menu i (MenuButton j) = (j = i)"
| "in_menu i (MenuEntry j e) = (j = i)"
| "in_menu i _ = False"

text \<open>\<open>handleClickOutside\<close> of the item of card \<open>i\<close>.\<close>

definition handleClickOutside :: "string \<Rightarrow> grid_target \<Rightarrow> string option \<Rightarrow> string option" where
  "handleClickOutside i t active = (if in_menu i t then active else None)"

text \<open>The \<open>mousedown\<close> reaching every item's listener, in the order of the items.\<close>

definition mouseDown :: "prompt_card list \<Rightarrow> grid_target \<Rightarrow> string option \<Rightarrow> string option" where
  "mouseDown cs t active = foldl (\<lambda>a c. handleClickOutside (card_id c) t a) active cs"

text \<open>Whether the element is in the rendered grid: the menu entries only while their
  menu is open.\<close>

definition target_rendered :: "prompt_card list \<Rightarrow> string option \<Rightarrow> grid_target \<Rightarrow> bool" where
  "target_rendered cs active t = (case t of
      RunButton i \<Rightarrow> i \<in> set (map card_id cs)
    | MenuButton i \<Rightarrow> i \<in> set (map card_id cs)
    | MenuEntry i e \<Rightarrow> active = Some i \<and> i \<in> set (map card_id cs)
    | Outside \<Rightarrow> True)"

definition menu_action ::
  "int \<Rightarrow> prompt_card \<Rightarrow> menu_entry \<Rightarrow> world \<times> string option \<Rightarrow> world \<times> string option" where
  "menu_action now c e wm = (case e of
      EditEntry \<Rightarrow> menuEdit c wm
    | DuplicateEntry \<Rightarrow> menuDuplicate now c wm
    | DeleteEntry \<Rightarrow> menuDelete c wm)"

text \<open>The \<open>click\<close> event: the \<open>onClick\<close> of the element, if it is still rendered.\<close>

definition gridClick ::
  "int \<Rightarrow> runtime \<Rightarrow> grid_target \<Rightarrow> world \<times> string option \<Rightarrow> world \<times> string option" where
  "gridClick now rt t wm =
     (let cs = cards (app (fst wm)) in
      if \<not> target_rendered cs (snd wm) t then wm
      else case t of
        RunButton i \<Rightarrow>
          (case find (\<lambda>c. card_id c = i) cs of None \<Rightarrow> wm | Some c \<Rightarrow> (clickRun now rt c (fst wm), snd wm))
      | MenuButton i \<Rightarrow> (fst wm, toggleMenu i (snd wm))
      | MenuEntry i e \<Rightarrow>
          (case find (\<lambda>c. card_id c = i) cs of None \<Rightarrow> wm | Some c \<Rightarrow> menu_action now c e wm)
      | Outside \<Rightarrow> wm)"

text \<open>A click of the user: the \<open>mousedown\<close>, its rendering, then the \<open>click\<close>.\<close>

definition user_click ::
  "int \<Rightarrow> runtime \<Rightarrow> grid_target \<Rightarrow> world \<times> string option \<Rightarrow> world \<times> string option" where
  "user_click now rt t wm = gridClick now rt t (fst wm, mouseDown (cards (app (fst wm))) t (snd wm))"

subsection \<open>Fixtures\<close>

definition one_card_world :: world where
  "one_card_world = set_app (\<lambda>a. a\<lparr>cards := [defaultPromptCards 0 ! 0]\<rparr>) fresh_world"

definition two_card_world :: world where
  "two_card_world = set_app (\<lambda>a. a\<lparr>cards := take 2 (defaultPromptCards 0)\<rparr>) fresh_world"

subsection \<open>Lemmas\<close>

lemma handleClickOutside_None [simp]: "handleClickOutside i t None = None"
  by (simp add: handleClickOutside_def)

lemma mouseDown_closes:
  "c \<in> set cs \<Longrightarrow> \<not> in_menu (card_id c) t \<Longrightarrow> mouseDown cs t a = None"
proof (induction cs arbitrary: a)
  case (Cons c0 cs)
  have none: "foldl (\<lambda>a c. handleClickOutside (card_id c) t a) None cs' = None" for cs'
    by (induction cs') simp_all
  show ?case
  proof (cases "c = c0")
    case True
    with Cons.prems none show ?thesis by (simp add: mouseDown_def handleClickOutside_def)
  next
    case False
    with Cons show ?thesis by (simp add: mouseDown_def)
  qed
qed simp

lemma mouseDown_inside:
  "\<forall>c\<in>set cs. in_menu (card_id c) t \<Longrightarrow> mouseDown cs t a = a"
  by (induction cs arbitrary: a) (simp_all add: mouseDown_def handleClickOutside_def)

text \<open>C27. Finding: with two or more cards the card menu's entries cannot be used. Pressing
  an entry of the open menu of a card is, for every other card's listener, a press outside
  its menu: the menu is closed and removed before the \<open>click\<close>, which then reaches no
  handler, so Edit, Duplicate and Delete do nothing. Pressing the menu button of the open
  menu closes it in the same way and the \<open>click\<close> opens it again.\<close>

theorem menu_entries_dead:
  assumes "c \<in> set (cards (app w))" "c' \<in> set (cards (app w))" "card_id c' \<noteq> card_id c"
  shows "user_click now rt (MenuEntry (card_id c) e) (w, Some (card_id c)) = (w, None) \<and>
    user_click now rt (MenuButton (card_id c)) (w, Some (card_id c)) = (w, Some (card_id c))"
proof -
  have "mouseDown (cards (app w)) t (Some (card_id c)) = None" if "in_menu (card_id c) t" for t
    using mouseDown_closes [OF assms(2)] assms(3) that by (cases t) simp_all
  then show ?thesis
    using assms(1) by (simp add: user_click_def gridClick_def target_rendered_def toggleMenu_def)
qed

text \<open>With a single card the menu works as written: its button opens and closes it, and
  its entries run their actions; a press elsewhere closes it.\<close>

lemma single_card_menu:
  assumes "cards (app w) = [c]"
  shows "user_click now rt (MenuButton (card_id c)) (w, None) = (w, Some (card_id c))"
    "user_click now rt (MenuButton (card_id c)) (w, Some (card_id c)) = (w, None)"
    "user_click now rt (MenuEntry (card_id c) e) (w, Some (card_id c)) =
       menu_action now c e (w, Some (card_id c))"
    "user_click now rt Outside (w, a) = (w, None)"
  using assms by (simp_all add: user_click_def gridClick_def target_rendered_def toggleMenu_def
      mouseDown_def handleClickOutside_def)

lemma card_grid_items:
  assumes "cards a \<noteq> []" "card_grid a active = CardList items"
  shows "map item_id items = map card_id (cards a) \<and>
    (\<forall>it\<in>set items. item_run_disabled it = isGenerating a) \<and>
    (\<forall>it\<in>set items. item_menu_open it \<longleftrightarrow> active = Some (item_id it))"
proof -
  have "items = map (grid_item active (isGenerating a)) (cards a)"
    using assms by (simp add: card_grid_def)
  then show ?thesis by (simp add: grid_item_def comp_def)
qed

subsection \<open>Witnesses\<close>

theorem menu_entries_dead_witness:
  "user_click 1 demo_rt (MenuEntry ''rephrase-professional'' DeleteEntry) (two_card_world, Some ''rephrase-professional'') =
     (two_card_world, None)"
proof -
  have c: "defaultPromptCards 0 ! 0 \<in> set (cards (app two_card_world))"
    "defaultPromptCards 0 ! 1 \<in> set (cards (app two_card_world))"
    by (simp_all add: two_card_world_def defaultPromptCards_def)
  have d: "card_id (defaultPromptCards 0 ! 1) \<noteq> card_id (defaultPromptCards 0 ! 0)"
    "card_id (defaultPromptCards 0 ! 0) = ''rephrase-professional''"
    by (simp_all add: defaultPromptCards_def default_card_def)
  show ?thesis using menu_entries_dead [OF c d(1), where now = 1 and rt = demo_rt and e = DeleteEntry] d(2)
    by simp
qed

theorem card_grid_items_witness:
  "card_grid (app one_card_world) None = CardList [grid_item None False (defaultPromptCards 0 ! 0)] \<and>
   map item_id [grid_item None False (defaultPromptCards 0 ! 0)] = [card_id (defaultPromptCards 0 ! 0)]"
proof -
  have h: "cards (app one_card_world) \<noteq> []"
    "card_grid (app one_card_world) None = CardList [grid_item None False (defaultPromptCards 0 ! 0)]"
    by (simp_all add: one_card_world_def card_grid_def fresh_world_def initial_app_def)
  show ?thesis using h card_grid_items [OF h] by (simp add: one_card_world_def)
qed

end
