(* ===== verification/Views.thy ===== *)
theory Views
  imports CardGrid
begin

text \<open>
  What the history list, the rephrase panel, the header and the model selector render for
  a state, and the clicks they handle beyond those of \<open>Editors\<close> and
  \<open>Interactions\<close>. A view is a record of the texts and flags the markup shows: the
  labels, which button is highlighted or disabled, which parts are rendered. Styling is
  not modelled. \<open>{x}\<close> of \<open>undefined\<close> renders nothing.
\<close>

subsection \<open>History list\<close>

text \<open>\<open>AIProvider\<close> as the text \<open>{entry.provider}\<close> prints.\<close>

definition provider_text :: "provider \<Rightarrow> string" where
  "provider_text p = (case p of
      OpenAI \<Rightarrow> ''openai'' | Gemini \<Rightarrow> ''gemini'' | Groq \<Rightarrow> ''groq'' | DeepSeek \<Rightarrow> ''deepseek'')"

record history_detail =
  hd_input :: string
  hd_output :: string
  hd_model :: string
  hd_provider :: string
  hd_tokens :: "int option"

record history_row =
  hr_card_name :: string
  hr_time :: time_label
  hr_preview :: string
  hr_copied :: bool
  hr_expanded :: bool
  hr_detail :: "history_detail option"

definition history_row ::
  "int \<Rightarrow> prompt_card list \<Rightarrow> string option \<Rightarrow> string option \<Rightarrow> history_entry \<Rightarrow> history_row" where
  "history_row now cs expanded copiedId e =
     \<lparr>hr_card_name = getCardName cs (cardId e), hr_time = formatTime now (timestamp e),
      hr_preview = history_preview e, hr_copied = (copiedId = Some (h_id e)),
      hr_expanded = (expanded = Some (h_id e)),
      hr_detail = (if expanded = Some (h_id e)
        then Some \<lparr>hd_input = history_input_text e, hd_output = h_output e,
          hd_model = (case h_model e of None \<Rightarrow> [] | Some m \<Rightarrow> m),
          hd_provider = provider_text (h_provider e), hd_tokens = tokens_total e\<rparr>
        else None)\<rparr>"

datatype history_view = NoHistory | HistoryList string "history_row list"

definition history_view :: "int \<Rightarrow> app_state \<Rightarrow> string option \<Rightarrow> string option \<Rightarrow> history_view" where
  "history_view now a expanded copiedId =
     (if history a = [] then NoHistory
      else HistoryList (string_of_nat (length (history a)) @ '' entries'')
        (map (history_row now (cards a) expanded copiedId) (history a)))"

text \<open>The clicks of the list: an entry's body toggles it; its copy button stops the
  event's propagation, so it copies without toggling; Clear All empties the history.\<close>

datatype history_click = EntryBody history_entry | EntryCopy history_entry | ClearAllButton

definition history_panel_click ::
  "bool \<Rightarrow> history_click \<Rightarrow> world \<times> string option \<times> copy_marks \<times> string option \<Rightarrow>
   world \<times> string option \<times> copy_marks \<times> string option" where
  "history_panel_click ok ev s = (case s of (w, expanded, cs) \<Rightarrow>
     (case ev of
        EntryBody e \<Rightarrow> (w, toggleExpanded (h_id e) expanded, cs)
      | EntryCopy e \<Rightarrow> (w, expanded, historyCopy ok e cs)
      | ClearAllButton \<Rightarrow> (app_clearAllHistory w, expanded, cs)))"

subsection \<open>Rephrase panel\<close>

record rephrase_view =
  rv_input :: string
  rv_tones :: "(string \<times> bool) list"
  rv_maxWords_label :: string
  rv_rules :: "(string \<times> bool) list"
  rv_output :: "(string \<times> bool) option"
  rv_send_disabled :: bool
  rv_send_label :: string

text \<open>\<open>Max Words: {maxWords === 0 ? 'Unlimited' : maxWords}\<close>, in both the rephrase
  panel and the card editor.\<close>

definition max_words_label :: "int \<Rightarrow> string" where
  "max_words_label n = ''Max Words: '' @ (if n = 0 then ''Unlimited'' else string_of_int n)"

definition rephrase_view :: "app_state \<Rightarrow> rephrase_form \<Rightarrow> bool \<Rightarrow> rephrase_view" where
  "rephrase_view a f isCopied =
     \<lparr>rv_input = r_input f,
      rv_tones = map (\<lambda>(t, l). (l, r_tone f = t)) rephrase_tones,
      rv_maxWords_label = max_words_label (r_maxWords f),
      rv_rules = map (\<lambda>(i, l). (l, i \<in> set (r_activeRules f))) rule_options,
      rv_output = (if currentOutput a \<noteq> [] then Some (currentOutput a, isCopied) else None),
      rv_send_disabled = \<not> send_enabled f a,
      rv_send_label = (if isGenerating a then ''Generating...'' else ''Rephrase'')\<rparr>"

text \<open>The values an \<open><input type="range">\<close> takes: \<open>min\<close> and the steps above it up
  to \<open>max\<close>; the rephrase slider is 0 to 200 by 10, the editor's 0 to 500 by 10.\<close>

definition range_values :: "int \<Rightarrow> int \<Rightarrow> int \<Rightarrow> int list" where
  "range_values lo hi step = map (\<lambda>k. lo + int k * step) [0..<nat ((hi - lo) div step) + 1]"

definition rephrase_slider :: "int list" where
  "rephrase_slider = range_values 0 200 10"

subsection \<open>Header\<close>

record header_view =
  hv_title :: string
  hv_tabs :: "(string \<times> bool) list"

definition header_view :: "app_state \<Rightarrow> header_view" where
  "header_view a = \<lparr>hv_title = ''AI Sidebar'', hv_tabs = map (\<lambda>(v, l). (l, activeView a = v)) header_tabs\<rparr>"

text \<open>The refresh button: \<open>onClick={loadPageContext}\<close>.\<close>

definition clickRefresh :: "page_context option \<Rightarrow> world \<Rightarrow> world" where
  "clickRefresh reply w = loadPageContext reply w"

subsection \<open>Model selector\<close>

datatype selector_menu = NoKeysMessage | ProviderGroups "(string \<times> (string option \<times> bool) list) list"

record selector_view =
  sel_label :: "string option"
  sel_open :: bool
  sel_menu :: "selector_menu option"

definition selector_view :: "settings \<Rightarrow> bool \<Rightarrow> selector_view" where
  "selector_view s isOpen =
     \<lparr>sel_label = model_label (defaultModel s), sel_open = isOpen,
      sel_menu = (if \<not> isOpen then None
        else if enabledProviders s = [] then Some NoKeysMessage
        else Some (ProviderGroups (map (\<lambda>(p, c). (pc_name c,
          map (\<lambda>m. (model_label m, defaultModel s = m)) (models c))) (enabledProviders s))))\<rparr>"

text \<open>The selector's button toggles the menu; its own click-outside listener closes it on
  a press outside the selector.\<close>

definition selector_click :: "bool \<Rightarrow> bool" where
  "selector_click isOpen = (\<not> isOpen)"

definition selector_outside :: "bool \<Rightarrow> bool \<Rightarrow> bool" where
  "selector_outside inside isOpen = (if inside then isOpen else False)"

subsection \<open>Fixtures\<close>

definition one_entry_world :: world where
  "one_entry_world = set_app (\<lambda>a. a\<lparr>history := [demo_entry]\<rparr>) fresh_world"

subsection \<open>Lemmas\<close>

text \<open>Exactly one tab of the header is highlighted, the one of the active view.\<close>

lemma header_one_tab:
  "filter snd (hv_tabs (header_view a)) = [(the (map_of (map (\<lambda>(v, l). (v, l)) header_tabs) (activeView a)), True)]"
  by (cases "activeView a") (simp_all add: header_view_def header_tabs_def)

text \<open>While a run streams the rephrase panel's Send button is disabled and reads
  \<open>Generating...\<close>; otherwise it reads \<open>Rephrase\<close> and is enabled exactly for a
  non-blank input.\<close>

lemma rephrase_send_button:
  "rv_send_label (rephrase_view a f c) = (if isGenerating a then ''Generating...'' else ''Rephrase'') \<and>
   rv_send_disabled (rephrase_view a f c) = (isGenerating a \<or> trim_empty (r_input f))"
  by (auto simp: rephrase_view_def send_enabled_def)

text \<open>Each rule option shows a checked box exactly for an active rule, and the checked
  rules are the ones the run sends.\<close>

lemma rephrase_rules_checked:
  "map snd (rv_rules (rephrase_view a f c)) =
     map (\<lambda>i. i \<in> set (r_activeRules f)) [''noGreetings'', ''noExplanation'', ''outputOnly'']"
  by (simp add: rephrase_view_def rule_options_def)

text \<open>Every value of a range input lies between its bounds on the grid of its step.\<close>

lemma range_values_bounds:
  assumes "0 < step" "lo \<le> hi" "v \<in> set (range_values lo hi step)"
  shows "lo \<le> v \<and> v \<le> hi \<and> (v - lo) mod step = 0"
proof -
  have "v \<in> (\<lambda>k. lo + int k * step) ` set [0..<nat ((hi - lo) div step) + 1]"
    using assms(3) unfolding range_values_def by (simp only: set_map)
  then obtain k where k: "k < nat ((hi - lo) div step) + 1" "v = lo + int k * step"
    by (auto simp del: upt_Suc)
  have d: "0 \<le> (hi - lo) div step" using zdiv_mono1 [of 0 "hi - lo" step] assms(1,2) by simp
  have "int k \<le> (hi - lo) div step" using k(1) d by (simp add: le_nat_iff less_Suc_eq_le)
  then have "int k * step \<le> (hi - lo) div step * step" using assms(1) by (simp add: mult_right_mono)
  also have "\<dots> \<le> hi - lo" using assms(1) by (simp add: minus_mod_eq_div_mult [symmetric])
  finally show ?thesis using k(2) assms(1) by simp
qed

lemma rephrase_slider_values:
  "rephrase_slider = [0, 10, 20, 30, 40, 50, 60, 70, 80, 90, 100, 110, 120, 130, 140, 150, 160, 170,
     180, 190, 200]"
  by (simp add: rephrase_slider_def range_values_def upt_rec)

text \<open>Clear All empties the stored and the displayed history, and the list shows its
  empty message; the copy button of an entry copies its output without toggling it.\<close>

lemma history_clear_all:
  "history_view now (app (fst (history_panel_click ok ClearAllButton (w, x)))) ex cid = NoHistory \<and>
   getHistory (st (fst (history_panel_click ok ClearAllButton (w, x)))) = []"
  by (simp add: history_panel_click_def app_clearAllHistory_def loadHistory_def history_view_def
      clearAllHistory_def getHistory_def split: prod.split)

lemma history_copy_no_toggle:
  "history_panel_click True (EntryCopy e) (w, ex, cs) =
     (w, ex, ((fst cs)\<lparr>clipboard := h_output e\<rparr>, Some (h_id e)))"
  by (simp add: history_panel_click_def historyCopy_def)

lemma selector_closed_outside: "selector_outside False b = False" "selector_outside True b = b"
  by (simp_all add: selector_outside_def)

end
