(* ===== verification/Forms.thy ===== *)
theory Forms
  imports Views
begin

text \<open>
  What the settings panel and the card editor render for their state, and the editor's
  field handlers: the key rows of \<open>components/SettingsPanel.tsx\<close> with their masks,
  Save buttons and Active marks, the general settings and the shortcut list, and the form
  of \<open>components/CardEditor.tsx\<close> with its Back button, its controls and their
  \<open>onChange\<close> handlers. A render that throws (a provider missing from
  \<open>settings.providers\<close>) is \<open>None\<close>. The lemmas include that the stored UI mode
  is read by nothing but the settings panel's own buttons, and that the toolbar button,
  whose behaviour the service worker fixes at start-up, opens the popup.
\<close>

subsection \<open>Settings panel\<close>

text \<open>\<open>PROVIDER_INFO\<close>: the name, the key placeholder and the help link of each
  provider.\<close>

definition provider_info :: "provider \<Rightarrow> string \<times> string \<times> string" where
  "provider_info p = (case p of
      OpenAI \<Rightarrow> (''OpenAI'', ''sk-...'', ''https://platform.openai.com/api-keys'')
    | Gemini \<Rightarrow> (''Google Gemini'', ''AIza...'', ''https://aistudio.google.com/app/apikey'')
    | Groq \<Rightarrow> (''Groq'', ''gsk_...'', ''https://console.groq.com/keys'')
    | DeepSeek \<Rightarrow> (''DeepSeek'', ''sk-...'', ''https://platform.deepseek.com/api_keys''))"

record key_row =
  kr_name :: string
  kr_help :: string
  kr_placeholder :: string
  kr_masked :: bool
  kr_value :: string
  kr_save_disabled :: bool
  kr_saved_mark :: bool
  kr_active :: bool

text \<open>One provider's row; \<open>settings.providers[provider].apiKey\<close> of a missing entry
  throws.\<close>

definition key_row :: "settings \<Rightarrow> key_form \<Rightarrow> provider \<Rightarrow> key_row option" where
  "key_row s f p = (case provider_lookup s p of
      None \<Rightarrow> None
    | Some c \<Rightarrow> Some
        \<lparr>kr_name = fst (provider_info p), kr_help = snd (snd (provider_info p)),
         kr_placeholder = fst (snd (provider_info p)), kr_masked = \<not> showKeys f p,
         kr_value = tempKeys f p, kr_save_disabled = (tempKeys f p = apiKey c),
         kr_saved_mark = (saved f = Some p), kr_active = enabled c\<rparr>)"

definition settings_shortcuts :: "(string \<times> string) list" where
  "settings_shortcuts = [(''Toggle Sidebar'', ''Ctrl+Shift+Y''), (''Copy Last Output'', ''Ctrl+Shift+C''),
     (''Send Prompt'', ''Enter''), (''New Line'', ''Shift+Enter'')]"

record settings_view =
  sv_status :: string
  sv_keys :: "key_row list"
  sv_history_size :: int
  sv_popup_selected :: bool
  sv_sidepanel_selected :: bool
  sv_shortcuts :: "(string \<times> string) list"

definition settings_view :: "settings \<Rightarrow> key_form \<Rightarrow> settings_view option" where
  "settings_view s f =
     (case those (map (key_row s f) provider_info_keys) of
        None \<Rightarrow> None
      | Some rows \<Rightarrow> Some
          \<lparr>sv_status = settings_status s, sv_keys = rows, sv_history_size = historySize s,
           sv_popup_selected = (uiMode s = Popup), sv_sidepanel_selected = (uiMode s = Sidepanel),
           sv_shortcuts = settings_shortcuts\<rparr>)"

text \<open>What the toolbar button opens: the service worker sets
  \<open>openPanelOnActionClick: false\<close> once at start-up, so the button opens the popup
  declared in the manifest.\<close>

datatype action_target = ActionPopup | ActionSidePanel

definition openPanelOnActionClick :: bool where
  "openPanelOnActionClick = False"

definition action_click :: action_target where
  "action_click = (if openPanelOnActionClick then ActionSidePanel else ActionPopup)"

subsection \<open>Card editor\<close>

record editor_view =
  ev_save_disabled :: bool
  ev_title :: string
  ev_description :: string
  ev_system :: string
  ev_instruction :: string
  ev_tones :: "(string \<times> bool) list"
  ev_maxWords_label :: string
  ev_model_value :: string
  ev_model_options :: "(string \<times> string) list"
  ev_variables :: "(string \<times> bool) list"
  ev_newRule :: string
  ev_rules :: "string list option"

definition editor_view :: "editor_form \<Rightarrow> editor_view" where
  "editor_view f =
     \<lparr>ev_save_disabled = \<not> save_enabled f, ev_title = e_title f, ev_description = e_description f,
      ev_system = e_system f, ev_instruction = e_instruction f,
      ev_tones = map (\<lambda>t. (tone_name t, e_tone f = t)) editor_tones,
      ev_maxWords_label = max_words_label (e_maxWords f),
      ev_model_value = e_modelOverride f,
      ev_model_options = ([], ''Use default model'') # editor_models,
      ev_variables = map (\<lambda>(v, l). (l, v \<in> set (e_variables f))) variable_options,
      ev_newRule = e_newRule f,
      ev_rules = (if e_rules f = [] then None else Some (e_rules f))\<rparr>"

text \<open>The controls' \<open>onChange\<close> handlers, each setting one field of the form.\<close>

datatype editor_edit = SetTitle string | SetDescription string | SetSystem string
  | SetInstruction string | SetTone tone | SetMaxWords int | SetModelOverride string
  | SetNewRule string

fun editField :: "editor_edit \<Rightarrow> editor_form \<Rightarrow> editor_form" where
  "editField (SetTitle v) f = f\<lparr>e_title := v\<rparr>"
| "editField (SetDescription v) f = f\<lparr>e_description := v\<rparr>"
| "editField (SetSystem v) f = f\<lparr>e_system := v\<rparr>"
| "editField (SetInstruction v) f = f\<lparr>e_instruction := v\<rparr>"
| "editField (SetTone t) f = f\<lparr>e_tone := t\<rparr>"
| "editField (SetMaxWords n) f = f\<lparr>e_maxWords := n\<rparr>"
| "editField (SetModelOverride m) f = f\<lparr>e_modelOverride := m\<rparr>"
| "editField (SetNewRule v) f = f\<lparr>e_newRule := v\<rparr>"

text \<open>\<open>onKeyDown={(e) => e.key === 'Enter' && addRule()}\<close> of the rule input.\<close>

definition ruleKeyDown :: "string \<Rightarrow> editor_form \<Rightarrow> editor_form" where
  "ruleKeyDown key f = (if key = ''Enter'' then addRule f else f)"

text \<open>The Back button: \<open>setIsEditing(false)\<close>.\<close>

definition clickBack :: "world \<Rightarrow> world" where
  "clickBack w = setIsEditing False w"

definition editor_slider :: "int list" where
  "editor_slider = range_values 0 500 10"

subsection \<open>Lemmas\<close>

lemma those_Some: "those xs = Some ys \<Longrightarrow> ys = map the xs \<and> None \<notin> set xs"
  by (induction xs arbitrary: ys) (auto split: option.splits)

lemma those_map_Some: "(\<forall>x\<in>set xs. f x \<noteq> None) \<Longrightarrow> those (map f xs) = Some (map (the \<circ> f) xs)"
  by (induction xs) auto

lemma card_fallback_providers:
  "providers s' = providers s \<Longrightarrow> card_fallback s' ps = card_fallback s ps"
  by (induction ps) (auto simp: provider_lookup_def split: option.split)

text \<open>C28. Finding: the UI mode the settings panel offers is stored, and read by nothing
  else: the engine's runs, the page's layout and the key rows of the settings panel are the
  same whatever the mode, so choosing "Side Panel" only moves the highlight between the two
  buttons.\<close>

theorem uiMode_unread:
  "uiMode (getSettings (st (setUiMode u w))) = u \<and>
   executeCard rt (s\<lparr>uiMode := u\<rparr>) c input ctx = executeCard rt s c input ctx \<and>
   executeRephrase rt (s\<lparr>uiMode := u\<rparr>) text t mw rs = executeRephrase rt s text t mw rs \<and>
   app_screen (app (setUiMode u w)) = app_screen (app w) \<and>
   map_option sv_keys (settings_view (s\<lparr>uiMode := u\<rparr>) f) = map_option sv_keys (settings_view s f) \<and>
   map_option sv_status (settings_view (s\<lparr>uiMode := u\<rparr>) f) = map_option sv_status (settings_view s f)"
proof -
  have kr: "key_row (s\<lparr>uiMode := u\<rparr>) f = key_row s f"
    by (simp add: fun_eq_iff key_row_def provider_lookup_def)
  have fb: "card_fallback (s\<lparr>uiMode := u\<rparr>) ps = card_fallback s ps" for ps
    by (rule card_fallback_providers) simp
  show ?thesis
    using kr fb
    by (simp add: setUiMode_def updateSettings_def Let_def merge_settings_def no_patch_def
        saveSettings_def getSettings_def executeCard_def executeRephrase_def card_model_def
        provider_lookup_def rephrase_fallback_def app_screen_def main_panels_def outputPanel_def
        settings_view_def settings_status_def enabledCount_def split: option.split)
qed

text \<open>Whatever mode is stored, the toolbar button opens the popup.\<close>

lemma action_click_popup: "action_click = ActionPopup"
  by (simp add: action_click_def openPanelOnActionClick_def)

text \<open>After a key is saved the settings panel shows, in that provider's row, the saved
  mark, a disabled Save button and the Active mark exactly when the key is non-empty.\<close>

lemma settings_view_after_save:
  assumes "provider_lookup (getSettings (st w)) p = Some c"
    and "handleSaveKey p f w = Inr (f', w')"
    and "settings_view (a_settings (app w')) f' = Some v"
  shows "\<exists>r\<in>set (sv_keys v). kr_name r = fst (provider_info p) \<and> kr_saved_mark r \<and>
    kr_save_disabled r \<and> kr_active r = (tempKeys f p \<noteq> [])"
proof -
  obtain w2 where w2: "handleSaveKey p f w = Inr (f\<lparr>saved := Some p\<rparr>, w2)"
    "provider_lookup (a_settings (app w2)) p =
       Some (c\<lparr>apiKey := tempKeys f p, enabled := tempKeys f p \<noteq> []\<rparr>)"
    using handleSaveKey_saves [OF assms(1), of f] by blast
  then have f': "f' = f\<lparr>saved := Some p\<rparr>" "w' = w2" using assms(2) by simp_all
  obtain rows where rows: "those (map (key_row (a_settings (app w')) f') provider_info_keys) = Some rows"
    "v = \<lparr>sv_status = settings_status (a_settings (app w')), sv_keys = rows,
      sv_history_size = historySize (a_settings (app w')),
      sv_popup_selected = (uiMode (a_settings (app w')) = Popup),
      sv_sidepanel_selected = (uiMode (a_settings (app w')) = Sidepanel), sv_shortcuts = settings_shortcuts\<rparr>"
    using assms(3) by (auto simp: settings_view_def split: option.splits)
  have p: "p \<in> set provider_info_keys" by (cases p) (simp_all add: provider_info_keys_def)
  let ?r = "the (key_row (a_settings (app w')) f' p)"
  have r: "?r \<in> set rows"
    using those_Some [OF rows(1)] p by auto
  have "kr_name ?r = fst (provider_info p) \<and> kr_saved_mark ?r \<and> kr_save_disabled ?r \<and>
    kr_active ?r = (tempKeys f p \<noteq> [])"
    using w2(2) f' by (simp add: key_row_def)
  with r show ?thesis unfolding rows(2) by auto
qed

text \<open>Enter in the rule input adds the trimmed rule and clears the input, as the plus
  button does; other keys leave the form as it is.\<close>

lemma ruleKeyDown_adds:
  "js_trim r \<noteq> [] \<Longrightarrow> ruleKeyDown ''Enter'' (editField (SetNewRule r) f) =
     f\<lparr>e_rules := e_rules f @ [js_trim r], e_newRule := []\<rparr>"
  "k \<noteq> ''Enter'' \<Longrightarrow> ruleKeyDown k f = f"
  by (simp_all add: ruleKeyDown_def addRule_def)

text \<open>The editor opened on a card shows its fields, highlights its tone, and marks
  exactly the variables it declares among the four offered.\<close>

lemma editor_view_load:
  "ev_title (editor_view (load_card (Some c) f)) = title c \<and>
   ev_instruction (editor_view (load_card (Some c) f)) = instruction (template c) \<and>
   filter snd (ev_tones (editor_view (load_card (Some c) f))) = [(tone_name (tone (template c)), True)] \<and>
   map snd (ev_variables (editor_view (load_card (Some c) f))) =
     map (\<lambda>v. v \<in> set (variables c)) [''selection'', ''pageTitle'', ''pageUrl'', ''pageContent'']"
  by (cases "tone (template c)")
    (simp_all add: editor_view_def load_card_def editor_tones_def variable_options_def)

text \<open>A failed rephrase leaves no trace on the page either: the panel renders no output
  and the page no error, though the store holds the message.\<close>

lemma rephrase_error_hidden:
  assumes "\<not> trim_empty input"
    and "executeRephrase rt (getSettings (st w)) input (tone_name t) mw (rephrase_rules act) = Inr evs"
    and "last evs = OnError e"
  shows "app_error (app (handleRephrase now rt input t mw act w)) = Some (js_error_message e) \<and>
    rv_output (rephrase_view (app (handleRephrase now rt input t mw act w)) f b) = None \<and>
    displayed_error (app_screen (app (handleRephrase now rt input t mw act w))) = None"
proof -
  have "protocol_ok evs" using assms(2) entry_points_protocol by blast
  then have "settled evs (handleRephrase now rt input t mw act w)"
    using assms(1,2) by (simp add: handleRephrase_def run_events_settled)
  with assms(3) show ?thesis by (simp add: settled_def no_output_no_error rephrase_view_def)
qed

subsection \<open>Witnesses\<close>

theorem ruleKeyDown_adds_witness:
  "ruleKeyDown ''Enter'' (editField (SetNewRule '' no emojis '') demo_form) =
     demo_form\<lparr>e_rules := e_rules demo_form @ [''no emojis''], e_newRule := []\<rparr>"
proof -
  have h: "js_trim '' no emojis '' \<noteq> []" by (simp add: js_trim_def js_space_def)
  have t: "js_trim '' no emojis '' = ''no emojis''" by (simp add: js_trim_def js_space_def)
  show ?thesis using ruleKeyDown_adds(1) [OF h, of demo_form] t by simp
qed

end
