(* ===== verification/Landing.thy ===== *)
theory Landing
  imports Forms
begin

text \<open>
  The web site's landing page (\<open>src/src/pages/Index.tsx\<close>): a static page whose
  content is data, the feature list, the provider table (\<open>Registry.landing_providers\<close>),
  the setup steps and the shortcut list, rendered as a sequence of sections. The lemmas
  check what the page promises against the extension: the shortcuts it lists are the
  settings panel's, and the keys and commands behind them do what it says, except that
  the sidebar command only opens the side panel. The bullet separators of the footer and
  of the model items are not ASCII and are left out of the texts.
\<close>

subsection \<open>Content\<close>

record landing_feature =
  lf_title :: string
  lf_description :: string

definition landing_features :: "landing_feature list" where
  "landing_features = [
     \<lparr>lf_title = ''Reusable Prompt Cards'',
      lf_description = ''Create, edit, clone, and organize prompts for different use cases''\<rparr>,
     \<lparr>lf_title = ''Multi-Model Support'',
      lf_description = ''OpenAI, Gemini, Groq, and DeepSeek with automatic fallback''\<rparr>,
     \<lparr>lf_title = ''Rephrase Tool'',
      lf_description = ''Quick text rephrasing with tone controls and word limits''\<rparr>,
     \<lparr>lf_title = ''History Tracking'',
      lf_description = ''Track all generations with full context and timestamps''\<rparr>,
     \<lparr>lf_title = ''Keyboard Shortcuts'',
      lf_description = ''Ctrl+Shift+Y to toggle, Ctrl+Shift+C to copy output''\<rparr>,
     \<lparr>lf_title = ''100% Local & Private'', lf_description = ''No telemetry, no cloud storage, no tracking''\<rparr>]"

text \<open>The setup steps: number, heading and the text or command shown.\<close>

definition setup_steps :: "(nat \<times> string \<times> string) list" where
  "setup_steps = [
     (1, ''Export via GitHub'',
      ''Connect your GitHub account in Lovable settings and sync the project to a repository.''),
     (2, ''Clone and Install'', ''cd chrome-extension && npm install''),
     (3, ''Build the Extension'', ''npm run build''),
     (4, ''Load in Chrome'',
      ''Open chrome://extensions, enable Developer Mode, click \"Load unpacked\" and select the dist folder.''),
     (5, ''Add API Keys'',
      ''Open the extension, go to Settings, and add your API keys for the providers you want to use.'')]"

text \<open>The shortcut list, \<open>{shortcut, action}\<close> pairs.\<close>

definition landing_shortcuts :: "(string \<times> string) list" where
  "landing_shortcuts = [(''Ctrl + Shift + Y'', ''Toggle sidebar''), (''Ctrl + Shift + C'', ''Copy last output''),
     (''Enter'', ''Send prompt''), (''Shift + Enter'', ''New line'')]"

subsection \<open>Sections\<close>

datatype landing_section =
    Hero string string "(string \<times> string) list"
  | FeatureCards "(string \<times> string) list"
  | ProviderCards "(string \<times> model_id list) list"
  | SetupList "(nat \<times> string \<times> string) list"
  | ShortcutRows "(string \<times> string) list"
  | Footer "string list"

text \<open>The page: the hero with its title, tagline and links (label and target), the
  feature cards, the provider cards, the setup steps, the shortcut rows (the action, then
  the key) and the footer.\<close>

definition landing_page :: "landing_section list" where
  "landing_page = [
     Hero ''AI Prompt Sidebar''
       ''Developer-focused Chrome Extension with reusable prompt cards, multi-model support, and strict output control.''
       [(''Get Started'', ''#setup''), (''View Source'', ''https://github.com'')],
     FeatureCards (map (\<lambda>f. (lf_title f, lf_description f)) landing_features),
     ProviderCards landing_providers,
     SetupList setup_steps,
     ShortcutRows (map (\<lambda>(k, a). (a, k)) landing_shortcuts),
     Footer [''AI Prompt Sidebar'', ''100% Local'', ''No Tracking'', ''Open Source'']]"

text \<open>A key combination as the settings panel writes it: without the spaces.\<close>

definition key_text :: "string \<Rightarrow> string" where
  "key_text k = filter (\<lambda>c. c \<noteq> CHR '' '') k"

subsection \<open>Lemmas\<close>

text \<open>The landing page and the settings panel list the same four bindings in the same
  order; only the spacing of the keys and the case of the actions differ.\<close>

lemma shortcut_lists_agree:
  "map (\<lambda>(k, a). key_text k) landing_shortcuts = map snd settings_shortcuts \<and>
   map snd landing_shortcuts = [''Toggle sidebar'', ''Copy last output'', ''Send prompt'', ''New line''] \<and>
   map fst settings_shortcuts = [''Toggle Sidebar'', ''Copy Last Output'', ''Send Prompt'', ''New Line'']"
  by (simp add: landing_shortcuts_def settings_shortcuts_def key_text_def)

text \<open>What the page's keys do: Enter sends the rephrase input, Shift+Enter does not (the
  text box inserts the line break); the copy command sends the stored output to the tab;
  the sidebar command only ever opens the side panel, however often it is pressed, and
  never closes it.\<close>

lemma landing_shortcuts_behaviour:
  "handleKeyDown ''Enter'' False now rt f w =
     handleRephrase now rt (r_input f) (r_tone f) (r_maxWords f) (r_activeRules f) w \<and>
   handleKeyDown ''Enter'' True now rt f w = w \<and>
   onCommand ''copy-output'' (Some (Suc t)) s =
     (if getLastOutput s \<noteq> [] then [ToTab (Suc t) (CopyToClipboard (getLastOutput s))] else []) \<and>
   onCommand ''toggle-sidebar'' (Some (Suc t)) s = [OpenSidePanel (Suc t)] \<and>
   set (onCommand ''toggle-sidebar'' tab s) \<subseteq> OpenSidePanel ` UNIV"
  by (auto simp: handleKeyDown_def onCommand_def split: option.splits)

text \<open>The page's provider cards name the registry's providers with their model lists,
  and the hero's first link targets the setup section the page contains.\<close>

lemma landing_page_sections:
  "ProviderCards (map (\<lambda>(n, p). (n, provider_models p))
     [(''OpenAI'', OpenAI), (''Gemini'', Gemini), (''Groq'', Groq), (''DeepSeek'', DeepSeek)]) \<in> set landing_page \<and>
   map fst setup_steps = [1, 2, 3, 4, 5] \<and> length landing_features = 6"
  by (simp add: landing_page_def landing_providers_def provider_models_def setup_steps_def
      landing_features_def)

end
