(* ===== verification/ChatApi.thy ===== *)
theory ChatApi
  imports Adapters
begin

text \<open>
  The non-streaming \<open>chat\<close> method of the four adapters of
  \<open>lib/providers/adapters.ts\<close>. It posts the same messages without \<open>stream: true\<close>
  and resolves with one \<open>AIResponse\<close>, or rejects: every error of \<open>chat\<close> is thrown.
  No code of the extension calls \<open>chat\<close>; it is part of the \<open>ProviderAdapter\<close>
  interface.

  The response body is the text \<open>response.json()\<close> parses (\<open>resp_text\<close>). The fields
  of the result are the JavaScript values the code reads out of the JSON, kept as
  \<open>jsval\<close>: \<open>content\<close> is whatever \<open>data.choices[0].message.content\<close> holds, and the
  token counts are \<open>data.usage?.prompt_tokens || 0\<close> and its completion twin.
\<close>

record chat_response =
  cr_content :: jsval
  cr_model :: "model_id option"
  cr_provider :: provider
  cr_tokens :: "(jsval \<times> jsval) option"

text \<open>The request body without the \<open>stream\<close> field.\<close>

definition openai_chat_request ::
  "string \<Rightarrow> chat_message list \<Rightarrow> model_id option \<Rightarrow> string \<Rightarrow> request" where
  "openai_chat_request url messages model key =
     \<lparr>req_url = url, req_auth = Some (''Bearer '' @ key),
      req_body = PlainChatBody model messages (7 / 10)\<rparr>"

definition gemini_chat_request :: "chat_message list \<Rightarrow> model_id option \<Rightarrow> string \<Rightarrow> request" where
  "gemini_chat_request messages model key =
     \<lparr>req_url = ''https://generativelanguage.googleapis.com/v1beta/models/'' @ model_text model @
        '':generateContent?key='' @ key,
      req_auth = None,
      req_body = GeminiBody (gemini_contents messages) (gemini_system messages)\<rparr>"

text \<open>\<open>data.choices[0].message.content\<close>, with no optional chaining.\<close>

definition openai_message_content :: "json \<Rightarrow> jsval option" where
  "openai_message_content data = do {
     cs \<leftarrow> js_get (Val data) ''choices'';
     c0 \<leftarrow> js_at0 cs;
     m \<leftarrow> js_get c0 ''message'';
     js_get m ''content'' }"

text \<open>\<open>data.candidates[0].content.parts[0].text\<close>.\<close>

definition gemini_message_text :: "json \<Rightarrow> jsval option" where
  "gemini_message_text data = do {
     cs \<leftarrow> js_get (Val data) ''candidates'';
     c0 \<leftarrow> js_at0 cs;
     ct \<leftarrow> js_get c0 ''content'';
     ps \<leftarrow> js_get ct ''parts'';
     p0 \<leftarrow> js_at0 ps;
     js_get p0 ''text'' }"

definition js_or_zero :: "jsval \<Rightarrow> jsval" where
  "js_or_zero v = (if js_truthy v then v else Val (JNum 0))"

text \<open>\<open>{prompt: data.usage?.prompt_tokens || 0, completion: ... || 0}\<close>.\<close>

definition usage_tokens :: "json \<Rightarrow> (jsval \<times> jsval) option" where
  "usage_tokens data = do {
     u \<leftarrow> js_get (Val data) ''usage'';
     pt \<leftarrow> js_get_opt u ''prompt_tokens'';
     ct \<leftarrow> js_get_opt u ''completion_tokens'';
     Some (js_or_zero pt, js_or_zero ct) }"

text \<open>Everything after \<open>fetch\<close> resolved. \<open>read\<close> builds the result from the parsed
  body; \<open>None\<close> is a \<open>TypeError\<close> thrown while reading it.\<close>

definition chat_response_of ::
  "runtime \<Rightarrow> string \<Rightarrow> (json \<Rightarrow> chat_response option) \<Rightarrow> http_response \<Rightarrow> js_error + chat_response" where
  "chat_response_of rt dflt read response =
     (if \<not> resp_ok response then
        (case json_parse rt (resp_text response) of
           None \<Rightarrow> Inl SyntaxErr
         | Some err \<Rightarrow> (case error_message dflt err of
             None \<Rightarrow> Inl TypeErr
           | Some msg \<Rightarrow> Inl (ErrorMsg msg)))
      else (case json_parse rt (resp_text response) of
              None \<Rightarrow> Inl SyntaxErr
            | Some data \<Rightarrow> (case read data of None \<Rightarrow> Inl TypeErr | Some r \<Rightarrow> Inr r)))"

definition openai_read :: "provider \<Rightarrow> model_id option \<Rightarrow> json \<Rightarrow> chat_response option" where
  "openai_read p model data = do {
     c \<leftarrow> openai_message_content data;
     tk \<leftarrow> usage_tokens data;
     Some \<lparr>cr_content = c, cr_model = model, cr_provider = p, cr_tokens = Some tk\<rparr> }"

definition gemini_read :: "model_id option \<Rightarrow> json \<Rightarrow> chat_response option" where
  "gemini_read model data = do {
     c \<leftarrow> gemini_message_text data;
     Some \<lparr>cr_content = c, cr_model = model, cr_provider = Gemini, cr_tokens = None\<rparr> }"

definition openai_compat_chat ::
  "string \<Rightarrow> string \<Rightarrow> provider \<Rightarrow> runtime \<Rightarrow> chat_message list \<Rightarrow> model_id option \<Rightarrow> string \<Rightarrow>
   js_error + chat_response" where
  "openai_compat_chat url dflt p rt messages model key =
     (case fetch rt (openai_chat_request url messages model key) of
        Inl e \<Rightarrow> Inl e
      | Inr response \<Rightarrow> chat_response_of rt dflt (openai_read p model) response)"

definition openai_chat ::
  "runtime \<Rightarrow> chat_message list \<Rightarrow> model_id option \<Rightarrow> string \<Rightarrow> js_error + chat_response" where
  "openai_chat = openai_compat_chat
     ''https://api.openai.com/v1/chat/completions'' ''OpenAI API error'' OpenAI"

definition groq_chat ::
  "runtime \<Rightarrow> chat_message list \<Rightarrow> model_id option \<Rightarrow> string \<Rightarrow> js_error + chat_response" where
  "groq_chat = openai_compat_chat
     ''https://api.groq.com/openai/v1/chat/completions'' ''Groq API error'' Groq"

definition deepseek_chat ::
  "runtime \<Rightarrow> chat_message list \<Rightarrow> model_id option \<Rightarrow> string \<Rightarrow> js_error + chat_response" where
  "deepseek_chat = openai_compat_chat
     ''https://api.deepseek.com/v1/chat/completions'' ''DeepSeek API error'' DeepSeek"

definition gemini_chat ::
  "runtime \<Rightarrow> chat_message list \<Rightarrow> model_id option \<Rightarrow> string \<Rightarrow> js_error + chat_response" where
  "gemini_chat rt messages model key =
     (case fetch rt (gemini_chat_request messages model key) of
        Inl e \<Rightarrow> Inl e
      | Inr response \<Rightarrow> chat_response_of rt ''Gemini API error'' (gemini_read model) response)"

definition adapter_chat ::
  "provider \<Rightarrow> runtime \<Rightarrow> chat_message list \<Rightarrow> model_id option \<Rightarrow> string \<Rightarrow> js_error + chat_response" where
  "adapter_chat p = (case p of
      OpenAI \<Rightarrow> openai_chat | Gemini \<Rightarrow> gemini_chat | Groq \<Rightarrow> groq_chat | DeepSeek \<Rightarrow> deepseek_chat)"

subsection \<open>Fixtures\<close>

definition chat_payload :: json where
  "chat_payload = JObj [(''choices'', JArr [JObj [(''message'', JObj [(''content'', JStr ''Hi'')])]])]"

definition chat_rt :: runtime where
  "chat_rt = \<lparr>json_parse = (\<lambda>s. if s = ''OK'' then Some chat_payload
        else if s = ''BLOCKED'' then Some (JObj [(''promptFeedback'', JObj [])]) else None),
     fetch = (\<lambda>req. Inr \<lparr>resp_ok = True,
        resp_text = (if req_auth req = None then ''BLOCKED'' else ''OK''), resp_body = None\<rparr>)\<rparr>"

definition error_response :: http_response where
  "error_response = \<lparr>resp_ok = False, resp_text = ''E'', resp_body = None\<rparr>"

subsection \<open>Properties of chat\<close>

text \<open>On a non-2xx response \<open>chat\<close> always rejects, and it rejects with exactly
  the error that \<open>streamChat\<close> reports through \<open>onError\<close> or rejects with on the
  same response: the two methods agree on the error path.\<close>

theorem chat_stream_error_agree:
  assumes "\<not> resp_ok resp"
  shows "isl (chat_response_of rt dflt rd resp) \<and>
    (chat_response_of rt dflt rd resp = Inl e \<longleftrightarrow>
       stream_response rt h dflt p model resp = Inl e \<or>
       stream_response rt h dflt p model resp = Inr [OnError e])"
  using assms
  by (auto simp: chat_response_of_def stream_response_def split: option.splits)

text \<open>\<open>chat\<close> of the OpenAI-compatible adapters on a 2xx response
  \<open>{"choices":[{"message":{"content":t}}]}\<close> resolves with content \<open>t\<close>, its own
  provider, the model it was called with, and token counts 0 when \<open>usage\<close> is absent.\<close>

theorem openai_chat_success:
  assumes "fetch rt (openai_chat_request url messages model key) = Inr resp" and "resp_ok resp"
    and "json_parse rt (resp_text resp) =
           Some (JObj [(''choices'', JArr [JObj [(''message'', JObj [(''content'', JStr txt)])]])])"
  shows "openai_compat_chat url dflt p rt messages model key =
     Inr \<lparr>cr_content = Val (JStr txt), cr_model = model, cr_provider = p,
          cr_tokens = Some (Val (JNum 0), Val (JNum 0))\<rparr>"
  using assms
  by (simp add: openai_compat_chat_def chat_response_of_def openai_read_def
      openai_message_content_def usage_tokens_def js_prop_def js_or_zero_def)

text \<open>Gemini's \<open>chat\<close> reads \<open>data.candidates[0]\<close> without optional chaining: a
  2xx answer without candidates (a blocked prompt reports only \<open>promptFeedback\<close>)
  makes it reject with a \<open>TypeError\<close> instead of the vendor's explanation.\<close>

theorem gemini_chat_no_candidates:
  assumes "fetch rt (gemini_chat_request messages model key) = Inr resp" and "resp_ok resp"
    and "json_parse rt (resp_text resp) = Some (JObj [(''promptFeedback'', fb)])"
  shows "gemini_chat rt messages model key = Inl TypeErr"
  using assms
  by (simp add: gemini_chat_def chat_response_of_def gemini_read_def gemini_message_text_def
      js_prop_def)

subsection \<open>Witnesses\<close>

theorem chat_stream_error_agree_witness:
  "chat_response_of demo_error_rt ''Groq API error'' (openai_read Groq None) error_response =
     Inl (ErrorMsg ''Invalid API key'')"
proof -
  have h: "\<not> resp_ok error_response" by (simp add: error_response_def)
  have "stream_response demo_error_rt (openai_line (json_parse demo_error_rt)) ''Groq API error'' Groq None
      error_response = Inr [OnError (ErrorMsg ''Invalid API key'')]"
    by (simp add: stream_response_def error_response_def demo_error_rt_def error_message_def js_prop_def)
  then show ?thesis
    using chat_stream_error_agree [OF h, of demo_error_rt "''Groq API error''" "openai_read Groq None"
        "ErrorMsg ''Invalid API key''" "openai_line (json_parse demo_error_rt)" Groq None]
    by simp
qed

theorem openai_chat_success_witness:
  "openai_compat_chat ''https://api.groq.com/openai/v1/chat/completions'' ''Groq API error'' Groq
     chat_rt [] (Some ''mixtral-8x7b'') ''k'' =
   Inr \<lparr>cr_content = Val (JStr ''Hi''), cr_model = Some ''mixtral-8x7b'', cr_provider = Groq,
        cr_tokens = Some (Val (JNum 0), Val (JNum 0))\<rparr>"
  by (rule openai_chat_success) (simp add: chat_rt_def openai_chat_request_def chat_payload_def)+

theorem gemini_chat_no_candidates_witness:
  "gemini_chat chat_rt [] (Some ''gemini-1.5-pro'') ''k'' = Inl TypeErr"
  by (rule gemini_chat_no_candidates [of _ _ _ _ _ "JObj []"])
    (simp add: chat_rt_def gemini_chat_request_def)+

end
