(* ===== verification/Spec2Isabelle.thy ===== *)
theory Spec2Isabelle
  imports Landing ChatApi
begin

text \<open>
  A verification development of the PromptPal sidebar, a Chrome extension that applies
  prompt templates ("cards") to page text and streams the answer of one of four LLM
  providers (\<open>src/chrome-extension/src\<close>).

  \<^bold>\<open>How the program is put together.\<close> The popup and the side panel
  (\<open>popup/App.tsx\<close>, \<open>sidepanel/App.tsx\<close>) render the same React tree over a zustand
  store (\<open>store/app-store.ts\<close>), which keeps the UI state and writes through to
  \<open>lib/storage.ts\<close>, a thin layer over \<open>chrome.storage.local\<close>. Running a card
  (\<open>components/CardGrid.tsx\<close>) calls \<open>PromptEngine.executeCard\<close>
  (\<open>lib/prompt-engine.ts\<close>), which compiles the card's template into a system and a
  user message, picks a provider from the model (\<open>getProviderForModel\<close>) or by
  fallback, and calls that provider's adapter (\<open>lib/providers/adapters.ts\<close>). The
  adapter posts the request with \<open>fetch\<close>, reads the server-sent-event stream and
  reports through three callbacks, \<open>onToken\<close>, \<open>onComplete\<close>, \<open>onError\<close>, which
  drive the store. \<open>executeRephrase\<close> does the same for the rephrase panel. The
  service worker (\<open>background/service_worker.ts\<close>) builds the context menus from the
  stored cards, routes menu clicks and keyboard commands to the side panel and the content
  script (\<open>content/content_script.ts\<close>), answers page-context requests and stores the
  last output.

  \<^bold>\<open>Theories and what they model.\<close>
  \<^item> \<open>Prelude\<close>: the JavaScript built-ins the code relies on (\<open>split\<close>, \<open>join\<close>,
    \<open>startsWith\<close>, \<open>slice\<close>, \<open>findIndex\<close>, \<open>||\<close> on strings, decimal
    rendering) as executable functions, with the shared lemmas.
  \<^item> \<open>Types\<close>: \<open>types/index.ts\<close> as records and datatypes. The callbacks are
    modelled by the trace of calls made to them (\<open>event list\<close>); a rejected promise is
    the left side of \<open>js_error + event list\<close>.
  \<^item> \<open>Registry\<close>: \<open>getProviderForModel\<close>, and the provider table of the web
    site's landing page, which lists the same models.
  \<^item> \<open>PromptCompiler\<close>: \<open>buildSystemPrompt\<close>, \<open>interpolateVariables\<close> (with
    \<open>String.prototype.replace\<close> and its \<open>$\<close>-patterns written out) and
    \<open>buildMessages\<close>.
  \<^item> \<open>JsValue\<close>: JSON values and the property reads (\<open>.\<close>, \<open>?.\<close>, \<open>[0]\<close>,
    truthiness) the adapters apply to \<open>JSON.parse\<close> results.
  \<^item> \<open>StreamDecoder\<close>: the read loop shared by the four \<open>streamChat\<close> methods, twice:
    \<open>read_loop\<close> over the finite list of reads, and \<open>read_forever\<close> over a reader that
    nothing bounds, a \<open>partial_function\<close> in the option monad; with the
    OpenAI-compatible and Gemini line handlers. \<open>buffered_events\<close> is the decoder the
    spec asks for, over the whole stream.
  \<^item> \<open>Adapters\<close> and \<open>ChatApi\<close>: request construction, the HTTP error branches, the
    four \<open>streamChat\<close> and the four \<open>chat\<close> methods; \<open>fetch\<close> and
    \<open>JSON.parse\<close> are fields of a \<open>runtime\<close> record, so every lemma holds for every
    network behaviour. The callback protocol of spec section 4.2 is the inductive relation
    \<open>cb_step\<close> on a four-state phase.
  \<^item> \<open>Storage\<close>: the \<open>storage\<close> object over a store record of optional keys
    (\<open>None\<close> is a missing key), one definition per method.
  \<^item> \<open>Orchestrator\<close>: \<open>executeWithProvider\<close>, \<open>executeCard\<close> with its fixed fallback
    list, \<open>executeRephrase\<close> with its \<open>Object.entries\<close> fallback.
  \<^item> \<open>AppStore\<close>: every action of the zustand store over a \<open>world\<close> of UI state, the
    store and the messages sent to the service worker; \<open>app_step\<close> runs one action and
    \<open>reachable\<close> is the inductive set of worlds reached from a fresh page.
  \<^item> \<open>RunSession\<close>: the run handlers of the card grid and the rephrase panel, as the
    fold of the callback handler over the engine's event trace.
  \<^item> \<open>Editors\<close>: the card editor's form, load effect and save, the header's buttons,
    the settings panel's key form and the model selector's menu, each component's
    \<open>useState\<close> fields as a record and each handler as a function calling the store.
    An editor that stays rendered while a handler runs keeps its form (\<open>editor_next\<close>):
    its effect reruns only when \<open>selectedCard\<close> changes, and loads only a card.
  \<^item> \<open>Screens\<close>: which panels the page renders for a state, the output panel, the
    history list's labels and relative times, and the four loads of the mount effect.
  \<^item> \<open>Interactions\<close>: the rephrase panel's own state, its Send button and
    keyboard, the React rule that keeps a component's state from mount to unmount, the
    side panel's \<open>REPHRASE_SELECTION\<close> handler with the renders around it, two
    runs whose callbacks interleave over one store, the card grid's Run button and card
    menu, and the content script's toast over the page's elements with its timers.
  \<^item> \<open>Panels\<close>: the constant tables the components render (the editor's tones,
    model overrides and variables, the model selector's labels, the rephrase panel's tones
    and rules, the header's tabs, the history sizes), the settings panel's status line, the
    three copy buttons over a clipboard field, and the side panel's own render and mount
    effect (\<open>sidepanel/App.tsx\<close>), proved equal to the popup's.
  \<^item> \<open>CardGrid\<close>: the rendered card list and its items, and the mouse as it
    reaches the grid: a press runs every item's click-outside listener, the result is
    rendered, then the click reaches the element if it is still there.
  \<^item> \<open>Views\<close> and \<open>Forms\<close>: what the history list, the rephrase panel, the
    header, the model selector, the settings panel and the card editor render for their
    state (labels, highlights, disabled buttons, which parts are shown), as records of
    texts and flags, with the clicks and \<open>onChange\<close> handlers not modelled before
    (history entry and Clear All, refresh, selector toggle and click-outside, Back, the
    editor's field setters and the rule input's Enter). A render that throws is
    \<open>None\<close>.
  \<^item> \<open>Landing\<close>: the web site's landing page (\<open>src/src/pages/Index.tsx\<close>) as
    data and sections, with what it promises checked against the extension: its shortcut
    list is the settings panel's, and the keys and commands behind it do what it says.
  \<^item> \<open>ServiceWorker\<close>: menu creation, atomic and as three await-separated segments
    whose interleavings \<open>cm_run\<close> executes over a schedule; click and command routing;
    the message handlers of the service worker, the content script and the side panel.

  \<^bold>\<open>Results.\<close> Every entry point follows the callback protocol: tokens, then exactly
  one completion or error, last. Without a usable key the engine reports one error and
  makes no request; with one usable fallback provider it uses that provider's first model
  and key. The completed content is the concatenation of the tokens shown. The stream
  decoder agrees with the buffered decoder when reads end at line breaks; the unbounded
  read loop returns exactly on the streams that end, with the value of the list-driven
  loop. The history is capped at \<open>historySize\<close>; a key update keeps the providers'
  \<open>enabled\<close> flags consistent. The store keeps its card list sorted and in sync with
  storage in every reachable state; a run started from the card grid always settles; the
  editor saves an unchanged card as it was and, opened fresh, a new card at the end; the mount loads
  commute, and the side panel renders and loads as the popup does; every history size the settings panel
  offers caps the history recorded next; the model menu keeps the default model and provider in agreement; and every
  handler of the page is a sequence of store actions (\<open>ui_handlers_reachable\<close>), so
  these invariants hold for the page as the user drives it. The views show
  one highlighted header tab, slider values within their bounds and on their step, a saved
  key's row marked and its Save button disabled, and the clear-all button empties the
  list. The theorems
  of this theory join the components: the commit-card scenario of spec section 8 end to
  end, the content of a completed card run, and a run followed by the copy shortcut.

  \<^bold>\<open>Findings\<close> (theorems named in the manifest): an SSE event split across reads is
  lost; \<open>$\<close>-patterns of the selection are expanded, \<open>$&\<close> into the placeholder
  itself, for every template and selection; a non-JSON error body rejects the
  adapter's promise; the two entry points follow different fallback orders, for all
  settings; a missing provider entry leaves any card run generating for ever; the side panel ignores the
  card chosen in the context menu; interleaved menu rebuilds keep any deleted card's
  item, where the same rebuilds in sequence remove it; after any deletion but of the
  last-ranked card, a duplicated card shares its order with another; the add button
  pressed while a card is open leaves that card's fields in the form, so Save copies it; the error of a failed run is
  never displayed; a deleted card's history is labelled \<open>Unknown\<close>; the selection
  of a "Rephrase selection" menu action never reaches the rephrase panel; Enter starts a
  second rephrase while one is running; the variables a card declares are never read, so
  the Summarize Page card summarizes the selection; with two or more cards the card
  menu's entries never run, because the other cards' click-outside listeners close the
  menu on the press before the click; the UI mode the settings panel stores is read by
  nothing; a failed rephrase, like a failed card run, shows no error; the
  "Toggle sidebar" command only opens the side panel.

  \<^bold>\<open>Loops, bounds and fuel.\<close> The loops over lists (the lines of a chunk, the
  providers, the cards) are folds or structural recursion, and \<open>replace_scan\<close>
  terminates by the length of the rest of the string. The only loop that may not end is
  the \<open>while (true)\<close> over \<open>reader.read()\<close>: it is \<open>read_forever\<close>, whose value
  \<open>None\<close> is a stream that never ends, and \<open>read_forever_terminates\<close> says exactly
  when it returns. No fuel is used. Times are integers of milliseconds.

  \<^bold>\<open>Not modelled.\<close> \<open>JSON.parse\<close> and \<open>fetch\<close> are parameters; numbers in
  JSON are integers; byte decoding (\<open>TextDecoder\<close>) is not modelled: chunks are
  strings. The sharing of the \<open>defaultSettings\<close> object between calls of
  \<open>getSettings\<close> is not modelled: the store holds values. A failure of
  \<open>chrome.storage\<close> itself is not modelled. In the components, the markup and styling
  are not modelled; the clipboard is a field that the copy buttons write, and a rejected
  \<open>writeText\<close> leaves it unchanged; the two-second timers of the copied and saved
  marks are one reset each (\<open>copy_timeout\<close>), not scheduled. The key bindings that the landing page
  and the settings panel list (Ctrl+Shift+Y, Ctrl+Shift+C) are set in the extension's
  manifest, which is not under \<open>src\<close>: the lemmas check the commands they name, not
  the binding. The build configuration has no behaviour.
\<close>

definition commit_context :: page_context where
  "commit_context = \<lparr>selection = ''fix(api): add retry'', pageTitle = ''PR #12'', pageUrl = [],
     pageContent = []\<rparr>"

definition openai_settings :: settings where
  "openai_settings = defaultSettings\<lparr>providers :=
     map (\<lambda>(k, c). if k = OpenAI then (k, set_provider_key OpenAI ''sk-demo'' c) else (k, c))
       (providers defaultSettings)\<rparr>"

lemma complete_is_last:
  "protocol_ok evs \<Longrightarrow> OnComplete r \<in> set evs \<Longrightarrow> last evs = OnComplete r"
  unfolding protocol_ok_iff by auto

lemma tone_instruction_not_Nil [simp]: "tone_instruction x \<noteq> []"
  by (cases x) (simp_all add: tone_instruction_def)

lemma join_with_not_Nil: "x \<in> set xs \<Longrightarrow> x \<noteq> [] \<Longrightarrow> join_with sep xs \<noteq> []"
  by (induction sep xs rule: join_with.induct) auto

lemma buildSystemPrompt_not_Nil: "buildSystemPrompt t \<noteq> []"
proof -
  have "tone_instruction (tone t) \<in> set (system_parts t)" by (simp add: system_parts_def)
  then show ?thesis unfolding buildSystemPrompt_def by (rule join_with_not_Nil) simp
qed

text \<open>The commit-message scenario of spec section 8: the default commit card run on
  the selection "fix(api): add retry" sends the card's system prompt, whose last line is
  "- Output only the commit message", and the instruction, an empty line and the
  selection as the user message.\<close>

theorem commit_card_scenario:
  "buildMessages (defaultPromptCards now ! 2) [] commit_context =
     [\<lparr>role = System, content =
        ''You are a senior developer writing commit messages.\<newline>'' @
        ''Be strict and precise. Follow instructions exactly.\<newline>'' @
        ''Keep your response under 50 words.\<newline>\<newline>Rules to follow:\<newline>'' @
        ''- Use conventional commit format\<newline>- Be concise\<newline>- No explanations\<newline>'' @
        ''- Output only the commit message''\<rparr>,
      \<lparr>role = User, content =
        ''Write a concise git commit message for these changes:\<newline>\<newline>fix(api): add retry''\<rparr>]"
  by (simp add: buildMessages_def defaultPromptCards_def default_card_def buildSystemPrompt_def
      system_parts_def tone_instruction_def word_limit_line_def word_limit_prefix_def
      string_of_int_def string_of_nat.simps digit_char_simps rules_header_def bullet_def
      interpolateVariables_def commit_context_def replace_lemmas)

text \<open>For every card, the Gemini request body built from the card's messages carries
  the compiled system prompt as \<open>systemInstruction\<close> and the user message as the single
  \<open>user\<close> content: the system message is never sent as a turn, and never dropped.\<close>

theorem gemini_request_of_card:
  "req_body (gemini_request (buildMessages c input ctx) model key) =
     GeminiBody [(''user'', content (buildMessages c input ctx ! 1))]
       (Some (buildSystemPrompt (template c)))"
  by (simp add: gemini_request_def gemini_contents_def gemini_system_def buildMessages_def Let_def
      buildSystemPrompt_not_Nil)

text \<open>C6. When a card run completes, the response handed to \<open>onComplete\<close> (the
  output the UI saves to the history) is the concatenation of the tokens shown through
  \<open>onToken\<close>, whichever provider the engine chose.\<close>

theorem executeCard_complete_content:
  assumes "executeCard rt s c input ctx = Inr evs" and "OnComplete r \<in> set evs"
  shows "r_content r = token_text evs"
  using assms
  by (auto simp: executeCard_def Let_def split: option.splits if_splits sum.splits
      dest: executeWithProvider_complete)

theorem executeCard_complete_content_witness:
  "r_content \<lparr>r_content = ''Hi'', r_model = Some ''gpt-4o-mini'', r_provider = OpenAI, r_tokens = None\<rparr>
     = token_text [OnToken ''Hi'',
         OnComplete \<lparr>r_content = ''Hi'', r_model = Some ''gpt-4o-mini'', r_provider = OpenAI,
           r_tokens = None\<rparr>]"
proof -
  have h: "executeCard demo_rt openai_settings (defaultPromptCards 0 ! 2) [] commit_context =
      Inr [OnToken ''Hi'',
        OnComplete \<lparr>r_content = ''Hi'', r_model = Some ''gpt-4o-mini'', r_provider = OpenAI,
          r_tokens = None\<rparr>]"
    by (simp add: executeCard_def Let_def openai_settings_def default_settings_simps
        set_provider_key_def executeWithProvider_def demo_rt_stream)
  show ?thesis using executeCard_complete_content [OF h] by simp
qed

text \<open>C9. End to end, from a card run to the clipboard: when a card run completes with
  non-empty output, the page sends that output to the service worker, which stores it,
  and the \<open>copy-output\<close> shortcut then sends exactly that text to the content script,
  which writes it to the clipboard.\<close>

theorem run_then_copy:
  assumes run: "executeCard rt (getSettings (st w)) c [] (pageContext (app w)) = Inr evs"
    and fin: "OnComplete r \<in> set evs" and ne: "token_text evs \<noteq> []" and t: "t \<noteq> 0"
  shows "onCommand ''copy-output'' (Some t)
           (fst (sw_onMessage (last (outbox (runCard now rt c w))) (st (runCard now rt c w), ms))) =
         [ToTab t (CopyToClipboard (token_text evs))] \<and>
         fst (content_onMessage (CopyToClipboard (token_text evs)) True sel clip) = token_text evs"
proof -
  have p: "protocol_ok evs" using run entry_points_protocol by blast
  have "settled evs (runCard now rt c w)"
    using run p by (simp add: runCard_def Let_def run_events_settled)
  moreover have "last evs = OnComplete r" using complete_is_last [OF p fin] .
  moreover have "r_content r = token_text evs"
    using run fin
    by (auto simp: executeCard_def Let_def split: option.splits if_splits sum.splits
        dest: executeWithProvider_complete)
  ultimately have "last (outbox (runCard now rt c w)) = SaveLastOutput (token_text evs)"
    by (simp add: settled_def)
  with ne t show ?thesis
    by (simp add: onCommand_def sw_onMessage_def setLastOutput_def getLastOutput_def
        content_onMessage_def)
qed

theorem run_then_copy_witness:
  "onCommand ''copy-output'' (Some 1)
     (fst (sw_onMessage (last (outbox (runCard 1 demo_rt (defaultPromptCards 0 ! 2) keyed_world)))
        (st (runCard 1 demo_rt (defaultPromptCards 0 ! 2) keyed_world), []))) =
     [ToTab 1 (CopyToClipboard ''Hi'')] \<and>
   fst (content_onMessage (CopyToClipboard ''Hi'') True [] []) = ''Hi''"
proof -
  have h1: "executeCard demo_rt (getSettings (st keyed_world)) (defaultPromptCards 0 ! 2) []
      (pageContext (app keyed_world)) = Inr [OnToken ''Hi'', OnComplete demo_response]"
    by (simp add: keyed_world_settings keyed_executeCard)
  show ?thesis using run_then_copy [OF h1, of demo_response 1] by simp
qed

end
